theory Spec2Isabelle
  imports Main "HOL-Library.Word"
begin

unbundle bit_operations_syntax

section \<open>Host constants\<close>

text \<open>
  Error numbers of the host kernel (\<^verbatim>\<open>sys/errno.h\<close>). A vnode operation returns an
  \<^verbatim>\<open>int\<close>: 0 on success, an error number otherwise.
\<close>

abbreviation EPERM :: int where "EPERM \<equiv> 1"
abbreviation ENOENT :: int where "ENOENT \<equiv> 2"
abbreviation EIO :: int where "EIO \<equiv> 5"
abbreviation ENXIO :: int where "ENXIO \<equiv> 6"
abbreviation E2BIG :: int where "E2BIG \<equiv> 7"
abbreviation EBADF :: int where "EBADF \<equiv> 9"
abbreviation EACCES :: int where "EACCES \<equiv> 13"
abbreviation EFAULT :: int where "EFAULT \<equiv> 14"
abbreviation EBUSY :: int where "EBUSY \<equiv> 16"
abbreviation EXDEV :: int where "EXDEV \<equiv> 18"
abbreviation ENODEV :: int where "ENODEV \<equiv> 19"
abbreviation ENOTDIR :: int where "ENOTDIR \<equiv> 20"
abbreviation EISDIR :: int where "EISDIR \<equiv> 21"
abbreviation EINVAL :: int where "EINVAL \<equiv> 22"
abbreviation EFBIG :: int where "EFBIG \<equiv> 27"
abbreviation EROFS :: int where "EROFS \<equiv> 30"
abbreviation EMLINK :: int where "EMLINK \<equiv> 31"
abbreviation ERANGE :: int where "ERANGE \<equiv> 34"
abbreviation EAGAIN :: int where "EAGAIN \<equiv> 35"
abbreviation ENOTSUP :: int where "ENOTSUP \<equiv> 45"
abbreviation ENOTCONN :: int where "ENOTCONN \<equiv> 57"
abbreviation ENAMETOOLONG :: int where "ENAMETOOLONG \<equiv> 63"
abbreviation ENOSYS :: int where "ENOSYS \<equiv> 78"
abbreviation EJUSTRETURN :: int where "EJUSTRETURN \<equiv> - 2"

text \<open>Flag bits of \<^verbatim>\<open>sys/mman.h\<close>, \<^verbatim>\<open>sys/fcntl.h\<close>, \<^verbatim>\<open>sys/vnode.h\<close> and \<^verbatim>\<open>sys/ioccom.h\<close>.\<close>

abbreviation PROT_READ :: "32 word" where "PROT_READ \<equiv> 1"
abbreviation PROT_WRITE :: "32 word" where "PROT_WRITE \<equiv> 2"
abbreviation PROT_EXEC :: "32 word" where "PROT_EXEC \<equiv> 4"

abbreviation FREAD :: "32 word" where "FREAD \<equiv> 1"
abbreviation FWRITE :: "32 word" where "FWRITE \<equiv> 2"

abbreviation O_RDONLY :: "32 word" where "O_RDONLY \<equiv> 0"
abbreviation O_WRONLY :: "32 word" where "O_WRONLY \<equiv> 1"
abbreviation O_RDWR :: "32 word" where "O_RDWR \<equiv> 2"
abbreviation O_CREAT :: "32 word" where "O_CREAT \<equiv> 512"

abbreviation IO_NDELAY :: "32 word" where "IO_NDELAY \<equiv> 16"

abbreviation S_IFMT :: "32 word" where "S_IFMT \<equiv> 61440"
abbreviation S_IRWXU :: "32 word" where "S_IRWXU \<equiv> 448"
abbreviation ALLPERMS :: "32 word" where "ALLPERMS \<equiv> 4095"

abbreviation IOC_OUT :: "64 word" where "IOC_OUT \<equiv> 1073741824"
abbreviation IOC_IN :: "64 word" where "IOC_IN \<equiv> 2147483648"
abbreviation IOCPARM_MASK :: "64 word" where "IOCPARM_MASK \<equiv> 8191"

text \<open>Flag bits of a component name (\<^verbatim>\<open>sys/namei.h\<close>).\<close>

abbreviation LOCKPARENT :: "32 word" where "LOCKPARENT \<equiv> 8"
abbreviation WANTPARENT :: "32 word" where "WANTPARENT \<equiv> 16"
abbreviation ISDOTDOT :: "32 word" where "ISDOTDOT \<equiv> 8192"
abbreviation MAKEENTRY :: "32 word" where "MAKEENTRY \<equiv> 16384"
abbreviation ISLASTCN :: "32 word" where "ISLASTCN \<equiv> 32768"

text \<open>Flag bits of an open reply and the root node id (\<^verbatim>\<open>fuse_kernel.h\<close>).\<close>

abbreviation FOPEN_DIRECT_IO :: "32 word" where "FOPEN_DIRECT_IO \<equiv> 1"
abbreviation FOPEN_PURGE_ATTR :: "32 word" where "FOPEN_PURGE_ATTR \<equiv> 1073741824"
abbreviation FOPEN_PURGE_UBC :: "32 word" where "FOPEN_PURGE_UBC \<equiv> 2147483648"

abbreviation FUSE_ROOT_ID :: "64 word" where "FUSE_ROOT_ID \<equiv> 1"

text \<open>\<^verbatim>\<open>FUSE_MAXNAMLEN\<close> of \<^verbatim>\<open>fuse_param.h\<close>.\<close>

abbreviation FUSE_MAXNAMLEN :: nat where "FUSE_MAXNAMLEN \<equiv> 255"

section \<open>Data model\<close>

datatype vtype = VNON | VREG | VDIR | VBLK | VCHR | VLNK | VSOCK | VFIFO | VBAD | VSTR | VCPLX

subsection \<open>File handles (\<^verbatim>\<open>fuse_file.h\<close>)\<close>

datatype fufh_type = FUFH_RDONLY | FUFH_WRONLY | FUFH_RDWR

text \<open>
  \<^verbatim>\<open>struct fuse_filehandle\<close>. The use count is an \<^verbatim>\<open>int32_t\<close>: a 32-bit word read as a
  signed number with \<^const>\<open>sint\<close>; incrementing it wraps around.
\<close>

record fuse_filehandle =
  fh_id :: "64 word"
  open_count :: "32 word"
  open_flags :: "32 word"
  fuse_open_flags :: "32 word"

definition FUFH_IS_VALID :: "fuse_filehandle \<Rightarrow> bool" where
  "FUFH_IS_VALID f \<longleftrightarrow> 0 < sint (open_count f)"

definition FUFH_USE_INC :: "fuse_filehandle \<Rightarrow> fuse_filehandle" where
  "FUFH_USE_INC f = f\<lparr>open_count := open_count f + 1\<rparr>"

definition FUFH_USE_DEC :: "fuse_filehandle \<Rightarrow> fuse_filehandle" where
  "FUFH_USE_DEC f = f\<lparr>open_count := open_count f - 1\<rparr>"

definition FUFH_USE_RESET :: "fuse_filehandle \<Rightarrow> fuse_filehandle" where
  "FUFH_USE_RESET f = f\<lparr>open_count := 0\<rparr>"

text \<open>
  The two translation functions end in \<^verbatim>\<open>panic\<close> when no branch applies: the result
  \<open>None\<close> stands for the panic.
\<close>

definition fuse_filehandle_xlate_from_mmap :: "32 word \<Rightarrow> fufh_type option" where
  "fuse_filehandle_xlate_from_mmap fflags =
     (if fflags AND PROT_WRITE \<noteq> 0 then
        (if fflags AND (PROT_READ OR PROT_EXEC) \<noteq> 0 then Some FUFH_RDWR
         else Some FUFH_WRONLY)
      else if fflags AND (PROT_READ OR PROT_EXEC) \<noteq> 0 then Some FUFH_RDONLY
      else None)"

definition fuse_filehandle_xlate_from_fflags :: "32 word \<Rightarrow> fufh_type option" where
  "fuse_filehandle_xlate_from_fflags fflags =
     (if fflags AND FREAD \<noteq> 0 \<and> fflags AND FWRITE \<noteq> 0 then Some FUFH_RDWR
      else if fflags AND FWRITE \<noteq> 0 then Some FUFH_WRONLY
      else if fflags AND FREAD \<noteq> 0 then Some FUFH_RDONLY
      else if fflags = 0 then Some FUFH_RDONLY
      else None)"

fun fuse_filehandle_xlate_to_oflags :: "fufh_type \<Rightarrow> 32 word" where
  "fuse_filehandle_xlate_to_oflags FUFH_RDONLY = O_RDONLY"
| "fuse_filehandle_xlate_to_oflags FUFH_WRONLY = O_WRONLY"
| "fuse_filehandle_xlate_to_oflags FUFH_RDWR = O_RDWR"


subsection \<open>Wire protocol\<close>

datatype fuse_opcode =
    FUSE_LOOKUP | FUSE_FORGET | FUSE_GETATTR | FUSE_SETATTR | FUSE_READLINK | FUSE_SYMLINK
  | FUSE_MKNOD | FUSE_MKDIR | FUSE_UNLINK | FUSE_RMDIR | FUSE_RENAME | FUSE_LINK | FUSE_OPEN
  | FUSE_READ | FUSE_WRITE | FUSE_STATFS | FUSE_RELEASE | FUSE_FSYNC | FUSE_SETXATTR
  | FUSE_GETXATTR | FUSE_LISTXATTR | FUSE_REMOVEXATTR | FUSE_FLUSH | FUSE_INIT | FUSE_OPENDIR
  | FUSE_READDIR | FUSE_RELEASEDIR | FUSE_FSYNCDIR | FUSE_ACCESS | FUSE_CREATE | FUSE_INTERRUPT
  | FUSE_BMAP | FUSE_DESTROY | FUSE_IOCTL | FUSE_EXCHANGE

text \<open>
  The request payloads the vnode operations fill in (\<^verbatim>\<open>fdi.indata\<close>), one constructor per
  payload structure, with the fields the operations assign.
\<close>

datatype fuse_indata =
    No_in
  | Getattr_in
  | Name_in string
  | Forget_in "64 word"
  | Open_in "32 word"
  | Read_in "64 word" int "32 word"
  | Write_in "64 word" int "32 word" "8 word list"
  | Flush_in "64 word"
  | Release_in "64 word" "32 word"
  | Create_in "32 word" "32 word" string
  | Mknod_in "32 word" "32 word" string
  | Mkdir_in "32 word" string
  | Symlink_in string string
  | Link_in "64 word" string
  | Getxattr_in "32 word" "32 word" string
  | Listxattr_in "32 word"
  | Setxattr_in "32 word" "32 word" "32 word" string "8 word list"
  | Ioctl_in "64 word" "32 word" "32 word" "32 word" "8 word list"
  | Setattr_in "32 word" "64 word"
  | Fsync_in "64 word"
  | Readdir_in "64 word" int "32 word"
  | Rename_in "64 word" string string
  | Exchange_in "64 word" "64 word" string string "32 word"
  | Access_in "32 word"

record fuse_request =
  opcode :: fuse_opcode
  q_nodeid :: "64 word"
  indata :: fuse_indata

record fuse_attr =
  attr_mode :: "32 word"
  attr_size :: "64 word"
  attr_uid :: "32 word"
  attr_gid :: "32 word"
  attr_nlink :: "32 word"

text \<open>
  What an operation reads from a finished request: the result of waiting for the answer
  (\<open>r_error\<close>), the error of the daemon's reply header (\<^verbatim>\<open>fdi.answer_errno\<close>), the fields of
  the answer structures (\<^verbatim>\<open>fuse_entry_out\<close>, \<^verbatim>\<open>fuse_attr_out\<close>, \<^verbatim>\<open>fuse_open_out\<close>,
  \<^verbatim>\<open>fuse_write_out\<close>, \<^verbatim>\<open>fuse_getxattr_out\<close>) and the raw answer bytes, whose number is
  \<^verbatim>\<open>fdi.iosize\<close>.
\<close>

record fuse_reply =
  r_error :: int
  r_answer_errno :: int
  r_nodeid :: "64 word"
  r_attr :: fuse_attr
  r_attr_valid :: nat
  r_fh :: "64 word"
  r_open_flags :: "32 word"
  r_size :: "32 word"
  r_data :: "8 word list"

subsection \<open>Session, vnodes and node data\<close>

text \<open>
  \<^verbatim>\<open>struct fuse_data\<close>, one per mount. The capability map \<open>capability\<close> holds the opcodes the
  daemon is taken to implement.
\<close>

record fuse_data =
  dead :: bool
  inited :: bool
  capability :: "fuse_opcode set"
  blocksize :: "32 word"
  iosize :: "32 word"
  userkernel_bufsize :: "32 word"
  daemoncred_uid :: "32 word"
  daemoncred_gid :: "32 word"
  FSESS_NO_APPLEXATTR :: bool
  FSESS_AUTO_XATTR :: bool
  FSESS_JAIL_SYMLINKS :: bool
  FSESS_NO_VNCACHE :: bool
  FSESS_NO_SYNCONCLOSE :: bool
  FSESS_NO_SYNCWRITES :: bool
  FSESS_NO_READAHEAD :: bool

record vnode_attr =
  va_type :: vtype
  va_uid :: "32 word"
  va_gid :: "32 word"
  va_mode :: "32 word"
  va_nlink :: "32 word"
  va_data_size :: "64 word"
  va_rdev :: "32 word"

text \<open>
  A host vnode: its identity, its mount, its type, the root flag and the address of its
  node data (\<^verbatim>\<open>VTOFUD\<close>); address 0 is the null pointer.
\<close>

record vnode =
  v_id :: nat
  v_mount :: nat
  v_type :: vtype
  v_isvroot :: bool
  v_data :: nat

text \<open>\<^verbatim>\<open>struct fuse_vnode_data\<close>, with the three file-handle slots indexed by access class.\<close>

record fuse_vnode_data =
  nodeid :: "64 word"
  parent_nodeid :: "64 word"
  parentvp :: vnode
  nlookup :: "64 word"
  filesize :: int
  attr_valid :: nat
  attr_cache :: vnode_attr
  fufh :: "fufh_type \<Rightarrow> fuse_filehandle"
  FN_DIRECT_IO :: bool
  C_TOUCH_CHGTIME :: bool
  C_XTIMES_VALID :: bool

datatype nameiop = LOOKUP | CREATE | DELETE | RENAME

text \<open>\<^verbatim>\<open>struct componentname\<close>; the name's length is the length of the name.\<close>

record componentname =
  cn_nameiop :: nameiop
  cn_flags :: "32 word"
  cn_nameptr :: string

definition cn_namelen :: "componentname \<Rightarrow> nat" where
  "cn_namelen cnp = length (cn_nameptr cnp)"

text \<open>\<^verbatim>\<open>struct uio\<close>: bytes still to move, the file offset, and the bytes moved to the caller.\<close>

record uio =
  uio_resid :: int
  uio_offset :: int
  uio_mem :: "8 word list"

subsection \<open>The world an operation runs in\<close>

text \<open>
  Everything an operation does outside its own state is recorded, in order, in a trace:
  requests handed to the daemon, tickets dropped, and calls into the host's name cache and
  page cache.
\<close>

datatype effect =
    Request fuse_request
  | Ticket_drop
  | Vncache_purge nat
  | Vncache_enter nat string
  | Cache_purge nat
  | Cache_purge_negatives nat
  | Cluster_push nat
  | Ubc_msync nat
  | Ubc_setsize nat int
  | Vnode_setnocache nat
  | Vnode_setnoreadahead nat
  | Upl_abort nat
  | Buf_error int
  | Vnode_put nat
  | Node_destroy nat

record world =
  session :: fuse_data
  fsnodes :: "nat \<Rightarrow> fuse_vnode_data"
  trace :: "effect list"

text \<open>
  The daemon answers a request as a function of the request and of everything that
  happened before it.
\<close>

type_synonym daemon = "effect list \<Rightarrow> fuse_request \<Rightarrow> fuse_reply"

text \<open>
  The host kernel and the caller's context, as far as the operations consult them. Each
  field is the result of the host function of that name. The last field is not of the host
  but of the build: whether \<^verbatim>\<open>FUSE4X_ENABLE_EXCHANGE\<close> is defined when \<^verbatim>\<open>fuse_vnops.c\<close> is
  compiled. No file of the sources defines it (\<^verbatim>\<open>fuse_param.h\<close> defines
  \<^verbatim>\<open>M_FUSE4X_ENABLE_EXCHANGE\<close>), so that the sources alone give \<open>False\<close>.
\<close>

record host =
  blanket_deny :: "vnode \<Rightarrow> bool"
  skip_apple_double :: "string \<Rightarrow> bool"
  issuser :: bool
  match_cred :: bool
  nanouptime :: nat
  vfs_isrdonly :: bool
  vfs_isforce :: bool
  vfs_issynchronous :: bool
  vfs_authopaque :: bool
  have_context :: bool
  vnode_authorize :: "vnode \<Rightarrow> vnode \<Rightarrow> bool \<Rightarrow> bool \<Rightarrow> int"
  vnode_hasdirtyblks :: "vnode \<Rightarrow> bool"
  vnode_isinuse :: "vnode \<Rightarrow> bool"
  vnode_get :: "vnode \<Rightarrow> int"
  uiomove_error :: "int \<Rightarrow> int"
  cluster_read :: "vnode \<Rightarrow> uio \<Rightarrow> int \<Rightarrow> 32 word \<Rightarrow> int \<times> uio"
  cluster_write :: "vnode \<Rightarrow> uio \<Rightarrow> int \<Rightarrow> int \<Rightarrow> int \<Rightarrow> 32 word \<Rightarrow> int \<times> uio"
  cluster_pagein :: "vnode \<Rightarrow> int \<Rightarrow> nat \<Rightarrow> int \<Rightarrow> int"
  cluster_pageout :: "vnode \<Rightarrow> int \<Rightarrow> nat \<Rightarrow> int \<Rightarrow> int"
  vncache_lookup :: "vnode \<Rightarrow> string \<Rightarrow> int \<times> vnode"
  vget :: "fuse_reply \<Rightarrow> int \<times> vnode"
  vnode_getname :: "vnode \<Rightarrow> string option"
  f_mntonname :: "8 word list"
  uio_getiov :: "nat \<Rightarrow> int"
  make_vp_canfail :: "nat \<Rightarrow> int"
  strategy_buf :: "vnode \<Rightarrow> int"
  nop_allocate :: int
  nop_revoke :: int
  vn_default_error :: int
  FUSE4X_ENABLE_EXCHANGE :: bool

definition emit :: "effect \<Rightarrow> world \<Rightarrow> world" where
  "emit e w = w\<lparr>trace := trace w @ [e]\<rparr>"

definition VTOFUD :: "world \<Rightarrow> vnode \<Rightarrow> fuse_vnode_data" where
  "VTOFUD w vp = fsnodes w (v_data vp)"

definition VTOI :: "world \<Rightarrow> vnode \<Rightarrow> 64 word" where
  "VTOI w vp = nodeid (VTOFUD w vp)"

definition set_fsnode :: "vnode \<Rightarrow> fuse_vnode_data \<Rightarrow> world \<Rightarrow> world" where
  "set_fsnode vp n w = w\<lparr>fsnodes := (fsnodes w)(v_data vp := n)\<rparr>"

definition set_fufh :: "vnode \<Rightarrow> fufh_type \<Rightarrow> fuse_filehandle \<Rightarrow> world \<Rightarrow> world" where
  "set_fufh vp t f w =
     set_fsnode vp ((VTOFUD w vp)\<lparr>fufh := (fufh (VTOFUD w vp))(t := f)\<rparr>) w"

subsection \<open>The IPC layer and the node flags\<close>

text \<open>
  Modelled from the spec: the ticket dispatcher (\<^verbatim>\<open>fuse_ipc.h\<close>) is outside this file.
  \<^verbatim>\<open>fuse_dispatcher_make\<close> builds a request for a node, \<^verbatim>\<open>fuse_dispatcher_wait_answer\<close>
  hands it to the daemon and waits for the reply, \<^verbatim>\<open>fuse_insert_message\<close> hands it over without
  waiting, \<^verbatim>\<open>fuse_ticket_drop\<close> releases the ticket.
\<close>

definition fuse_dispatcher_make :: "fuse_opcode \<Rightarrow> 64 word \<Rightarrow> fuse_indata \<Rightarrow> fuse_request" where
  "fuse_dispatcher_make op nid ind = \<lparr>opcode = op, q_nodeid = nid, indata = ind\<rparr>"

definition fuse_dispatcher_make_vp :: "world \<Rightarrow> fuse_opcode \<Rightarrow> vnode \<Rightarrow> fuse_indata \<Rightarrow> fuse_request" where
  "fuse_dispatcher_make_vp w op vp ind = fuse_dispatcher_make op (VTOI w vp) ind"

definition fuse_dispatcher_wait_answer :: "daemon \<Rightarrow> fuse_request \<Rightarrow> world \<Rightarrow> fuse_reply \<times> world" where
  "fuse_dispatcher_wait_answer d q w = (d (trace w) q, emit (Request q) w)"

definition fuse_insert_message :: "fuse_request \<Rightarrow> world \<Rightarrow> world" where
  "fuse_insert_message q w = emit (Request q) w"

definition fuse_ticket_drop :: "world \<Rightarrow> world" where
  "fuse_ticket_drop w = emit Ticket_drop w"

text \<open>
  Modelled from the spec: \<^verbatim>\<open>fuse_isdeadfs\<close> and \<^verbatim>\<open>fuse_isdirectio\<close> (\<^verbatim>\<open>fuse_node.h\<close>,
  \<^verbatim>\<open>fuse_ipc.h\<close>) read the session's dead flag and the node's \<^verbatim>\<open>DIRECT_IO\<close> flag.
\<close>

definition fuse_isdeadfs :: "world \<Rightarrow> vnode \<Rightarrow> bool" where
  "fuse_isdeadfs w vp = dead (session w)"

definition fuse_isdirectio :: "world \<Rightarrow> vnode \<Rightarrow> bool" where
  "fuse_isdirectio w vp = FN_DIRECT_IO (VTOFUD w vp)"

text \<open>
  The host's \<^verbatim>\<open>uiomove\<close> towards the caller: it moves at most \<open>n\<close> bytes and at most what the
  \<^verbatim>\<open>uio\<close> still has room for, or fails without moving anything.
\<close>

definition uiomove :: "host \<Rightarrow> 8 word list \<Rightarrow> nat \<Rightarrow> uio \<Rightarrow> int \<times> uio" where
  "uiomove h buf n u =
     (if uiomove_error h (uio_offset u) \<noteq> 0 then (uiomove_error h (uio_offset u), u)
      else (let m = min n (nat (uio_resid u))
            in (0, u\<lparr>uio_resid := uio_resid u - int m,
                      uio_offset := uio_offset u + int m,
                      uio_mem := uio_mem u @ take m buf\<rparr>)))"

text \<open>
  The count of a \<^verbatim>\<open>uiomove\<close> is an \<^verbatim>\<open>int\<close>: a length is cast to it, \<^verbatim>\<open>(int)fdi.iosize\<close>, and a
  count that is not positive moves nothing.
\<close>

definition size_to_int :: "nat \<Rightarrow> int" where
  "size_to_int n = sint (word_of_nat n :: 32 word)"

subsection \<open>Helpers outside this file\<close>

text \<open>
  Modelled from the spec: the capability map (\<^verbatim>\<open>fuse_implemented\<close>,
  \<^verbatim>\<open>fuse_clear_implemented\<close> of \<^verbatim>\<open>fuse_ipc.h\<close>). A bit that is set means that the daemon
  supports the opcode; clearing is the only change.
\<close>

definition fuse_implemented :: "fuse_data \<Rightarrow> fuse_opcode \<Rightarrow> bool" where
  "fuse_implemented data op \<longleftrightarrow> op \<in> capability data"

definition fuse_clear_implemented :: "fuse_opcode \<Rightarrow> world \<Rightarrow> world" where
  "fuse_clear_implemented op w =
     w\<lparr>session := (session w)\<lparr>capability := capability (session w) - {op}\<rparr>\<rparr>"

text \<open>
  Modelled from the spec: \<^verbatim>\<open>fuse_data_kill\<close> marks the session dead, and
  \<^verbatim>\<open>fuse_clearnosyncwrites_mp\<close> clears the session's \<^verbatim>\<open>NO_SYNCWRITES\<close> flag.
\<close>

definition fuse_data_kill :: "world \<Rightarrow> world" where
  "fuse_data_kill w = w\<lparr>session := (session w)\<lparr>dead := True\<rparr>\<rparr>"

definition fuse_clearnosyncwrites_mp :: "world \<Rightarrow> world" where
  "fuse_clearnosyncwrites_mp w = w\<lparr>session := (session w)\<lparr>FSESS_NO_SYNCWRITES := False\<rparr>\<rparr>"

text \<open>The host's tables \<^verbatim>\<open>VTTOIF\<close> and \<^verbatim>\<open>IFTOVT\<close> and the macro \<^verbatim>\<open>MAKEIMODE\<close>.\<close>

fun VTTOIF :: "vtype \<Rightarrow> 32 word" where
  "VTTOIF VNON = 0"
| "VTTOIF VREG = 32768"
| "VTTOIF VDIR = 16384"
| "VTTOIF VBLK = 24576"
| "VTTOIF VCHR = 8192"
| "VTTOIF VLNK = 40960"
| "VTTOIF VSOCK = 49152"
| "VTTOIF VFIFO = 4096"
| "VTTOIF VBAD = 61440"
| "VTTOIF VSTR = 0"
| "VTTOIF VCPLX = 0"

definition IFTOVT :: "32 word \<Rightarrow> vtype" where
  "IFTOVT mode =
     (let k = mode AND S_IFMT in
      if k = 4096 then VFIFO else if k = 8192 then VCHR else if k = 16384 then VDIR
      else if k = 24576 then VBLK else if k = 32768 then VREG else if k = 40960 then VLNK
      else if k = 49152 then VSOCK else if k = 61440 then VBAD else VNON)"

definition MAKEIMODE :: "vtype \<Rightarrow> 32 word \<Rightarrow> 32 word" where
  "MAKEIMODE indx mode = VTTOIF indx OR mode"

text \<open>
  Modelled from the spec: the attribute cache (\<^verbatim>\<open>cache_attrs\<close>, \<^verbatim>\<open>fuse_invalidate_attr\<close>,
  \<^verbatim>\<open>fuse_internal_attr_loadvap\<close> of \<^verbatim>\<open>fuse_internal.h\<close>). Caching stores the reply's
  attributes in the node and sets the deadline from the reply's validity period;
  invalidating resets the deadline; loading copies the cached attributes out.
\<close>

definition fuse_attr_to_va :: "fuse_attr \<Rightarrow> vnode_attr" where
  "fuse_attr_to_va a =
     \<lparr>va_type = IFTOVT (attr_mode a), va_uid = attr_uid a, va_gid = attr_gid a,
      va_mode = attr_mode a AND ALLPERMS, va_nlink = attr_nlink a,
      va_data_size = attr_size a, va_rdev = 0\<rparr>"

definition cache_attrs :: "host \<Rightarrow> vnode \<Rightarrow> fuse_reply \<Rightarrow> world \<Rightarrow> world" where
  "cache_attrs h vp fdi w =
     set_fsnode vp ((VTOFUD w vp)\<lparr>attr_valid := nanouptime h + r_attr_valid fdi,
                                   attr_cache := fuse_attr_to_va (r_attr fdi)\<rparr>) w"

definition fuse_invalidate_attr :: "vnode \<Rightarrow> world \<Rightarrow> world" where
  "fuse_invalidate_attr vp w = set_fsnode vp ((VTOFUD w vp)\<lparr>attr_valid := 0\<rparr>) w"

definition fuse_internal_attr_loadvap :: "world \<Rightarrow> vnode \<Rightarrow> vnode_attr" where
  "fuse_internal_attr_loadvap w vp = attr_cache (VTOFUD w vp)"

text \<open>The name cache of the host, reached through \<^verbatim>\<open>fuse_vncache_purge\<close> and friends.\<close>

definition fuse_vncache_purge :: "vnode \<Rightarrow> world \<Rightarrow> world" where
  "fuse_vncache_purge vp w = emit (Vncache_purge (v_id vp)) w"

definition fuse_vncache_enter :: "vnode \<Rightarrow> string \<Rightarrow> world \<Rightarrow> world" where
  "fuse_vncache_enter dvp name w = emit (Vncache_enter (v_id dvp) name) w"

definition cache_purge :: "vnode \<Rightarrow> world \<Rightarrow> world" where
  "cache_purge vp w = emit (Cache_purge (v_id vp)) w"

definition cache_purge_negatives :: "vnode \<Rightarrow> world \<Rightarrow> world" where
  "cache_purge_negatives vp w = emit (Cache_purge_negatives (v_id vp)) w"

text \<open>
  Modelled from the spec: \<^verbatim>\<open>fuse_filehandle_get\<close> and \<^verbatim>\<open>fuse_filehandle_put\<close>, declared in
  \<^verbatim>\<open>fuse_file.h\<close> and defined outside the sources. The spec: get: ``if slot valid,
  increment \<^verbatim>\<open>open_count\<close> and return; else send \<^verbatim>\<open>OPEN\<close> (or \<^verbatim>\<open>OPENDIR\<close> for directories)
  to the daemon, install \{id, flags\}, set \<^verbatim>\<open>open_count = 1\<close>. On error, slot remains
  invalid.'' put: ``send \<^verbatim>\<open>RELEASE\<close>/\<^verbatim>\<open>RELEASEDIR\<close> for the slot's id; invalidate slot.''
\<close>

definition fuse_filehandle_get :: "daemon \<Rightarrow> vnode \<Rightarrow> fufh_type \<Rightarrow> 32 word \<Rightarrow> world \<Rightarrow> int \<times> world" where
  "fuse_filehandle_get d vp fufh_type mode w =
     (if FUFH_IS_VALID (fufh (VTOFUD w vp) fufh_type)
      then (0, set_fufh vp fufh_type (FUFH_USE_INC (fufh (VTOFUD w vp) fufh_type)) w)
      else
        (let op = (if v_type vp = VDIR then FUSE_OPENDIR else FUSE_OPEN);
             oflags = fuse_filehandle_xlate_to_oflags fufh_type;
             (fdi, w1) = fuse_dispatcher_wait_answer d (fuse_dispatcher_make_vp w op vp (Open_in oflags)) w
         in if r_error fdi \<noteq> 0 then (r_error fdi, w1)
            else (0, fuse_ticket_drop
                       (set_fufh vp fufh_type
                          \<lparr>fh_id = r_fh fdi, open_count = 1, open_flags = oflags,
                           fuse_open_flags = r_open_flags fdi\<rparr> w1))))"

definition fuse_filehandle_put :: "daemon \<Rightarrow> vnode \<Rightarrow> fufh_type \<Rightarrow> world \<Rightarrow> int \<times> world" where
  "fuse_filehandle_put d vp fufh_type w =
     (let f = fufh (VTOFUD w vp) fufh_type;
          op = (if v_type vp = VDIR then FUSE_RELEASEDIR else FUSE_RELEASE);
          (fdi, w1) = fuse_dispatcher_wait_answer d
                        (fuse_dispatcher_make_vp w op vp (Release_in (fh_id f) (open_flags f))) w;
          w2 = set_fufh vp fufh_type (FUFH_USE_RESET f) w1
      in (r_error fdi, if r_error fdi = 0 then fuse_ticket_drop w2 else w2))"

text \<open>
  \<^verbatim>\<open>fuse_filehandle_preflight_status\<close> of \<^verbatim>\<open>fuse_file.h\<close>: 0 lets the caller proceed. The
  action asked of \<^verbatim>\<open>vnode_authorize\<close> is given by its read and write parts.
\<close>

definition fuse_filehandle_preflight_status :: "host \<Rightarrow> vnode \<Rightarrow> vnode \<Rightarrow> fufh_type \<Rightarrow> int" where
  "fuse_filehandle_preflight_status h vp dvp fufh_type =
     (if vfs_authopaque h \<or> \<not> vfs_issynchronous h \<or> v_type vp \<noteq> VREG then 0
      else if \<not> have_context h then 0
      else (case fufh_type of
              FUFH_RDONLY \<Rightarrow> vnode_authorize h vp dvp True False
            | FUFH_WRONLY \<Rightarrow> vnode_authorize h vp dvp False True
            | FUFH_RDWR \<Rightarrow> vnode_authorize h vp dvp True True))"

text \<open>
  Modelled from the spec: the helpers of \<^verbatim>\<open>fuse_internal.h\<close> that send one request.
  \<^verbatim>\<open>fuse_internal_forget_send\<close> sends \<^verbatim>\<open>FORGET\<close> with a count and waits for nothing;
  \<^verbatim>\<open>fuse_internal_newentry_makerequest\<close> builds the request that creates an entry in a
  directory; \<^verbatim>\<open>fuse_internal_checkentry\<close> validates that the returned entry has the expected
  type; \<^verbatim>\<open>fuse_internal_remove\<close> issues \<^verbatim>\<open>UNLINK\<close> or \<^verbatim>\<open>RMDIR\<close> for a name in a directory.
\<close>

definition fuse_internal_forget_send :: "64 word \<Rightarrow> 64 word \<Rightarrow> world \<Rightarrow> world" where
  "fuse_internal_forget_send nid n w =
     fuse_insert_message (fuse_dispatcher_make FUSE_FORGET nid (Forget_in n)) w"

definition fuse_internal_newentry_makerequest :: "64 word \<Rightarrow> fuse_opcode \<Rightarrow> fuse_indata \<Rightarrow> fuse_request" where
  "fuse_internal_newentry_makerequest dnid op buf = fuse_dispatcher_make op dnid buf"

definition fuse_internal_checkentry :: "fuse_reply \<Rightarrow> vtype \<Rightarrow> int" where
  "fuse_internal_checkentry feo vtyp = (if IFTOVT (attr_mode (r_attr feo)) \<noteq> vtyp then EINVAL else 0)"

definition fuse_internal_remove :: "daemon \<Rightarrow> vnode \<Rightarrow> vnode \<Rightarrow> componentname \<Rightarrow> fuse_opcode \<Rightarrow> world \<Rightarrow> int \<times> world" where
  "fuse_internal_remove d dvp vp cnp op w =
     (let (fdi, w1) = fuse_dispatcher_wait_answer d
                        (fuse_dispatcher_make_vp w op dvp (Name_in (cn_nameptr cnp))) w
      in (r_error fdi, if r_error fdi = 0 then fuse_ticket_drop w1 else w1))"

section \<open>Vnode operations (\<^verbatim>\<open>fuse_vnops.c\<close>)\<close>

text \<open>
  Each operation takes the host, the daemon, its arguments and the world, and returns its
  \<^verbatim>\<open>int\<close> result with the new world. An operation that may not return (a \<^verbatim>\<open>panic\<close>, or a
  loop that the daemon can keep going forever) returns an \<open>option\<close>, \<open>None\<close> for no return.
  The session-wide lock is not modelled: operations run one at a time.
\<close>

subsection \<open>\<^verbatim>\<open>fuse_vnop_read\<close>\<close>

text \<open>
  The loop of the direct-I/O branch. The size of a request is computed by the kernel's
  \<^verbatim>\<open>min\<close>, which takes two \<^verbatim>\<open>u_int\<close>: the residue is cut to 32 bits before it is compared
  with the session's \<^verbatim>\<open>iosize\<close>. The count handed to \<^verbatim>\<open>uiomove\<close> is computed by the same \<^verbatim>\<open>min\<close>
  from the size asked and the length of the answer, and cast to \<^verbatim>\<open>int\<close>; a count that is
  not positive moves nothing. The test for a short answer compares the two as \<^verbatim>\<open>size_t\<close>.
\<close>

partial_function (option) fuse_vnop_read_loop ::
  "host \<Rightarrow> daemon \<Rightarrow> vnode \<Rightarrow> fufh_type \<Rightarrow> uio \<Rightarrow> world \<Rightarrow> (int \<times> uio \<times> world) option" where
  "fuse_vnop_read_loop h d vp fufh_type uio w =
     (if 0 < uio_resid uio then
        (let fri_size = (min (word_of_int (uio_resid uio)) (iosize (session w)) :: 32 word);
             fri = Read_in (fh_id (fufh (VTOFUD w vp) fufh_type)) (uio_offset uio) fri_size;
             (fdi, w1) = fuse_dispatcher_wait_answer d (fuse_dispatcher_make_vp w FUSE_READ vp fri) w
         in if r_error fdi \<noteq> 0 then Some (r_error fdi, uio, w1)
            else (let n = sint (min fri_size (word_of_nat (length (r_data fdi))) :: 32 word);
                      (err, uio1) = uiomove h (r_data fdi) (nat n) uio
                  in if err \<noteq> 0 \<or> length (r_data fdi) < unat fri_size
                     then Some (err, uio1, fuse_ticket_drop w1)
                     else fuse_vnop_read_loop h d vp fufh_type uio1 w1))
      else Some (0, uio, fuse_ticket_drop w))"

definition fuse_vnop_read ::
  "host \<Rightarrow> daemon \<Rightarrow> vnode \<Rightarrow> uio \<Rightarrow> 32 word \<Rightarrow> world \<Rightarrow> (int \<times> uio \<times> world) option" where
  "fuse_vnop_read h d vp uio ioflag w =
     (if fuse_isdeadfs w vp then Some (if v_type vp = VCHR then 0 else ENXIO, uio, w)
      else if v_type vp \<noteq> VREG then Some (if v_type vp = VDIR then EISDIR else EPERM, uio, w)
      else if uio_resid uio = 0 then Some (0, uio, w)
      else if uio_offset uio < 0 then Some (EINVAL, uio, w)
      else if v_data vp = 0 then Some (EINVAL, uio, w)
      else if fuse_isdirectio w vp then
        (if FUFH_IS_VALID (fufh (VTOFUD w vp) FUFH_RDONLY)
         then fuse_vnop_read_loop h d vp FUFH_RDONLY uio w
         else if FUFH_IS_VALID (fufh (VTOFUD w vp) FUFH_RDWR)
         then fuse_vnop_read_loop h d vp FUFH_RDWR uio w
         else Some (EIO, uio, w))
      else (let (res, uio1) = cluster_read h vp uio (filesize (VTOFUD w vp)) ioflag
            in Some (res, uio1, w)))"

subsection \<open>\<^verbatim>\<open>fuse_vnop_open\<close> and \<^verbatim>\<open>fuse_vnop_close\<close>\<close>

text \<open>The part of \<^verbatim>\<open>fuse_vnop_open\<close> from the label \<^verbatim>\<open>ok\<close> on, with the slot in hand.\<close>

definition fuse_vnop_open_ok :: "host \<Rightarrow> daemon \<Rightarrow> vnode \<Rightarrow> fufh_type \<Rightarrow> world \<Rightarrow> int \<times> world" where
  "fuse_vnop_open_ok h d vp fufh_type w =
     (let f = fufh (VTOFUD w vp) fufh_type in
      if fuse_open_flags f AND FOPEN_DIRECT_IO \<noteq> 0 \<or> fuse_isdirectio w vp then
        (let w1 = emit (Vnode_setnoreadahead (v_id vp))
                    (emit (Vnode_setnocache (v_id vp)) (emit (Ubc_msync (v_id vp)) w));
             w2 = fuse_clearnosyncwrites_mp w1
         in (0, set_fsnode vp ((VTOFUD w2 vp)\<lparr>FN_DIRECT_IO := True\<rparr>) w2))
      else
        (let w5 =
           (if fuse_open_flags f AND FOPEN_PURGE_UBC \<noteq> 0 then
              (let w1 = emit (Ubc_msync (v_id vp)) w;
                   f1 = f\<lparr>fuse_open_flags := fuse_open_flags f AND NOT FOPEN_PURGE_UBC\<rparr>;
                   w2 = set_fufh vp fufh_type f1 w1
               in if fuse_open_flags f1 AND FOPEN_PURGE_ATTR \<noteq> 0 then
                    (let w3 = fuse_invalidate_attr vp w2;
                         (fdi, w4) = fuse_dispatcher_wait_answer d
                                       (fuse_dispatcher_make_vp w3 FUSE_GETATTR vp Getattr_in) w3;
                         w6 = (if r_error fdi = 0 then
                                 fuse_ticket_drop
                                   (if attr_mode (r_attr fdi) AND S_IFMT \<noteq> 0 then
                                      (let w7 = cache_attrs h vp fdi w4;
                                           new_filesize = sint (attr_size (r_attr fdi))
                                       in emit (Ubc_setsize (v_id vp) new_filesize)
                                            (set_fsnode vp ((VTOFUD w7 vp)\<lparr>filesize := new_filesize\<rparr>) w7))
                                    else w4)
                               else w4)
                     in set_fufh vp fufh_type
                          ((fufh (VTOFUD w6 vp) fufh_type)
                             \<lparr>fuse_open_flags := fuse_open_flags (fufh (VTOFUD w6 vp) fufh_type)
                                                   AND NOT FOPEN_PURGE_ATTR\<rparr>) w6)
                  else w2)
            else w)
         in (0, if FSESS_NO_READAHEAD (session w5)
                then emit (Vnode_setnoreadahead (v_id vp)) w5 else w5)))"

definition fuse_vnop_open :: "host \<Rightarrow> daemon \<Rightarrow> vnode \<Rightarrow> 32 word \<Rightarrow> world \<Rightarrow> (int \<times> world) option" where
  "fuse_vnop_open h d vp mode w =
     (if fuse_isdeadfs w vp then Some (ENXIO, w)
      else if v_type vp = VFIFO then Some (EPERM, w)
      else if blanket_deny h vp then Some (ENOENT, w)
      else
        (case (if v_type vp = VDIR then Some FUFH_RDONLY
               else fuse_filehandle_xlate_from_fflags mode) of
           None \<Rightarrow> None
         | Some fufh_type \<Rightarrow>
             (if FUFH_IS_VALID (fufh (VTOFUD w vp) fufh_type)
              then Some (fuse_vnop_open_ok h d vp fufh_type
                           (set_fufh vp fufh_type (FUFH_USE_INC (fufh (VTOFUD w vp) fufh_type)) w))
              else
                (let (error, w1) = fuse_filehandle_get d vp fufh_type mode w
                 in if error \<noteq> 0
                    then Some (error, if error = ENOENT then cache_purge vp w1 else w1)
                    else Some (fuse_vnop_open_ok h d vp fufh_type w1)))))"

text \<open>The flush of \<^verbatim>\<open>fuse_vnop_close\<close>, skipped for directories.\<close>

definition fuse_vnop_close_flush :: "host \<Rightarrow> daemon \<Rightarrow> vnode \<Rightarrow> fufh_type \<Rightarrow> world \<Rightarrow> int \<times> world" where
  "fuse_vnop_close_flush h d vp fufh_type w =
     (let w1 = (if vnode_hasdirtyblks h vp \<and> \<not> FSESS_NO_SYNCONCLOSE (session w)
                then emit (Cluster_push (v_id vp)) w else w)
      in if fuse_implemented (session w1) FUSE_FLUSH then
           (let (fdi, w2) = fuse_dispatcher_wait_answer d
                  (fuse_dispatcher_make_vp w1 FUSE_FLUSH vp
                     (Flush_in (fh_id (fufh (VTOFUD w1 vp) fufh_type)))) w1
            in if r_error fdi = 0 then (0, fuse_ticket_drop w2)
               else if r_error fdi = ENOSYS then (0, fuse_clear_implemented FUSE_FLUSH w2)
               else (r_error fdi, w2))
         else (0, w1))"

definition fuse_vnop_close :: "host \<Rightarrow> daemon \<Rightarrow> vnode \<Rightarrow> 32 word \<Rightarrow> world \<Rightarrow> (int \<times> world) option" where
  "fuse_vnop_close h d vp fflag w =
     (if fuse_isdeadfs w vp then Some (0, w)
      else if fflag = IO_NDELAY then Some (0, w)
      else
        (case (if v_type vp = VDIR then Some FUFH_RDONLY
               else fuse_filehandle_xlate_from_fflags fflag) of
           None \<Rightarrow> None
         | Some fufh_type \<Rightarrow>
             (if \<not> FUFH_IS_VALID (fufh (VTOFUD w vp) fufh_type) then Some (0, w)
              else
                (let (err, w1) = (if v_type vp = VDIR then (0, w)
                                  else fuse_vnop_close_flush h d vp fufh_type w);
                     w2 = set_fufh vp fufh_type (FUFH_USE_DEC (fufh (VTOFUD w1 vp) fufh_type)) w1;
                     w3 = (if \<not> FUFH_IS_VALID (fufh (VTOFUD w2 vp) fufh_type)
                           then snd (fuse_filehandle_put d vp fufh_type w2) else w2)
                 in Some (err, w3)))))"

subsection \<open>\<^verbatim>\<open>fuse_vnop_mmap\<close> and \<^verbatim>\<open>fuse_vnop_mnomap\<close>\<close>

text \<open>
  The part of \<^verbatim>\<open>fuse_vnop_mmap\<close> from the label \<^verbatim>\<open>retry\<close> on. The variables \<^verbatim>\<open>err\<close>,
  \<^verbatim>\<open>deleted\<close> and \<^verbatim>\<open>retried\<close> keep their values across the jump back.
\<close>

function fuse_vnop_mmap_retry ::
  "host \<Rightarrow> daemon \<Rightarrow> vnode \<Rightarrow> fufh_type \<Rightarrow> int \<Rightarrow> bool \<Rightarrow> bool \<Rightarrow> world \<Rightarrow> int \<times> world" where
  "fuse_vnop_mmap_retry h d vp fufh_type err deleted retried w =
     (if FUFH_IS_VALID (fufh (VTOFUD w vp) fufh_type)
      then (0, set_fufh vp fufh_type (FUFH_USE_INC (fufh (VTOFUD w vp) fufh_type)) w)
      else
        (let pre = fuse_filehandle_preflight_status h vp (parentvp (VTOFUD w vp)) fufh_type;
             err1 = (if \<not> deleted then (if pre = ENOENT then 0 else pre) else err);
             deleted1 = (if \<not> deleted then pre = ENOENT else deleted);
             r = (if err1 = 0 then fuse_filehandle_get d vp fufh_type 0 w else (err1, w))
         in if fst r \<noteq> 0 then
              (if \<not> retried \<and> fst r = EACCES \<and> (fufh_type = FUFH_RDWR \<or> fufh_type = FUFH_WRONLY)
               then fuse_vnop_mmap_retry h d vp FUFH_RDONLY (fst r) deleted1 True (snd r)
               else (EPERM, snd r))
            else (0, snd r)))"
  by pat_completeness auto
termination
  by (relation "measure (\<lambda>(h, d, vp, fufh_type, err, deleted, retried, w). if retried then 0 else 1)") auto

definition fuse_vnop_mmap :: "host \<Rightarrow> daemon \<Rightarrow> vnode \<Rightarrow> 32 word \<Rightarrow> world \<Rightarrow> (int \<times> world) option" where
  "fuse_vnop_mmap h d vp fflags w =
     (if fuse_isdeadfs w vp then Some (ENXIO, w)
      else if fuse_isdirectio w vp then Some (EPERM, w)
      else if blanket_deny h vp then Some (ENOENT, w)
      else if fflags AND (PROT_READ OR PROT_WRITE OR PROT_EXEC) \<noteq> 0 then Some (0, w)
      else
        (case fuse_filehandle_xlate_from_mmap fflags of
           None \<Rightarrow> None
         | Some fufh_type \<Rightarrow> Some (fuse_vnop_mmap_retry h d vp fufh_type 0 False False w)))"

definition fuse_vnop_mnomap :: "vnode \<Rightarrow> world \<Rightarrow> int \<times> world" where
  "fuse_vnop_mnomap vp w =
     (if fuse_isdeadfs w vp then (0, w)
      else if fuse_isdirectio w vp then (ENODEV, w)
      else (0, w))"

subsection \<open>\<^verbatim>\<open>fuse_vnop_ioctl\<close>\<close>

definition IOCPARM_LEN :: "64 word \<Rightarrow> nat" where
  "IOCPARM_LEN x = unat (drop_bit 16 x AND IOCPARM_MASK)"

text \<open>\<^verbatim>\<open>memcpy\<close> of \<open>n\<close> bytes over the start of a buffer.\<close>

definition memcpy :: "8 word list \<Rightarrow> 8 word list \<Rightarrow> nat \<Rightarrow> 8 word list" where
  "memcpy dst src n = take n src @ drop n dst"

text \<open>
  The operation returns the caller's buffer \<^verbatim>\<open>a_data\<close> with its result. Where a direction
  test fails the request keeps the zero size and empty payload it was made with.
\<close>

definition fuse_vnop_ioctl ::
  "host \<Rightarrow> daemon \<Rightarrow> vnode \<Rightarrow> 64 word \<Rightarrow> 8 word list \<Rightarrow> 32 word \<Rightarrow> world
     \<Rightarrow> (int \<times> 8 word list \<times> world) option" where
  "fuse_vnop_ioctl h d vp a_command a_data a_fflag w =
     (if fuse_isdeadfs w vp then Some (ENXIO, a_data, w)
      else if blanket_deny h vp then Some (EPERM, a_data, w)
      else if \<not> fuse_implemented (session w) FUSE_IOCTL then Some (ENOTSUP, a_data, w)
      else
        (case fuse_filehandle_xlate_from_fflags a_fflag of
           None \<Rightarrow> None
         | Some fufh_type \<Rightarrow>
             (if \<not> FUFH_IS_VALID (fufh (VTOFUD w vp) fufh_type) then Some (EIO, a_data, w)
              else
                (let iodata_size = IOCPARM_LEN a_command;
                     in_size = (if a_command OR IOC_IN \<noteq> 0 then word_of_nat iodata_size else 0);
                     in_data = (if a_command OR IOC_IN \<noteq> 0 then take iodata_size a_data else []);
                     out_size = (if a_command OR IOC_OUT \<noteq> 0 then word_of_nat iodata_size else 0);
                     (fdi, w1) = fuse_dispatcher_wait_answer d
                        (fuse_dispatcher_make_vp w FUSE_IOCTL vp
                           (Ioctl_in (fh_id (fufh (VTOFUD w vp) fufh_type)) (ucast a_command)
                              in_size out_size in_data)) w
                 in if r_error fdi = 0 then
                      Some (0, if a_command OR IOC_OUT \<noteq> 0
                               then memcpy a_data (r_data fdi) iodata_size else a_data,
                            fuse_ticket_drop w1)
                    else if r_error fdi = ENOSYS
                    then Some (0, a_data, fuse_clear_implemented FUSE_IOCTL w1)
                    else Some (r_error fdi, a_data, w1)))))"

subsection \<open>\<^verbatim>\<open>fuse_vnop_rmdir\<close> and \<^verbatim>\<open>fuse_vnop_remove\<close>\<close>

definition fuse_vnop_rmdir :: "host \<Rightarrow> daemon \<Rightarrow> vnode \<Rightarrow> vnode \<Rightarrow> componentname \<Rightarrow> world \<Rightarrow> int \<times> world" where
  "fuse_vnop_rmdir h d dvp vp cnp w =
     (if fuse_isdeadfs w vp then (ENXIO, w)
      else if blanket_deny h vp then (ENOENT, w)
      else if v_data vp = v_data dvp then (EINVAL, w)
      else
        (let w1 = fuse_vncache_purge vp w;
             (err, w2) = fuse_internal_remove d dvp vp cnp FUSE_RMDIR w1
         in (err, if err = 0 then fuse_invalidate_attr dvp w2 else w2)))"

abbreviation VNODE_REMOVE_NODELETEBUSY :: "32 word" where "VNODE_REMOVE_NODELETEBUSY \<equiv> 1"

definition fuse_vnop_remove ::
  "host \<Rightarrow> daemon \<Rightarrow> vnode \<Rightarrow> vnode \<Rightarrow> componentname \<Rightarrow> 32 word \<Rightarrow> world \<Rightarrow> int \<times> world" where
  "fuse_vnop_remove h d dvp vp cnp flags w =
     (if fuse_isdeadfs w vp then (ENXIO, w)
      else if blanket_deny h vp then (ENOENT, w)
      else if v_type vp = VDIR then (EPERM, w)
      else if flags AND VNODE_REMOVE_NODELETEBUSY \<noteq> 0 \<and> vnode_isinuse h vp then (EBUSY, w)
      else
        (let w1 = fuse_vncache_purge vp w;
             (err, w2) = fuse_internal_remove d dvp vp cnp FUSE_UNLINK w1
         in (err, if err = 0 then fuse_invalidate_attr dvp (fuse_vncache_purge vp w2) else w2)))"

subsection \<open>\<^verbatim>\<open>fuse_vnop_lookup\<close>\<close>

text \<open>
  The operation returns its result, the vnode stored through \<^verbatim>\<open>a_vpp\<close> (\<open>None\<close> for
  \<^verbatim>\<open>NULLVP\<close>) and the world. It is split at its labels. First the code from the label \<^verbatim>\<open>out\<close>
  on, reached with \<^verbatim>\<open>lookup_err = 0\<close>.
\<close>

definition fuse_vnop_lookup_out ::
  "vnode \<Rightarrow> componentname \<Rightarrow> fuse_opcode \<Rightarrow> 64 word \<Rightarrow> int \<Rightarrow> vnode option \<Rightarrow> world
     \<Rightarrow> int \<times> vnode option \<times> world" where
  "fuse_vnop_lookup_out dvp cnp op nid err vpp w =
     (if err \<noteq> 0
      then (err, vpp, if op = FUSE_LOOKUP then fuse_internal_forget_send nid 1 w else w)
      else
        (case vpp of
           None \<Rightarrow> (0, None, fuse_ticket_drop w)
         | Some vp \<Rightarrow>
             (if cn_flags cnp AND ISLASTCN = 0 \<and> v_type vp \<noteq> VDIR \<and> v_type vp \<noteq> VLNK
              then (ENOTDIR, None, fuse_ticket_drop (emit (Vnode_put (v_id vp)) w))
              else (0, Some vp, fuse_ticket_drop w))))"

text \<open>
  The end of the found branch: the attribute fudge and the caching of the attributes, for
  the vnode \<open>xvp\<close> stored through \<^verbatim>\<open>a_vpp\<close>. The local \<^verbatim>\<open>vp\<close> is set only by \<^verbatim>\<open>fuse_vget_i\<close>;
  where the code reads the flags of a null \<^verbatim>\<open>vp\<close> the operation does not return.
\<close>

definition fuse_vnop_lookup_cache ::
  "host \<Rightarrow> vnode \<Rightarrow> componentname \<Rightarrow> fuse_opcode \<Rightarrow> 64 word \<Rightarrow> fuse_reply \<Rightarrow> vnode
     \<Rightarrow> vnode option \<Rightarrow> world \<Rightarrow> (int \<times> vnode option \<times> world) option" where
  "fuse_vnop_lookup_cache h dvp cnp op nid fdi xvp vp w =
     (if v_type xvp = VREG \<and> vp = None then None
      else
        (let w1 = (if v_type xvp = VREG \<and> fuse_isdirectio w (the vp)
                   then set_fsnode xvp ((VTOFUD w xvp)\<lparr>filesize := sint (attr_size (r_attr fdi))\<rparr>) w
                   else w)
         in Some (fuse_vnop_lookup_out dvp cnp op nid 0 (Some xvp) (cache_attrs h xvp fdi w1))))"

text \<open>The branch for a successful lookup (\<^verbatim>\<open>!lookup_err\<close>).\<close>

definition fuse_vnop_lookup_found ::
  "host \<Rightarrow> vnode \<Rightarrow> componentname \<Rightarrow> fuse_opcode \<Rightarrow> 64 word \<Rightarrow> bool \<Rightarrow> bool \<Rightarrow> fuse_reply
     \<Rightarrow> world \<Rightarrow> (int \<times> vnode option \<times> world) option" where
  "fuse_vnop_lookup_found h dvp cnp op nid isdot isdotdot fdi w =
     (let nameiop = cn_nameiop cnp;
          islastcn = (cn_flags cnp AND ISLASTCN \<noteq> 0);
          wantparent = (cn_flags cnp AND (LOCKPARENT OR WANTPARENT) \<noteq> 0);
          pdp = parentvp (VTOFUD w dvp)
      in if attr_mode (r_attr fdi) AND S_IFMT = 0
         then Some (fuse_vnop_lookup_out dvp cnp op nid EIO None w)
         else if nameiop = DELETE \<and> islastcn then
           (if isdot
            then Some (fuse_vnop_lookup_out dvp cnp op nid (vnode_get h dvp)
                         (if vnode_get h dvp = 0 then Some dvp else None) w)
            else Some (fuse_vnop_lookup_out dvp cnp op nid (fst (vget h fdi))
                         (if fst (vget h fdi) = 0 then Some (snd (vget h fdi)) else None) w))
         else if nameiop = RENAME \<and> islastcn \<and> wantparent then
           (if isdot
            then Some (fuse_vnop_lookup_out dvp cnp op nid EISDIR None w)
            else Some (fuse_vnop_lookup_out dvp cnp op nid (fst (vget h fdi))
                         (if fst (vget h fdi) = 0 then Some (snd (vget h fdi)) else None) w))
         else if isdotdot then
           (if vnode_get h pdp \<noteq> 0 then None
            else fuse_vnop_lookup_cache h dvp cnp op nid fdi pdp None w)
         else if isdot then
           (if vnode_get h dvp \<noteq> 0 then None
            else fuse_vnop_lookup_cache h dvp cnp op nid fdi dvp None w)
         else
           (if fst (vget h fdi) \<noteq> 0
            then Some (fuse_vnop_lookup_out dvp cnp op nid (fst (vget h fdi)) None w)
            else fuse_vnop_lookup_cache h dvp cnp op nid fdi (snd (vget h fdi))
                   (Some (snd (vget h fdi))) w))"

text \<open>The code from the label \<^verbatim>\<open>calldaemon\<close> on.\<close>

definition fuse_vnop_lookup_calldaemon ::
  "host \<Rightarrow> daemon \<Rightarrow> vnode \<Rightarrow> componentname \<Rightarrow> fuse_opcode \<Rightarrow> 64 word \<Rightarrow> bool \<Rightarrow> bool
     \<Rightarrow> world \<Rightarrow> (int \<times> vnode option \<times> world) option" where
  "fuse_vnop_lookup_calldaemon h d dvp cnp op nid isdot isdotdot w =
     (let (fdi, w1) = fuse_dispatcher_wait_answer d
                        (fuse_dispatcher_make op nid
                           (if op = FUSE_LOOKUP then Name_in (cn_nameptr cnp) else Getattr_in)) w;
          succeeded = (op = FUSE_LOOKUP \<and> r_error fdi = 0);
          nid1 = (if succeeded then r_nodeid fdi else nid);
          answer_errno = (if succeeded \<and> r_nodeid fdi = 0 then ENOENT else r_answer_errno fdi);
          lookup_err = (if succeeded \<and> r_nodeid fdi = 0 then ENOENT
                        else if succeeded \<and> r_nodeid fdi = FUSE_ROOT_ID then EINVAL
                        else r_error fdi)
      in if lookup_err \<noteq> 0 \<and> (answer_errno = 0 \<or> lookup_err \<noteq> ENOENT \<or> op \<noteq> FUSE_LOOKUP)
         then Some (lookup_err, None, w1)
         else if lookup_err \<noteq> 0 then
           (if (cn_nameiop cnp = CREATE \<or> cn_nameiop cnp = RENAME) \<and> cn_flags cnp AND ISLASTCN \<noteq> 0
            then Some (EJUSTRETURN, None, w1)
            else Some (ENOENT, None,
                       if cn_flags cnp AND MAKEENTRY \<noteq> 0 \<and> cn_nameiop cnp \<noteq> CREATE
                       then fuse_vncache_enter dvp (cn_nameptr cnp) w1 else w1))
         else fuse_vnop_lookup_found h dvp cnp op nid1 isdot isdotdot fdi w1)"

text \<open>The code after the test of the name's length: which node to ask about, and whom.\<close>

definition fuse_vnop_lookup_resolve ::
  "host \<Rightarrow> daemon \<Rightarrow> vnode \<Rightarrow> componentname \<Rightarrow> world \<Rightarrow> (int \<times> vnode option \<times> world) option" where
  "fuse_vnop_lookup_resolve h d dvp cnp w =
     (if cn_flags cnp AND ISDOTDOT \<noteq> 0
      then fuse_vnop_lookup_calldaemon h d dvp cnp FUSE_GETATTR
             (VTOI w (parentvp (VTOFUD w dvp))) False True w
      else if cn_nameptr cnp = ''.''
      then fuse_vnop_lookup_calldaemon h d dvp cnp FUSE_GETATTR (VTOI w dvp) True False w
      else if FSESS_NO_VNCACHE (session w)
      then fuse_vnop_lookup_calldaemon h d dvp cnp FUSE_LOOKUP (VTOI w dvp) False False w
      else
        (let (err, vp) = vncache_lookup h dvp (cn_nameptr cnp)
         in if err = - 1 then Some (0, Some vp, w)
            else if err = 0
            then fuse_vnop_lookup_calldaemon h d dvp cnp FUSE_LOOKUP (VTOI w dvp) False False w
            else Some (err, None, w)))"

definition fuse_vnop_lookup ::
  "host \<Rightarrow> daemon \<Rightarrow> vnode \<Rightarrow> componentname \<Rightarrow> world \<Rightarrow> (int \<times> vnode option \<times> world) option" where
  "fuse_vnop_lookup h d dvp cnp w =
     (if fuse_isdeadfs w dvp then Some (ENXIO, None, w)
      else if skip_apple_double h (cn_nameptr cnp) then Some (ENOENT, None, w)
      else if v_type dvp \<noteq> VDIR then Some (ENOTDIR, None, w)
      else if cn_flags cnp AND ISLASTCN \<noteq> 0 \<and> vfs_isrdonly h \<and> cn_nameiop cnp \<noteq> LOOKUP
      then Some (EROFS, None, w)
      else if cn_namelen cnp > FUSE_MAXNAMLEN then Some (ENAMETOOLONG, None, w)
      else fuse_vnop_lookup_resolve h d dvp cnp w)"

subsection \<open>\<^verbatim>\<open>fuse_vnop_create\<close>\<close>

text \<open>\<^verbatim>\<open>OFLAGS\<close> of \<^verbatim>\<open>sys/fcntl.h\<close>.\<close>

definition OFLAGS :: "32 word \<Rightarrow> 32 word" where
  "OFLAGS fflags = fflags - 1"

text \<open>
  The code from the label \<^verbatim>\<open>bringup\<close> on; \<^verbatim>\<open>gone_good_old\<close> tells the \<^verbatim>\<open>MKNOD\<close> path from
  the \<^verbatim>\<open>CREATE\<close> path. The host's \<open>vget\<close> stands for
  \<^verbatim>\<open>FSNodeGetOrCreateFileVNodeByID\<close>, which makes the vnode of the new entry.
\<close>

definition fuse_vnop_create_bringup ::
  "host \<Rightarrow> vnode \<Rightarrow> 32 word \<Rightarrow> bool \<Rightarrow> fuse_reply \<Rightarrow> world \<Rightarrow> int \<times> vnode option \<times> world" where
  "fuse_vnop_create_bringup h dvp mode gone_good_old feo w =
     (if fuse_internal_checkentry feo VREG \<noteq> 0
      then (fuse_internal_checkentry feo VREG, None, fuse_ticket_drop w)
      else
        (let (err, vp) = vget h feo
         in if err \<noteq> 0 then
              (err, None,
               if gone_good_old then fuse_internal_forget_send (r_nodeid feo) 1 w
               else fuse_insert_message
                      (fuse_dispatcher_make FUSE_RELEASE (r_nodeid feo)
                         (Release_in (r_fh feo) (OFLAGS mode))) w)
            else
              (let w1 = (if \<not> gone_good_old
                         then set_fufh vp FUFH_RDWR
                                ((fufh (VTOFUD w vp) FUFH_RDWR)
                                   \<lparr>fh_id := r_fh feo, open_count := 1,
                                    open_flags := r_open_flags feo\<rparr>) w
                         else w)
               in (0, Some vp, fuse_ticket_drop (cache_purge_negatives dvp w1)))))"

text \<open>The code from the label \<^verbatim>\<open>good_old\<close> on.\<close>

definition fuse_vnop_create_good_old ::
  "host \<Rightarrow> daemon \<Rightarrow> vnode \<Rightarrow> componentname \<Rightarrow> 32 word \<Rightarrow> 64 word \<Rightarrow> world
     \<Rightarrow> int \<times> vnode option \<times> world" where
  "fuse_vnop_create_good_old h d dvp cnp mode pnid w =
     (let (fdi, w1) = fuse_dispatcher_wait_answer d
                        (fuse_internal_newentry_makerequest pnid FUSE_MKNOD
                           (Mknod_in mode 0 (cn_nameptr cnp))) w
      in if r_error fdi \<noteq> 0 then (r_error fdi, None, w1)
         else fuse_vnop_create_bringup h dvp mode True fdi w1)"

definition fuse_vnop_create ::
  "host \<Rightarrow> daemon \<Rightarrow> vnode \<Rightarrow> componentname \<Rightarrow> vnode_attr \<Rightarrow> world \<Rightarrow> int \<times> vnode option \<times> world" where
  "fuse_vnop_create h d dvp cnp vap w =
     (let pnid = nodeid (VTOFUD w dvp);
          mode = MAKEIMODE (va_type vap) (va_mode vap)
      in if fuse_isdeadfs w dvp then (ENXIO, None, w)
         else if blanket_deny h dvp then (EPERM, None, w)
         else if skip_apple_double h (cn_nameptr cnp) then (EPERM, None, w)
         else if \<not> fuse_implemented (session w) FUSE_CREATE \<or> va_type vap \<noteq> VREG
         then fuse_vnop_create_good_old h d dvp cnp mode pnid w
         else
           (let (fdi, w1) = fuse_dispatcher_wait_answer d
                              (fuse_dispatcher_make FUSE_CREATE pnid
                                 (Create_in mode (O_CREAT OR O_RDWR) (cn_nameptr cnp))) w
            in if r_error fdi = ENOSYS
               then fuse_vnop_create_good_old h d dvp cnp mode pnid
                      (fuse_clear_implemented FUSE_CREATE w1)
               else if r_error fdi \<noteq> 0 then (r_error fdi, None, w1)
               else fuse_vnop_create_bringup h dvp mode False fdi w1))"

subsection \<open>\<^verbatim>\<open>fuse_vnop_getattr\<close>\<close>

text \<open>
  The operation returns its result, the caller's attribute buffer and the world;
  \<open>vap_is_own\<close> tells whether the caller's buffer is the node's own attribute buffer
  (\<^verbatim>\<open>vap == VTOVA(vp)\<close>), in which case what is written to the one is written to the other.
  First the code at the label \<^verbatim>\<open>fake\<close>.
\<close>

definition fuse_vnop_getattr_fake :: "vnode \<Rightarrow> bool \<Rightarrow> world \<Rightarrow> int \<times> vnode_attr \<times> world" where
  "fuse_vnop_getattr_fake vp vap_is_own w =
     (let vap = \<lparr>va_type = v_type vp, va_uid = daemoncred_uid (session w),
                 va_gid = daemoncred_gid (session w), va_mode = S_IRWXU, va_nlink = 0,
                 va_data_size = 0, va_rdev = 0\<rparr>
      in (0, vap,
          if vap_is_own then set_fsnode vp ((VTOFUD w vp)\<lparr>attr_cache := vap\<rparr>) w else w))"

definition fuse_vnop_getattr ::
  "host \<Rightarrow> daemon \<Rightarrow> vnode \<Rightarrow> vnode_attr \<Rightarrow> bool \<Rightarrow> world \<Rightarrow> int \<times> vnode_attr \<times> world" where
  "fuse_vnop_getattr h d vp vap vap_is_own w =
     (if fuse_isdeadfs w vp then
        (if v_isvroot vp then fuse_vnop_getattr_fake vp vap_is_own w else (ENXIO, vap, w))
      else if (\<not> v_isvroot vp \<or> \<not> issuser h) \<and> blanket_deny h vp then (ENOENT, vap, w)
      else if nanouptime h \<le> attr_valid (VTOFUD w vp)
      then (0, if \<not> vap_is_own then fuse_internal_attr_loadvap w vp else vap, w)
      else if \<not> inited (session w) then
        (if \<not> v_isvroot vp then (ENOTCONN, vap, fuse_data_kill w)
         else fuse_vnop_getattr_fake vp vap_is_own w)
      else
        (let (fdi, w1) = fuse_dispatcher_wait_answer d
                           (fuse_dispatcher_make_vp w FUSE_GETATTR vp Getattr_in) w
         in if r_error fdi \<noteq> 0 then
              (if r_error fdi = ENOTCONN \<and> v_isvroot vp
               then fuse_vnop_getattr_fake vp vap_is_own w1
               else (r_error fdi, vap,
                     if r_error fdi = ENOENT then fuse_vncache_purge vp w1 else w1))
            else if attr_mode (r_attr fdi) AND S_IFMT = 0 then (EIO, vap, w1)
            else
              (let w2 = cache_attrs h vp fdi w1;
                   w3 = set_fsnode vp ((VTOFUD w2 vp)\<lparr>C_XTIMES_VALID := False\<rparr>) w2;
                   vap1 = fuse_internal_attr_loadvap w3 vp;
                   w4 = (if v_type vp = VREG \<and> fuse_isdirectio w3 vp
                         then set_fsnode vp
                                ((VTOFUD w3 vp)\<lparr>filesize := sint (attr_size (r_attr fdi))\<rparr>) w3
                         else w3);
                   w5 = fuse_ticket_drop w4
               in if v_type vp \<noteq> va_type vap1 \<and> \<not> (v_type vp = VNON \<and> va_type vap1 \<noteq> VNON)
                  then (EIO, vap1, fuse_vncache_purge vp w5)
                  else (0, vap1, w5))))"

section \<open>The remaining vnode operations\<close>

text \<open>More constants of the host headers, and \<^verbatim>\<open>FUSE_LINK_MAX\<close> of \<^verbatim>\<open>fuse_param.h\<close>.\<close>

abbreviation IO_UNIT :: "32 word" where "IO_UNIT \<equiv> 1"
abbreviation IO_APPEND :: "32 word" where "IO_APPEND \<equiv> 2"
abbreviation IO_SYNC :: "32 word" where "IO_SYNC \<equiv> 4"
abbreviation IO_HEADZEROFILL :: "32 word" where "IO_HEADZEROFILL \<equiv> 128"
abbreviation IO_NOCACHE :: "32 word" where "IO_NOCACHE \<equiv> 2048"

abbreviation UPL_NOCOMMIT :: "32 word" where "UPL_NOCOMMIT \<equiv> 2"

abbreviation VNODE_READDIR_EXTENDED :: "32 word" where "VNODE_READDIR_EXTENDED \<equiv> 1"
abbreviation VNODE_READDIR_REQSEEKOFF :: "32 word" where "VNODE_READDIR_REQSEEKOFF \<equiv> 2"

abbreviation FATTR_MODE :: "32 word" where "FATTR_MODE \<equiv> 1"
abbreviation FATTR_UID :: "32 word" where "FATTR_UID \<equiv> 2"
abbreviation FATTR_GID :: "32 word" where "FATTR_GID \<equiv> 4"
abbreviation FATTR_SIZE :: "32 word" where "FATTR_SIZE \<equiv> 8"
abbreviation FATTR_ATIME :: "32 word" where "FATTR_ATIME \<equiv> 16"
abbreviation FATTR_MTIME :: "32 word" where "FATTR_MTIME \<equiv> 32"
abbreviation FATTR_CRTIME :: "32 word" where "FATTR_CRTIME \<equiv> 268435456"
abbreviation FATTR_CHGTIME :: "32 word" where "FATTR_CHGTIME \<equiv> 536870912"
abbreviation FATTR_BKUPTIME :: "32 word" where "FATTR_BKUPTIME \<equiv> 1073741824"
abbreviation FATTR_FLAGS :: "32 word" where "FATTR_FLAGS \<equiv> 2147483648"

abbreviation FUSE_LINK_MAX :: nat where "FUSE_LINK_MAX \<equiv> 32767"
abbreviation MAXPATHLEN :: int where "MAXPATHLEN \<equiv> 1024"
abbreviation PIPE_BUF :: int where "PIPE_BUF \<equiv> 512"

text \<open>The size of \<^verbatim>\<open>struct fuse_dirent\<close> (\<^verbatim>\<open>fuse_kernel.h\<close>).\<close>

abbreviation sizeof_fuse_dirent :: int where "sizeof_fuse_dirent \<equiv> 24"

subsection \<open>Helpers\<close>

text \<open>
  The host's \<^verbatim>\<open>uiomove\<close> from the caller, for a \<^verbatim>\<open>uio\<close> that carries data to write: it
  takes at most \<open>n\<close> bytes and at most what the \<^verbatim>\<open>uio\<close> still holds, or fails without moving
  anything. Here \<open>uio_mem\<close> holds the bytes the caller still offers.
\<close>

definition uiomove_in :: "host \<Rightarrow> nat \<Rightarrow> uio \<Rightarrow> int \<times> 8 word list \<times> uio" where
  "uiomove_in h n u =
     (if uiomove_error h (uio_offset u) \<noteq> 0 then (uiomove_error h (uio_offset u), [], u)
      else (let m = min n (nat (uio_resid u))
            in (0, take m (uio_mem u),
                u\<lparr>uio_resid := uio_resid u - int m,
                  uio_offset := uio_offset u + int m,
                  uio_mem := drop m (uio_mem u)\<rparr>)))"

text \<open>Division of an \<^verbatim>\<open>off_t\<close> by a positive number, as C divides: towards zero.\<close>

definition c_div :: "int \<Rightarrow> int \<Rightarrow> int" where
  "c_div a b = (if 0 \<le> a then a div b else - ((- a) div b))"

text \<open>\<^verbatim>\<open>fuse_skip_apple_xattr_mp\<close>, for a name that is not null.\<close>

definition fuse_skip_apple_xattr_mp :: "fuse_data \<Rightarrow> string \<Rightarrow> bool" where
  "fuse_skip_apple_xattr_mp data name \<longleftrightarrow>
     FSESS_NO_APPLEXATTR data \<and> take 10 name = ''com.apple.''"

text \<open>
  Modelled from the spec: \<^verbatim>\<open>fuse_dispatcher_simple_putget_vp\<close> (\<^verbatim>\<open>fuse_ipc.h\<close>) makes a request
  without payload for a vnode and waits for its answer.
\<close>

definition fuse_dispatcher_simple_putget_vp ::
  "daemon \<Rightarrow> fuse_opcode \<Rightarrow> vnode \<Rightarrow> world \<Rightarrow> fuse_reply \<times> world" where
  "fuse_dispatcher_simple_putget_vp d op vp w =
     fuse_dispatcher_wait_answer d (fuse_dispatcher_make_vp w op vp No_in) w"

text \<open>
  Modelled from the spec: \<^verbatim>\<open>fuse_internal_access\<close>, \<^verbatim>\<open>fuse_internal_fsync\<close> and
  \<^verbatim>\<open>fuse_internal_exchange\<close> (\<^verbatim>\<open>fuse_internal.h\<close>) each send one request of an optional
  operation. The spec: ``Every op that the protocol marks optional queries \<^verbatim>\<open>CM.has(op)\<close>
  before dispatch; on a reply of `function not implemented', it atomically clears the bit'';
  the callers of \<^verbatim>\<open>fuse_internal_fsync\<close> and \<^verbatim>\<open>fuse_internal_exchange\<close> query the bit
  themselves, and the caller of \<^verbatim>\<open>fuse_internal_exchange\<close> clears it.
\<close>

definition fuse_internal_access :: "daemon \<Rightarrow> vnode \<Rightarrow> 32 word \<Rightarrow> world \<Rightarrow> int \<times> world" where
  "fuse_internal_access d vp action w =
     (if \<not> fuse_implemented (session w) FUSE_ACCESS then (0, w)
      else
        (let (fdi, w1) = fuse_dispatcher_wait_answer d
                           (fuse_dispatcher_make_vp w FUSE_ACCESS vp (Access_in action)) w
         in if r_error fdi = 0 then (0, fuse_ticket_drop w1)
            else if r_error fdi = ENOSYS then (0, fuse_clear_implemented FUSE_ACCESS w1)
            else (r_error fdi, w1)))"

definition fuse_internal_fsync :: "daemon \<Rightarrow> vnode \<Rightarrow> fufh_type \<Rightarrow> world \<Rightarrow> int \<times> world" where
  "fuse_internal_fsync d vp fufh_type w =
     (let op = (if v_type vp = VDIR then FUSE_FSYNCDIR else FUSE_FSYNC);
          (fdi, w1) = fuse_dispatcher_wait_answer d
                        (fuse_dispatcher_make_vp w op vp
                           (Fsync_in (fh_id (fufh (VTOFUD w vp) fufh_type)))) w
      in if r_error fdi = 0 then (0, fuse_ticket_drop w1)
         else if r_error fdi = ENOSYS then (ENOSYS, fuse_clear_implemented op w1)
         else (r_error fdi, w1))"

definition fuse_internal_exchange ::
  "daemon \<Rightarrow> vnode \<Rightarrow> string \<Rightarrow> vnode \<Rightarrow> string \<Rightarrow> 32 word \<Rightarrow> world \<Rightarrow> int \<times> world" where
  "fuse_internal_exchange d fvp fname tvp tname options w =
     (let (fdi, w1) = fuse_dispatcher_wait_answer d
                        (fuse_dispatcher_make_vp w FUSE_EXCHANGE fvp
                           (Exchange_in (parent_nodeid (VTOFUD w fvp))
                              (parent_nodeid (VTOFUD w tvp)) fname tname options)) w
      in if r_error fdi = 0
         then (0, fuse_invalidate_attr tvp (fuse_invalidate_attr fvp (fuse_ticket_drop w1)))
         else (r_error fdi, w1))"

text \<open>
  Modelled from the spec: \<^verbatim>\<open>fuse_internal_readdir\<close> sends \<^verbatim>\<open>READDIR\<close> on the handle and
  moves the entries of the answer to the caller; \<^verbatim>\<open>fuse_internal_rename\<close> sends \<^verbatim>\<open>RENAME\<close>.
\<close>

definition fuse_internal_readdir ::
  "host \<Rightarrow> daemon \<Rightarrow> vnode \<Rightarrow> uio \<Rightarrow> fufh_type \<Rightarrow> world \<Rightarrow> int \<times> uio \<times> world" where
  "fuse_internal_readdir h d vp uio fufh_type w =
     (let (fdi, w1) = fuse_dispatcher_wait_answer d
                        (fuse_dispatcher_make_vp w FUSE_READDIR vp
                           (Readdir_in (fh_id (fufh (VTOFUD w vp) fufh_type)) (uio_offset uio)
                              (word_of_nat (min (nat (uio_resid uio)) (unat (iosize (session w))))))) w
      in if r_error fdi \<noteq> 0 then (r_error fdi, uio, w1)
         else (let (err, uio1) = uiomove h (r_data fdi) (length (r_data fdi)) uio
               in (err, uio1, fuse_ticket_drop w1)))"

definition fuse_internal_rename ::
  "daemon \<Rightarrow> vnode \<Rightarrow> componentname \<Rightarrow> vnode \<Rightarrow> componentname \<Rightarrow> world \<Rightarrow> int \<times> world" where
  "fuse_internal_rename d fdvp fcnp tdvp tcnp w =
     (let (fdi, w1) = fuse_dispatcher_wait_answer d
                        (fuse_dispatcher_make_vp w FUSE_RENAME fdvp
                           (Rename_in (VTOI w tdvp) (cn_nameptr fcnp) (cn_nameptr tcnp))) w
      in (r_error fdi, if r_error fdi = 0 then fuse_ticket_drop w1 else w1))"

text \<open>
  Modelled from the spec: \<^verbatim>\<open>fuse_internal_newentry_core\<close> waits for the answer to a request
  that creates an entry, validates the type of the entry and makes its vnode, with a
  \<^verbatim>\<open>FORGET\<close> when the vnode cannot be made; \<^verbatim>\<open>fuse_internal_newentry\<close> builds the request
  first.
\<close>

definition fuse_internal_newentry_core ::
  "host \<Rightarrow> daemon \<Rightarrow> vnode \<Rightarrow> vtype \<Rightarrow> fuse_request \<Rightarrow> world \<Rightarrow> int \<times> vnode option \<times> world" where
  "fuse_internal_newentry_core h d dvp vtyp q w =
     (let (fdi, w1) = fuse_dispatcher_wait_answer d q w
      in if r_error fdi \<noteq> 0 then (r_error fdi, None, w1)
         else if fuse_internal_checkentry fdi vtyp \<noteq> 0
         then (fuse_internal_checkentry fdi vtyp, None, fuse_ticket_drop w1)
         else
           (let (err, vp) = vget h fdi
            in if err \<noteq> 0 then (err, None, fuse_internal_forget_send (r_nodeid fdi) 1 w1)
               else (0, Some vp, fuse_ticket_drop (cache_attrs h vp fdi w1))))"

definition fuse_internal_newentry ::
  "host \<Rightarrow> daemon \<Rightarrow> vnode \<Rightarrow> fuse_opcode \<Rightarrow> fuse_indata \<Rightarrow> vtype \<Rightarrow> world
     \<Rightarrow> int \<times> vnode option \<times> world" where
  "fuse_internal_newentry h d dvp op buf vtyp w =
     fuse_internal_newentry_core h d dvp vtyp
       (fuse_internal_newentry_makerequest (VTOI w dvp) op buf) w"

text \<open>
  Modelled from the spec: \<^verbatim>\<open>fuse_internal_attr_vat2fsai\<close> translates the attributes the
  caller wants set into the fields of \<^verbatim>\<open>SETATTR\<close>. It gives the mask of valid fields, and
  tells whether the size changes and the new size. Which attributes the caller wants set
  (\<^verbatim>\<open>va_active\<close>) is given as a set.
\<close>

datatype vattr_field =
    VA_data_size | VA_uid | VA_gid | VA_mode | VA_flags | VA_create_time | VA_access_time
  | VA_modify_time | VA_change_time | VA_backup_time

definition fuse_internal_attr_vat2fsai ::
  "vnode_attr \<Rightarrow> vattr_field set \<Rightarrow> 32 word \<times> bool \<times> 64 word" where
  "fuse_internal_attr_vat2fsai vap active =
     ((if VA_data_size \<in> active then FATTR_SIZE else 0) OR
      (if VA_uid \<in> active then FATTR_UID else 0) OR
      (if VA_gid \<in> active then FATTR_GID else 0) OR
      (if VA_mode \<in> active then FATTR_MODE else 0) OR
      (if VA_flags \<in> active then FATTR_FLAGS else 0) OR
      (if VA_create_time \<in> active then FATTR_CRTIME else 0) OR
      (if VA_access_time \<in> active then FATTR_ATIME else 0) OR
      (if VA_modify_time \<in> active then FATTR_MTIME else 0) OR
      (if VA_change_time \<in> active then FATTR_CHGTIME else 0) OR
      (if VA_backup_time \<in> active then FATTR_BKUPTIME else 0),
      VA_data_size \<in> active,
      if VA_data_size \<in> active then va_data_size vap else 0)"

text \<open>
  The loop of \<^verbatim>\<open>fuse_vnop_inactive\<close> and \<^verbatim>\<open>fuse_vnop_reclaim\<close> over the slots, for one slot:
  a valid slot is reset and put.
\<close>

definition fufh_reset_put :: "daemon \<Rightarrow> vnode \<Rightarrow> fufh_type \<Rightarrow> world \<Rightarrow> world" where
  "fufh_reset_put d vp fufh_type w =
     (if FUFH_IS_VALID (fufh (VTOFUD w vp) fufh_type)
      then snd (fuse_filehandle_put d vp fufh_type
                  (set_fufh vp fufh_type (FUFH_USE_RESET (fufh (VTOFUD w vp) fufh_type)) w))
      else w)"

subsection \<open>\<^verbatim>\<open>fuse_vnop_access\<close>, \<^verbatim>\<open>fuse_vnop_blktooff\<close>, \<^verbatim>\<open>fuse_vnop_offtoblk\<close>, \<^verbatim>\<open>fuse_vnop_blockmap\<close>\<close>

definition fuse_vnop_access :: "host \<Rightarrow> daemon \<Rightarrow> vnode \<Rightarrow> 32 word \<Rightarrow> world \<Rightarrow> int \<times> world" where
  "fuse_vnop_access h d vp action w =
     (if fuse_isdeadfs w vp then (if v_isvroot vp then (0, w) else (ENXIO, w))
      else if \<not> inited (session w) then
        (if v_isvroot vp \<and> (issuser h \<or> match_cred h) then (0, w) else (EBADF, w))
      else if v_type vp = VLNK then (0, w)
      else fuse_internal_access d vp action w)"

text \<open>
  The block operations return what they store through their pointers. The block size
  divides: with a block size of zero \<^verbatim>\<open>offtoblk\<close> and \<^verbatim>\<open>blockmap\<close> do not return. In
  \<^verbatim>\<open>blockmap\<close> the size is a \<^verbatim>\<open>size_t\<close>, compared as an \<^verbatim>\<open>off_t\<close>, and the run is the number of
  contiguous bytes stored as a \<^verbatim>\<open>size_t\<close>: a negative number wraps around.
\<close>

definition fuse_vnop_blktooff :: "vnode \<Rightarrow> 64 word \<Rightarrow> world \<Rightarrow> int \<times> 64 word option \<times> world" where
  "fuse_vnop_blktooff vp lblkno w =
     (if fuse_isdeadfs w vp then (ENXIO, None, w)
      else (0, Some (lblkno * ucast (blocksize (session w))), w))"

definition fuse_vnop_offtoblk :: "vnode \<Rightarrow> int \<Rightarrow> world \<Rightarrow> (int \<times> int option \<times> world) option" where
  "fuse_vnop_offtoblk vp offset w =
     (if fuse_isdeadfs w vp then Some (ENXIO, None, w)
      else if blocksize (session w) = 0 then None
      else Some (0, Some (c_div offset (uint (blocksize (session w)))), w))"

definition fuse_vnop_blockmap ::
  "vnode \<Rightarrow> int \<Rightarrow> 64 word \<Rightarrow> bool \<Rightarrow> world
     \<Rightarrow> (int \<times> (int \<times> 64 word) option \<times> world) option" where
  "fuse_vnop_blockmap vp foffset a_size bpn_null w =
     (if fuse_isdeadfs w vp then Some (ENXIO, None, w)
      else if v_type vp = VDIR then Some (ENOTSUP, None, w)
      else if bpn_null then Some (0, None, w)
      else if blocksize (session w) = 0 then None
      else
        (let bpn = c_div foffset (uint (blocksize (session w)));
             contiguousPhysicalBytes = filesize (VTOFUD w vp) - bpn * uint (blocksize (session w))
         in Some (0, Some (bpn, if contiguousPhysicalBytes > sint a_size then a_size
                                else word_of_int contiguousPhysicalBytes), w)))"

subsection \<open>\<^verbatim>\<open>fuse_vnop_exchange\<close> and \<^verbatim>\<open>fuse_vnop_fsync\<close>\<close>

text \<open>
  The body of \<^verbatim>\<open>fuse_vnop_exchange\<close> is under \<^verbatim>\<open>#ifdef FUSE4X_ENABLE_EXCHANGE\<close>; without the
  macro the operation only returns \<^verbatim>\<open>ENOTSUP\<close>.
\<close>

definition fuse_vnop_exchange ::
  "host \<Rightarrow> daemon \<Rightarrow> vnode \<Rightarrow> vnode \<Rightarrow> 32 word \<Rightarrow> world \<Rightarrow> int \<times> world" where
  "fuse_vnop_exchange h d fvp tvp options w =
     (if \<not> FUSE4X_ENABLE_EXCHANGE h then (ENOTSUP, w)
      else if v_mount fvp \<noteq> v_mount tvp then (EXDEV, w)
      else if \<not> fuse_implemented (session w) FUSE_EXCHANGE then (ENOTSUP, w)
      else if FSESS_NO_VNCACHE (session w) then (ENOTSUP, w)
      else if v_id fvp = v_id tvp then (EINVAL, w)
      else if v_type fvp \<noteq> VREG \<or> v_type tvp \<noteq> VREG then (EINVAL, w)
      else if fuse_isdeadfs w fvp then (ENXIO, w)
      else
        (case vnode_getname h fvp of
           None \<Rightarrow> (EIO, w)
         | Some fname \<Rightarrow>
             (case vnode_getname h tvp of
                None \<Rightarrow> (EIO, w)
              | Some tname \<Rightarrow>
                  (if length fname > 2 \<and> take 2 fname = ''._'' then (EINVAL, w)
                   else if length tname > 2 \<and> take 2 tname = ''._'' then (EINVAL, w)
                   else
                     (let (err, w1) = fuse_internal_exchange d fvp fname tvp tname options w
                      in if err = ENOSYS
                         then (ENOTSUP, fuse_clear_implemented FUSE_EXCHANGE w1)
                         else (err, w1))))))"

text \<open>One round of the loop of \<^verbatim>\<open>fuse_vnop_fsync\<close> over the slots.\<close>

definition fuse_vnop_fsync_slot :: "daemon \<Rightarrow> vnode \<Rightarrow> fufh_type \<Rightarrow> int \<times> world \<Rightarrow> int \<times> world" where
  "fuse_vnop_fsync_slot d vp fufh_type ew =
     (if FUFH_IS_VALID (fufh (VTOFUD (snd ew) vp) fufh_type)
      then (let (tmp_err, w1) = fuse_internal_fsync d vp fufh_type (snd ew)
            in (if tmp_err \<noteq> 0 then tmp_err else fst ew, w1))
      else ew)"

definition fuse_vnop_fsync :: "host \<Rightarrow> daemon \<Rightarrow> vnode \<Rightarrow> world \<Rightarrow> int \<times> world" where
  "fuse_vnop_fsync h d vp w =
     (if fuse_isdeadfs w vp then (0, w)
      else
        (let w1 = emit (Cluster_push (v_id vp)) w;
             (err, w2) =
               (if \<not> fuse_implemented (session w1)
                        (if v_type vp = VDIR then FUSE_FSYNCDIR else FUSE_FSYNC)
                then (ENOSYS, w1)
                else fuse_vnop_fsync_slot d vp FUFH_RDWR
                       (fuse_vnop_fsync_slot d vp FUFH_WRONLY
                          (fuse_vnop_fsync_slot d vp FUFH_RDONLY (0, w1))))
         in (if err = ENOSYS \<and> \<not> FSESS_NO_SYNCWRITES (session w2) then 0 else err, w2)))"

subsection \<open>The extended attributes\<close>

text \<open>
  The name is \<open>None\<close> for a null pointer, and so is the \<^verbatim>\<open>uio\<close>, whose offset the host then
  reads as 0. The operations return the \<^verbatim>\<open>uio\<close> and what they store through \<^verbatim>\<open>a_size\<close>.
  That a large request is marked killable leaves no trace here.
\<close>

definition fuse_vnop_xattr_answer ::
  "host \<Rightarrow> uio option \<Rightarrow> nat \<Rightarrow> fuse_reply \<Rightarrow> world \<Rightarrow> int \<times> uio option \<times> nat \<times> world" where
  "fuse_vnop_xattr_answer h uio a_size fdi w =
     (case uio of
        Some u \<Rightarrow>
          (if int (length (r_data fdi)) > uio_resid u
           then (ERANGE, Some u, length (r_data fdi), fuse_ticket_drop w)
           else (let (err, u1) = uiomove h (r_data fdi) (nat (size_to_int (length (r_data fdi)))) u
                 in (err, Some u1, length (r_data fdi), fuse_ticket_drop w)))
      | None \<Rightarrow> (0, None, unat (r_size fdi), fuse_ticket_drop w))"

definition fuse_vnop_getxattr ::
  "host \<Rightarrow> daemon \<Rightarrow> vnode \<Rightarrow> string option \<Rightarrow> uio option \<Rightarrow> nat \<Rightarrow> world
     \<Rightarrow> int \<times> uio option \<times> nat \<times> world" where
  "fuse_vnop_getxattr h d vp name uio a_size w =
     (if fuse_isdeadfs w vp then (ENXIO, uio, a_size, w)
      else if blanket_deny h vp then (ENOENT, uio, a_size, w)
      else if name = None \<or> name = Some [] then (EINVAL, uio, a_size, w)
      else if fuse_skip_apple_xattr_mp (session w) (the name) then (EPERM, uio, a_size, w)
      else if FSESS_AUTO_XATTR (session w) then (ENOTSUP, uio, a_size, w)
      else if \<not> fuse_implemented (session w) FUSE_GETXATTR then (ENOTSUP, uio, a_size, w)
      else
        (let fgxi_size = (case uio of Some u \<Rightarrow> word_of_int (uio_resid u) | None \<Rightarrow> 0);
             position = (case uio of Some u \<Rightarrow> word_of_int (uio_offset u) | None \<Rightarrow> 0);
             (fdi, w1) = fuse_dispatcher_wait_answer d
                           (fuse_dispatcher_make_vp w FUSE_GETXATTR vp
                              (Getxattr_in fgxi_size position (the name))) w
         in if r_error fdi \<noteq> 0 then
              (if r_error fdi = ENOSYS
               then (ENOTSUP, uio, a_size, fuse_clear_implemented FUSE_GETXATTR w1)
               else (r_error fdi, uio, a_size, w1))
            else fuse_vnop_xattr_answer h uio a_size fdi w1))"

definition fuse_vnop_listxattr ::
  "host \<Rightarrow> daemon \<Rightarrow> vnode \<Rightarrow> uio option \<Rightarrow> nat \<Rightarrow> world \<Rightarrow> int \<times> uio option \<times> nat \<times> world" where
  "fuse_vnop_listxattr h d vp uio a_size w =
     (if fuse_isdeadfs w vp then (ENXIO, uio, a_size, w)
      else if blanket_deny h vp then (ENOENT, uio, a_size, w)
      else if FSESS_AUTO_XATTR (session w) then (ENOTSUP, uio, a_size, w)
      else if \<not> fuse_implemented (session w) FUSE_LISTXATTR then (ENOTSUP, uio, a_size, w)
      else
        (let fgxi_size = (case uio of Some u \<Rightarrow> word_of_int (uio_resid u) | None \<Rightarrow> 0);
             (fdi, w1) = fuse_dispatcher_wait_answer d
                           (fuse_dispatcher_make_vp w FUSE_LISTXATTR vp (Listxattr_in fgxi_size)) w
         in if r_error fdi \<noteq> 0 then
              (if r_error fdi = ENOSYS
               then (ENOTSUP, uio, a_size, fuse_clear_implemented FUSE_LISTXATTR w1)
               else (r_error fdi, uio, a_size, w1))
            else fuse_vnop_xattr_answer h uio a_size fdi w1))"

definition fuse_vnop_removexattr ::
  "host \<Rightarrow> daemon \<Rightarrow> vnode \<Rightarrow> string option \<Rightarrow> world \<Rightarrow> int \<times> world" where
  "fuse_vnop_removexattr h d vp name w =
     (if fuse_isdeadfs w vp then (ENXIO, w)
      else if blanket_deny h vp then (ENOENT, w)
      else if name = None \<or> name = Some [] then (EINVAL, w)
      else if fuse_skip_apple_xattr_mp (session w) (the name) then (EPERM, w)
      else if FSESS_AUTO_XATTR (session w) then (ENOTSUP, w)
      else if \<not> fuse_implemented (session w) FUSE_REMOVEXATTR then (ENOTSUP, w)
      else
        (let (fdi, w1) = fuse_dispatcher_wait_answer d
                           (fuse_dispatcher_make_vp w FUSE_REMOVEXATTR vp (Name_in (the name))) w
         in if r_error fdi = 0 then
              (let w2 = fuse_ticket_drop w1;
                   w3 = set_fsnode vp ((VTOFUD w2 vp)\<lparr>C_TOUCH_CHGTIME := True\<rparr>) w2
               in (0, fuse_invalidate_attr vp w3))
            else if r_error fdi = ENOSYS
            then (ENOTSUP, fuse_clear_implemented FUSE_REMOVEXATTR w1)
            else (r_error fdi, w1)))"

text \<open>
  \<^verbatim>\<open>fuse_vnop_setxattr\<close>. The size of the attribute is the \<^verbatim>\<open>uio\<close>'s residue read as a
  \<^verbatim>\<open>size_t\<close>. The host's \<open>uio_getiov\<close> gives the result of the last call that saves an
  \<^verbatim>\<open>iovec\<close> of the \<open>iov_cnt\<close> saved (0 when none is saved); restoring the saved descriptors
  gives the \<^verbatim>\<open>uio\<close> back as it came.
\<close>

definition fuse_vnop_setxattr ::
  "host \<Rightarrow> daemon \<Rightarrow> vnode \<Rightarrow> string option \<Rightarrow> uio \<Rightarrow> 32 word \<Rightarrow> nat \<Rightarrow> world
     \<Rightarrow> int \<times> uio \<times> world" where
  "fuse_vnop_setxattr h d vp name uio options iov_cnt w =
     (if fuse_isdeadfs w vp then (ENXIO, uio, w)
      else if blanket_deny h vp then (ENOENT, uio, w)
      else if name = None \<or> name = Some [] then (EINVAL, uio, w)
      else if fuse_skip_apple_xattr_mp (session w) (the name) then (EPERM, uio, w)
      else if FSESS_AUTO_XATTR (session w) then (ENOTSUP, uio, w)
      else if \<not> fuse_implemented (session w) FUSE_SETXATTR then (ENOTSUP, uio, w)
      else
        (let attrsize = nat (uio_resid uio mod 2 ^ 64);
             iov_err = (if iov_cnt = 0 then 0 else uio_getiov h (min iov_cnt 8))
         in if attrsize > unat (userkernel_bufsize (session w)) then (E2BIG, uio, w)
            else if make_vp_canfail h attrsize \<noteq> 0 then (ERANGE, uio, w)
            else
              (let (uerr, bytes, uio1) = uiomove_in h (nat (size_to_int attrsize)) uio;
                   q = fuse_dispatcher_make_vp w FUSE_SETXATTR vp
                         (Setxattr_in (word_of_nat attrsize) options
                            (word_of_int (uio_offset uio)) (the name) bytes);
                   (err, w1) = (if uerr = 0
                                then (let (fdi, w1) = fuse_dispatcher_wait_answer d q w
                                      in (r_error fdi, w1))
                                else (uerr, w))
               in if err = 0 then
                    (let w2 = fuse_invalidate_attr vp (fuse_ticket_drop w1)
                     in (0, uio1, set_fsnode vp ((VTOFUD w2 vp)\<lparr>C_TOUCH_CHGTIME := True\<rparr>) w2))
                  else if err = ENOSYS \<or> err = ENOTSUP then
                    (let w2 = (if err = ENOSYS then fuse_clear_implemented FUSE_SETXATTR w1
                               else w1)
                     in if iov_err \<noteq> 0 then (EAGAIN, uio1, w2) else (ENOTSUP, uio, w2))
                  else (err, uio1, w1))))"

subsection \<open>\<^verbatim>\<open>fuse_vnop_inactive\<close> and \<^verbatim>\<open>fuse_vnop_reclaim\<close>\<close>

definition fuse_vnop_inactive :: "daemon \<Rightarrow> vnode \<Rightarrow> world \<Rightarrow> int \<times> world" where
  "fuse_vnop_inactive d vp w =
     (0, fufh_reset_put d vp FUFH_RDWR
           (fufh_reset_put d vp FUFH_WRONLY (fufh_reset_put d vp FUFH_RDONLY w)))"

text \<open>
  \<^verbatim>\<open>fuse_vnop_reclaim\<close> panics on a live file system when the vnode has no node data. The
  removal of the node from the session's registry and its destruction are the effect
  \<open>Node_destroy\<close>.
\<close>

definition fuse_vnop_reclaim :: "host \<Rightarrow> daemon \<Rightarrow> vnode \<Rightarrow> world \<Rightarrow> (int \<times> world) option" where
  "fuse_vnop_reclaim h d vp w =
     (if \<not> fuse_isdeadfs w vp \<and> v_data vp = 0 then None
      else
        (let w3 =
           (if fuse_isdeadfs w vp then w
            else
              (let w1 = fufh_reset_put d vp FUFH_RDWR
                          (fufh_reset_put d vp FUFH_WRONLY (fufh_reset_put d vp FUFH_RDONLY w))
               in if nlookup (VTOFUD w1 vp) \<noteq> 0
                  then fuse_internal_forget_send (VTOI w1 vp) (nlookup (VTOFUD w1 vp)) w1
                  else w1))
         in Some (0, emit (Node_destroy (v_id vp)) (fuse_vncache_purge vp w3))))"

subsection \<open>\<^verbatim>\<open>fuse_vnop_link\<close>, \<^verbatim>\<open>fuse_vnop_mkdir\<close>, \<^verbatim>\<open>fuse_vnop_mknod\<close>, \<^verbatim>\<open>fuse_vnop_symlink\<close>\<close>

text \<open>\<^verbatim>\<open>VTOVA(vp)\<close> is the attribute buffer of the node, \<open>attr_cache\<close>.\<close>

definition fuse_vnop_link ::
  "host \<Rightarrow> daemon \<Rightarrow> vnode \<Rightarrow> vnode \<Rightarrow> componentname \<Rightarrow> world \<Rightarrow> int \<times> world" where
  "fuse_vnop_link h d vp tdvp cnp w =
     (if fuse_isdeadfs w vp then (ENXIO, w)
      else if v_mount tdvp \<noteq> v_mount vp then (EXDEV, w)
      else if unat (va_nlink (attr_cache (VTOFUD w vp))) \<ge> FUSE_LINK_MAX then (EMLINK, w)
      else if blanket_deny h vp then (EPERM, w)
      else
        (let (fdi, w1) = fuse_dispatcher_wait_answer d
                           (fuse_internal_newentry_makerequest (VTOI w tdvp) FUSE_LINK
                              (Link_in (VTOI w vp) (cn_nameptr cnp))) w
         in if r_error fdi \<noteq> 0 then (r_error fdi, w1)
            else
              (let err = fuse_internal_checkentry fdi (v_type vp);
                   w2 = fuse_invalidate_attr vp (fuse_invalidate_attr tdvp (fuse_ticket_drop w1))
               in (err, if err = 0
                        then set_fsnode vp ((VTOFUD w2 vp)\<lparr>nlookup := nlookup (VTOFUD w2 vp) + 1\<rparr>) w2
                        else w2))))"

definition fuse_vnop_mkdir ::
  "host \<Rightarrow> daemon \<Rightarrow> vnode \<Rightarrow> componentname \<Rightarrow> vnode_attr \<Rightarrow> world \<Rightarrow> int \<times> vnode option \<times> world" where
  "fuse_vnop_mkdir h d dvp cnp vap w =
     (if fuse_isdeadfs w dvp then (ENXIO, None, w)
      else if blanket_deny h dvp then (EPERM, None, w)
      else
        (let (err, vpp, w1) = fuse_internal_newentry h d dvp FUSE_MKDIR
                                (Mkdir_in (MAKEIMODE (va_type vap) (va_mode vap)) (cn_nameptr cnp))
                                VDIR w
         in (err, vpp, if err = 0 then fuse_invalidate_attr dvp w1 else w1)))"

definition fuse_vnop_mknod ::
  "host \<Rightarrow> daemon \<Rightarrow> vnode \<Rightarrow> componentname \<Rightarrow> vnode_attr \<Rightarrow> world \<Rightarrow> int \<times> vnode option \<times> world" where
  "fuse_vnop_mknod h d dvp cnp vap w =
     (if fuse_isdeadfs w dvp then (ENXIO, None, w)
      else if blanket_deny h dvp then (EPERM, None, w)
      else
        (let (err, vpp, w1) = fuse_internal_newentry h d dvp FUSE_MKNOD
                                (Mknod_in (MAKEIMODE (va_type vap) (va_mode vap)) (va_rdev vap)
                                   (cn_nameptr cnp))
                                (va_type vap) w
         in (err, vpp, if err = 0 then fuse_invalidate_attr dvp w1 else w1)))"

definition fuse_vnop_symlink ::
  "host \<Rightarrow> daemon \<Rightarrow> vnode \<Rightarrow> componentname \<Rightarrow> string \<Rightarrow> world \<Rightarrow> int \<times> vnode option \<times> world" where
  "fuse_vnop_symlink h d dvp cnp target w =
     (if fuse_isdeadfs w dvp then (ENXIO, None, w)
      else if blanket_deny h dvp then (EPERM, None, w)
      else
        (let (err, vpp, w1) = fuse_internal_newentry_core h d dvp VLNK
                                (fuse_dispatcher_make_vp w FUSE_SYMLINK dvp
                                   (Symlink_in (cn_nameptr cnp) target)) w
         in (err, vpp, if err = 0 then fuse_invalidate_attr dvp w1 else w1)))"

subsection \<open>\<^verbatim>\<open>fuse_vnop_pagein\<close>, \<^verbatim>\<open>fuse_vnop_pageout\<close>, \<^verbatim>\<open>fuse_vnop_strategy\<close>, \<^verbatim>\<open>fuse_vnop_pathconf\<close>, \<^verbatim>\<open>fuse_vnop_select\<close>\<close>

definition fuse_vnop_pagein ::
  "host \<Rightarrow> vnode \<Rightarrow> int \<Rightarrow> nat \<Rightarrow> 32 word \<Rightarrow> world \<Rightarrow> int \<times> world" where
  "fuse_vnop_pagein h vp f_offset a_size flags w =
     (if fuse_isdeadfs w vp \<or> fuse_isdirectio w vp
      then (ENOTSUP, if flags AND UPL_NOCOMMIT = 0 then emit (Upl_abort (v_id vp)) w else w)
      else if v_data vp = 0 then (EIO, w)
      else (cluster_pagein h vp f_offset a_size (filesize (VTOFUD w vp)), w))"

definition fuse_vnop_pageout ::
  "host \<Rightarrow> vnode \<Rightarrow> int \<Rightarrow> nat \<Rightarrow> 32 word \<Rightarrow> world \<Rightarrow> int \<times> world" where
  "fuse_vnop_pageout h vp f_offset a_size flags w =
     (if fuse_isdeadfs w vp \<or> fuse_isdirectio w vp
      then (ENOTSUP, if flags AND UPL_NOCOMMIT = 0 then emit (Upl_abort (v_id vp)) w else w)
      else (cluster_pageout h vp f_offset a_size (filesize (VTOFUD w vp)), w))"

text \<open>
  \<^verbatim>\<open>fuse_vnop_strategy\<close> takes the vnode of the buffer, \<open>None\<close> for none. Modelled from the
  spec: \<^verbatim>\<open>fuse_internal_strategy_buf\<close> delegates to the host's buffer layer, here the host's
  \<open>strategy_buf\<close>.
\<close>

definition fuse_vnop_strategy :: "host \<Rightarrow> vnode option \<Rightarrow> world \<Rightarrow> int \<times> world" where
  "fuse_vnop_strategy h vp w =
     (case vp of
        None \<Rightarrow> (ENXIO, emit (Buf_error EIO) w)
      | Some v \<Rightarrow>
          (if fuse_isdeadfs w v then (ENXIO, emit (Buf_error EIO) w)
           else (strategy_buf h v, w)))"

text \<open>The names of \<^verbatim>\<open>pathconf\<close> are those of \<^verbatim>\<open>sys/unistd.h\<close>.\<close>

definition fuse_vnop_pathconf :: "host \<Rightarrow> vnode \<Rightarrow> int \<Rightarrow> world \<Rightarrow> int \<times> int option \<times> world" where
  "fuse_vnop_pathconf h vp name w =
     (if fuse_isdeadfs w vp then (ENXIO, None, w)
      else if blanket_deny h vp then (ENOENT, None, w)
      else if name = 1 then (0, Some (int FUSE_LINK_MAX), w)
      else if name = 4 then (0, Some (int FUSE_MAXNAMLEN), w)
      else if name = 5 then (0, Some MAXPATHLEN, w)
      else if name = 6 then (0, Some PIPE_BUF, w)
      else if name = 7 then (0, Some 1, w)
      else if name = 8 then (0, Some 0, w)
      else if name = 10 then (0, Some 255, w)
      else if name = 11 then (0, Some 1, w)
      else if name = 12 then (0, Some 1, w)
      else (EINVAL, None, w))"

definition fuse_vnop_select :: "world \<Rightarrow> int \<times> world" where
  "fuse_vnop_select w = (1, w)"

subsection \<open>\<^verbatim>\<open>fuse_vnop_readdir\<close> and \<^verbatim>\<open>fuse_vnop_readlink\<close>\<close>

text \<open>The number of \<^verbatim>\<open>iovec\<close>s of the \<^verbatim>\<open>uio\<close> is the argument \<open>iovcnt\<close>.\<close>

definition fuse_vnop_readdir ::
  "host \<Rightarrow> daemon \<Rightarrow> vnode \<Rightarrow> uio \<Rightarrow> 32 word \<Rightarrow> nat \<Rightarrow> world \<Rightarrow> int \<times> uio \<times> world" where
  "fuse_vnop_readdir h d vp uio flags iovcnt w =
     (if fuse_isdeadfs w vp then (ENXIO, uio, w)
      else if blanket_deny h vp then (EPERM, uio, w)
      else if flags AND (VNODE_READDIR_REQSEEKOFF OR VNODE_READDIR_EXTENDED) \<noteq> 0
      then (EINVAL, uio, w)
      else if iovcnt > 1 \<or> uio_resid uio < sizeof_fuse_dirent then (EINVAL, uio, w)
      else
        (let (gerr, w1) =
               (if FUFH_IS_VALID (fufh (VTOFUD w vp) FUFH_RDONLY)
                then (0, set_fufh vp FUFH_RDONLY (FUFH_USE_INC (fufh (VTOFUD w vp) FUFH_RDONLY)) w)
                else fuse_filehandle_get d vp FUFH_RDONLY 0 w)
         in if gerr \<noteq> 0 then (gerr, uio, w1)
            else
              (let (err, uio1, w2) = fuse_internal_readdir h d vp uio FUFH_RDONLY w1;
                   w3 = set_fufh vp FUFH_RDONLY (FUFH_USE_DEC (fufh (VTOFUD w2 vp) FUFH_RDONLY)) w2;
                   w4 = (if \<not> FUFH_IS_VALID (fufh (VTOFUD w3 vp) FUFH_RDONLY)
                         then snd (fuse_filehandle_put d vp FUFH_RDONLY w3) else w3)
               in (err, uio1, fuse_invalidate_attr vp w4))))"

definition fuse_vnop_readlink ::
  "host \<Rightarrow> daemon \<Rightarrow> vnode \<Rightarrow> uio \<Rightarrow> world \<Rightarrow> int \<times> uio \<times> world" where
  "fuse_vnop_readlink h d vp uio w =
     (if fuse_isdeadfs w vp then (ENXIO, uio, w)
      else if blanket_deny h vp then (ENOENT, uio, w)
      else if v_type vp \<noteq> VLNK then (EINVAL, uio, w)
      else
        (let (fdi, w1) = fuse_dispatcher_simple_putget_vp d FUSE_READLINK vp w
         in if r_error fdi \<noteq> 0 then (r_error fdi, uio, w1)
            else
              (let (err1, uio1) =
                     (if r_data fdi \<noteq> [] \<and> hd (r_data fdi) = 47 \<and> FSESS_JAIL_SYMLINKS (session w1)
                      then uiomove h (f_mntonname h) (nat (size_to_int (length (f_mntonname h)))) uio
                      else (0, uio));
                   (err2, uio2) =
                     (if err1 = 0 then uiomove h (r_data fdi) (nat (size_to_int (length (r_data fdi)))) uio1
                      else (err1, uio1))
               in (err2, uio2, fuse_invalidate_attr vp (fuse_ticket_drop w1)))))"

subsection \<open>\<^verbatim>\<open>fuse_vnop_rename\<close>\<close>

text \<open>The target vnode \<^verbatim>\<open>a_tvp\<close> is \<open>None\<close> for \<^verbatim>\<open>NULLVP\<close>; vnodes are compared by identity.\<close>

definition fuse_vnop_rename ::
  "host \<Rightarrow> daemon \<Rightarrow> vnode \<Rightarrow> vnode \<Rightarrow> componentname \<Rightarrow> vnode \<Rightarrow> vnode option \<Rightarrow> componentname
     \<Rightarrow> world \<Rightarrow> int \<times> world" where
  "fuse_vnop_rename h d fdvp fvp fcnp tdvp tvp tcnp w =
     (if fuse_isdeadfs w fdvp then (ENXIO, w)
      else if blanket_deny h fdvp then (ENOENT, w)
      else
        (let w1 = fuse_vncache_purge fvp w;
             (err, w2) = fuse_internal_rename d fdvp fcnp tdvp tcnp w1;
             w3 = (if err = 0
                   then (let w2a = fuse_invalidate_attr fdvp w2
                         in if v_id tdvp \<noteq> v_id fdvp then fuse_invalidate_attr tdvp w2a else w2a)
                   else w2);
             w4 = (case tvp of
                     None \<Rightarrow> w3
                   | Some t \<Rightarrow> if v_id t \<noteq> v_id fvp then fuse_vncache_purge t w3 else w3);
             w5 = (if v_type fvp = VDIR
                   then fuse_vncache_purge fdvp
                          (case tvp of
                             None \<Rightarrow> w4
                           | Some t \<Rightarrow> if v_type t = VDIR then fuse_vncache_purge tdvp w4 else w4)
                   else w4)
         in (err, w5)))"

subsection \<open>\<^verbatim>\<open>fuse_vnop_setattr\<close>\<close>

definition fuse_vnop_setattr ::
  "host \<Rightarrow> daemon \<Rightarrow> vnode \<Rightarrow> vnode_attr \<Rightarrow> vattr_field set \<Rightarrow> world \<Rightarrow> int \<times> world" where
  "fuse_vnop_setattr h d vp vap active w =
     (if fuse_isdeadfs w vp then (ENXIO, w)
      else if blanket_deny h vp then (ENOENT, w)
      else
        (let (valid, sizechanged, newsize) = fuse_internal_attr_vat2fsai vap active
         in if valid = 0 then (0, fuse_ticket_drop w)
            else if valid AND FATTR_SIZE \<noteq> 0 \<and> v_type vp = VDIR
            then (EISDIR, fuse_ticket_drop w)
            else if vfs_isrdonly h \<and> (valid AND NOT FATTR_SIZE \<noteq> 0 \<or> v_type vp = VREG)
            then (EROFS, fuse_ticket_drop w)
            else
              (let (fdi, w1) = fuse_dispatcher_wait_answer d
                                 (fuse_dispatcher_make_vp w FUSE_SETATTR vp
                                    (Setattr_in valid newsize)) w
               in if r_error fdi \<noteq> 0 then (r_error fdi, fuse_invalidate_attr vp w1)
                  else
                    (let vtyp = IFTOVT (attr_mode (r_attr fdi));
                         stale = (v_type vp \<noteq> vtyp \<and> \<not> (v_type vp = VNON \<and> vtyp \<noteq> VNON));
                         err = (if stale then EAGAIN else 0);
                         w2 = (if stale then fuse_vncache_purge vp w1 else w1);
                         w3 = (if err = 0 then
                                 (if sizechanged then fuse_invalidate_attr vp w2
                                  else
                                    (let w2a = cache_attrs h vp fdi w2
                                     in if valid AND FATTR_BKUPTIME \<noteq> 0 \<or> valid AND FATTR_CRTIME \<noteq> 0
                                        then set_fsnode vp
                                               ((VTOFUD w2a vp)\<lparr>C_XTIMES_VALID := False\<rparr>) w2a
                                        else w2a))
                               else w2);
                         w4 = fuse_ticket_drop w3
                     in (err, if err = 0 \<and> sizechanged
                              then emit (Ubc_setsize (v_id vp) (uint newsize))
                                     (set_fsnode vp ((VTOFUD w4 vp)\<lparr>filesize := uint newsize\<rparr>) w4)
                              else w4)))))"

subsection \<open>\<^verbatim>\<open>fuse_vnop_write\<close>\<close>

text \<open>
  The loop of the direct-I/O branch; the size of a chunk is computed by the kernel's \<^verbatim>\<open>min\<close>
  on two \<^verbatim>\<open>u_int\<close>, as in \<^verbatim>\<open>fuse_vnop_read\<close>, and handed to \<^verbatim>\<open>uiomove\<close> as an \<^verbatim>\<open>int\<close>. It leaves by \<^verbatim>\<open>break\<close> with the error of \<^verbatim>\<open>uiomove\<close> or
  with \<^verbatim>\<open>EINVAL\<close> for an answer that claims more than was sent, by \<^verbatim>\<open>return\<close> with the error
  of the daemon, or when nothing is left; the code after the loop is part of each exit. A
  daemon that never accepts a byte keeps the loop going: then the operation does not return.
\<close>

partial_function (option) fuse_vnop_write_loop ::
  "host \<Rightarrow> daemon \<Rightarrow> vnode \<Rightarrow> fufh_type \<Rightarrow> uio \<Rightarrow> world \<Rightarrow> (int \<times> uio \<times> world) option" where
  "fuse_vnop_write_loop h d vp fufh_type uio w =
     (if 0 < uio_resid uio then
        (let chunk = (min (word_of_int (uio_resid uio)) (iosize (session w)) :: 32 word);
             chunksize = unat chunk;
             (error, bytes, uio1) = uiomove_in h (nat (sint chunk)) uio
         in if error \<noteq> 0 then Some (error, uio1, fuse_ticket_drop w)
            else
              (let (fdi, w1) = fuse_dispatcher_wait_answer d
                                 (fuse_dispatcher_make_vp w FUSE_WRITE vp
                                    (Write_in (fh_id (fufh (VTOFUD w vp) fufh_type)) (uio_offset uio)
                                       chunk bytes)) w
               in if r_error fdi \<noteq> 0 then Some (r_error fdi, uio1, w1)
                  else
                    (let diff = int chunksize - uint (r_size fdi)
                     in if diff < 0 then Some (EINVAL, uio1, fuse_ticket_drop w1)
                        else fuse_vnop_write_loop h d vp fufh_type
                               (uio1\<lparr>uio_resid := uio_resid uio1 + diff,
                                     uio_offset := uio_offset uio1 - diff\<rparr>) w1)))
      else Some (0, uio, fuse_ticket_drop (fuse_invalidate_attr vp w)))"

text \<open>The branch of \<^verbatim>\<open>fuse_vnop_write\<close> that goes through the cluster layer.\<close>

definition fuse_vnop_write_cluster ::
  "host \<Rightarrow> vnode \<Rightarrow> uio \<Rightarrow> 32 word \<Rightarrow> world \<Rightarrow> int \<times> uio \<times> world" where
  "fuse_vnop_write_cluster h vp uio ioflag w =
     (let original_resid = uio_resid uio;
          original_offset = uio_offset uio;
          original_size = filesize (VTOFUD w vp);
          uio0 = (if ioflag AND IO_APPEND \<noteq> 0 then uio\<lparr>uio_offset := original_size\<rparr> else uio);
          offset = uio_offset uio0
      in if offset < 0 then (EFBIG, uio0, w)
         else
           (let extend = (offset + original_resid > original_size);
                new_filesize = (if extend then offset + original_resid else original_size);
                w1 = (if extend then set_fsnode vp ((VTOFUD w vp)\<lparr>filesize := new_filesize\<rparr>) w
                      else w);
                lflag0 = (ioflag AND (IO_SYNC OR IO_NOCACHE))
                           OR (if vfs_issynchronous h then IO_SYNC else 0);
                zero_off = (if offset > original_size then original_size else 0);
                lflag = (if offset > original_size then lflag0 OR IO_HEADZEROFILL else lflag0);
                (error, uio1) = cluster_write h vp uio0 original_size new_filesize zero_off lflag
            in if error = 0 then
                 (let w2 = (if uio_offset uio1 > original_size
                            then emit (Ubc_setsize (v_id vp) (uio_offset uio1))
                                   (set_fsnode vp ((VTOFUD w1 vp)\<lparr>filesize := uio_offset uio1\<rparr>) w1)
                            else set_fsnode vp ((VTOFUD w1 vp)\<lparr>filesize := original_size\<rparr>) w1)
                  in (0, uio1, fuse_invalidate_attr vp w2))
               else if ioflag AND IO_UNIT \<noteq> 0
               then (error, uio1\<lparr>uio_offset := original_offset, uio_resid := original_resid\<rparr>, w1)
               else (if uio_resid uio1 \<noteq> original_resid then 0 else error, uio1, w1)))"

definition fuse_vnop_write ::
  "host \<Rightarrow> daemon \<Rightarrow> vnode \<Rightarrow> uio \<Rightarrow> 32 word \<Rightarrow> world \<Rightarrow> (int \<times> uio \<times> world) option" where
  "fuse_vnop_write h d vp uio ioflag w =
     (if fuse_isdeadfs w vp then Some (ENXIO, uio, w)
      else if v_type vp \<noteq> VREG then Some (if v_type vp = VDIR then EISDIR else EPERM, uio, w)
      else if uio_resid uio = 0 then Some (0, uio, w)
      else if uio_offset uio < 0 then Some (EINVAL, uio, w)
      else if fuse_isdirectio w vp then
        (if FUFH_IS_VALID (fufh (VTOFUD w vp) FUFH_WRONLY)
         then fuse_vnop_write_loop h d vp FUFH_WRONLY uio w
         else if FUFH_IS_VALID (fufh (VTOFUD w vp) FUFH_RDWR)
         then fuse_vnop_write_loop h d vp FUFH_RDWR uio w
         else Some (EIO, uio, w))
      else Some (fuse_vnop_write_cluster h vp uio ioflag w))"

section \<open>The table of operations\<close>

text \<open>
  \<^verbatim>\<open>fuse_vnode_operation_entries\<close> names the operation for each descriptor of the host. A call
  through the table is a descriptor with its arguments; the result is what the operation
  returns and the world it leaves. Three entries name functions of the host
  (\<^verbatim>\<open>nop_allocate\<close>, \<^verbatim>\<open>nop_revoke\<close>, and \<^verbatim>\<open>vn_default_error\<close> for every other descriptor): they
  return what the host returns and do nothing to the world of this file.
\<close>

datatype vnop_args =
    Vnop_access vnode "32 word"
  | Vnop_allocate
  | Vnop_blktooff vnode "64 word"
  | Vnop_blockmap vnode int "64 word" bool
  | Vnop_close vnode "32 word"
  | Vnop_create vnode componentname vnode_attr
  | Vnop_exchange vnode vnode "32 word"
  | Vnop_fsync vnode
  | Vnop_getattr vnode vnode_attr bool
  | Vnop_getxattr vnode "string option" "uio option" nat
  | Vnop_inactive vnode
  | Vnop_ioctl vnode "64 word" "8 word list" "32 word"
  | Vnop_link vnode vnode componentname
  | Vnop_listxattr vnode "uio option" nat
  | Vnop_lookup vnode componentname
  | Vnop_mkdir vnode componentname vnode_attr
  | Vnop_mknod vnode componentname vnode_attr
  | Vnop_mmap vnode "32 word"
  | Vnop_mnomap vnode
  | Vnop_offtoblk vnode int
  | Vnop_open vnode "32 word"
  | Vnop_pagein vnode int nat "32 word"
  | Vnop_pageout vnode int nat "32 word"
  | Vnop_pathconf vnode int
  | Vnop_read vnode uio "32 word"
  | Vnop_readdir vnode uio "32 word" nat
  | Vnop_readlink vnode uio
  | Vnop_reclaim vnode
  | Vnop_remove vnode vnode componentname "32 word"
  | Vnop_removexattr vnode "string option"
  | Vnop_rename vnode vnode componentname vnode "vnode option" componentname
  | Vnop_revoke
  | Vnop_rmdir vnode vnode componentname
  | Vnop_select
  | Vnop_setattr vnode vnode_attr "vattr_field set"
  | Vnop_setxattr vnode "string option" uio "32 word" nat
  | Vnop_strategy "vnode option"
  | Vnop_symlink vnode componentname string
  | Vnop_write vnode uio "32 word"
  | Vnop_default

text \<open>The result and the world of an operation that also gives a value back.\<close>

definition ret2 :: "int \<times> 'a \<times> world \<Rightarrow> int \<times> world" where
  "ret2 r = (fst r, snd (snd r))"

definition ret3 :: "int \<times> 'a \<times> 'b \<times> world \<Rightarrow> int \<times> world" where
  "ret3 r = (fst r, snd (snd (snd r)))"

fun fuse_vnode_operation_entries ::
  "host \<Rightarrow> daemon \<Rightarrow> vnop_args \<Rightarrow> world \<Rightarrow> (int \<times> world) option" where
  "fuse_vnode_operation_entries h d (Vnop_access vp action) w =
     Some (fuse_vnop_access h d vp action w)"
| "fuse_vnode_operation_entries h d Vnop_allocate w = Some (nop_allocate h, w)"
| "fuse_vnode_operation_entries h d (Vnop_blktooff vp lblkno) w =
     Some (ret2 (fuse_vnop_blktooff vp lblkno w))"
| "fuse_vnode_operation_entries h d (Vnop_blockmap vp foffset a_size bpn_null) w =
     map_option ret2 (fuse_vnop_blockmap vp foffset a_size bpn_null w)"
| "fuse_vnode_operation_entries h d (Vnop_close vp fflag) w = fuse_vnop_close h d vp fflag w"
| "fuse_vnode_operation_entries h d (Vnop_create dvp cnp vap) w =
     Some (ret2 (fuse_vnop_create h d dvp cnp vap w))"
| "fuse_vnode_operation_entries h d (Vnop_exchange fvp tvp options) w =
     Some (fuse_vnop_exchange h d fvp tvp options w)"
| "fuse_vnode_operation_entries h d (Vnop_fsync vp) w = Some (fuse_vnop_fsync h d vp w)"
| "fuse_vnode_operation_entries h d (Vnop_getattr vp vap own) w =
     Some (ret2 (fuse_vnop_getattr h d vp vap own w))"
| "fuse_vnode_operation_entries h d (Vnop_getxattr vp name uio a_size) w =
     Some (ret3 (fuse_vnop_getxattr h d vp name uio a_size w))"
| "fuse_vnode_operation_entries h d (Vnop_inactive vp) w = Some (fuse_vnop_inactive d vp w)"
| "fuse_vnode_operation_entries h d (Vnop_ioctl vp a_command a_data a_fflag) w =
     map_option ret2 (fuse_vnop_ioctl h d vp a_command a_data a_fflag w)"
| "fuse_vnode_operation_entries h d (Vnop_link vp tdvp cnp) w =
     Some (fuse_vnop_link h d vp tdvp cnp w)"
| "fuse_vnode_operation_entries h d (Vnop_listxattr vp uio a_size) w =
     Some (ret3 (fuse_vnop_listxattr h d vp uio a_size w))"
| "fuse_vnode_operation_entries h d (Vnop_lookup dvp cnp) w =
     map_option ret2 (fuse_vnop_lookup h d dvp cnp w)"
| "fuse_vnode_operation_entries h d (Vnop_mkdir dvp cnp vap) w =
     Some (ret2 (fuse_vnop_mkdir h d dvp cnp vap w))"
| "fuse_vnode_operation_entries h d (Vnop_mknod dvp cnp vap) w =
     Some (ret2 (fuse_vnop_mknod h d dvp cnp vap w))"
| "fuse_vnode_operation_entries h d (Vnop_mmap vp fflags) w = fuse_vnop_mmap h d vp fflags w"
| "fuse_vnode_operation_entries h d (Vnop_mnomap vp) w = Some (fuse_vnop_mnomap vp w)"
| "fuse_vnode_operation_entries h d (Vnop_offtoblk vp offset) w =
     map_option ret2 (fuse_vnop_offtoblk vp offset w)"
| "fuse_vnode_operation_entries h d (Vnop_open vp mode) w = fuse_vnop_open h d vp mode w"
| "fuse_vnode_operation_entries h d (Vnop_pagein vp f_offset a_size flags) w =
     Some (fuse_vnop_pagein h vp f_offset a_size flags w)"
| "fuse_vnode_operation_entries h d (Vnop_pageout vp f_offset a_size flags) w =
     Some (fuse_vnop_pageout h vp f_offset a_size flags w)"
| "fuse_vnode_operation_entries h d (Vnop_pathconf vp name) w =
     Some (ret2 (fuse_vnop_pathconf h vp name w))"
| "fuse_vnode_operation_entries h d (Vnop_read vp uio ioflag) w =
     map_option ret2 (fuse_vnop_read h d vp uio ioflag w)"
| "fuse_vnode_operation_entries h d (Vnop_readdir vp uio flags iovcnt) w =
     Some (ret2 (fuse_vnop_readdir h d vp uio flags iovcnt w))"
| "fuse_vnode_operation_entries h d (Vnop_readlink vp uio) w =
     Some (ret2 (fuse_vnop_readlink h d vp uio w))"
| "fuse_vnode_operation_entries h d (Vnop_reclaim vp) w = fuse_vnop_reclaim h d vp w"
| "fuse_vnode_operation_entries h d (Vnop_remove dvp vp cnp flags) w =
     Some (fuse_vnop_remove h d dvp vp cnp flags w)"
| "fuse_vnode_operation_entries h d (Vnop_removexattr vp name) w =
     Some (fuse_vnop_removexattr h d vp name w)"
| "fuse_vnode_operation_entries h d (Vnop_rename fdvp fvp fcnp tdvp tvp tcnp) w =
     Some (fuse_vnop_rename h d fdvp fvp fcnp tdvp tvp tcnp w)"
| "fuse_vnode_operation_entries h d Vnop_revoke w = Some (nop_revoke h, w)"
| "fuse_vnode_operation_entries h d (Vnop_rmdir dvp vp cnp) w =
     Some (fuse_vnop_rmdir h d dvp vp cnp w)"
| "fuse_vnode_operation_entries h d Vnop_select w = Some (fuse_vnop_select w)"
| "fuse_vnode_operation_entries h d (Vnop_setattr vp vap active) w =
     Some (fuse_vnop_setattr h d vp vap active w)"
| "fuse_vnode_operation_entries h d (Vnop_setxattr vp name uio options iov_cnt) w =
     Some (ret2 (fuse_vnop_setxattr h d vp name uio options iov_cnt w))"
| "fuse_vnode_operation_entries h d (Vnop_strategy vp) w = Some (fuse_vnop_strategy h vp w)"
| "fuse_vnode_operation_entries h d (Vnop_symlink dvp cnp target) w =
     Some (ret2 (fuse_vnop_symlink h d dvp cnp target w))"
| "fuse_vnode_operation_entries h d (Vnop_write vp uio ioflag) w =
     map_option ret2 (fuse_vnop_write h d vp uio ioflag w)"
| "fuse_vnode_operation_entries h d Vnop_default w = Some (vn_default_error h, w)"

section \<open>Predicates of the properties\<close>



text \<open>The number of requests with an opcode among \<open>ops\<close> that a trace holds.\<close>

definition count_requests :: "fuse_opcode set \<Rightarrow> effect list \<Rightarrow> nat" where
  "count_requests ops es =
     length (filter (\<lambda>e. case e of Request q \<Rightarrow> opcode q \<in> ops | _ \<Rightarrow> False) es)"

text \<open>
  A sequence of opens that all succeed, one for each of the given modes, and a sequence of
  closes, one for each of the given flags, on one vnode; \<open>None\<close> when an operation does not
  return or an open fails.
\<close>

fun opens :: "host \<Rightarrow> daemon \<Rightarrow> vnode \<Rightarrow> 32 word list \<Rightarrow> world \<Rightarrow> world option" where
  "opens h d vp [] w = Some w"
| "opens h d vp (mode # modes) w =
     (case fuse_vnop_open h d vp mode w of
        None \<Rightarrow> None
      | Some (err, w1) \<Rightarrow> if err = 0 then opens h d vp modes w1 else None)"

fun closes :: "host \<Rightarrow> daemon \<Rightarrow> vnode \<Rightarrow> 32 word list \<Rightarrow> world \<Rightarrow> world option" where
  "closes h d vp [] w = Some w"
| "closes h d vp (fflag # fflags) w =
     (case fuse_vnop_close h d vp fflag w of
        None \<Rightarrow> None
      | Some (err, w1) \<Rightarrow> closes h d vp fflags w1)"

text \<open>The access class that open and close derive from their flags for a vnode.\<close>

definition fufh_class :: "vnode \<Rightarrow> 32 word \<Rightarrow> fufh_type option" where
  "fufh_class vp fflags =
     (if v_type vp = VDIR then Some FUFH_RDONLY else fuse_filehandle_xlate_from_fflags fflags)"

text \<open>
  The operations that do not answer \<^verbatim>\<open>ENXIO\<close> when the session is dead, with what they
  return instead; \<open>None\<close> for the operations that answer \<^verbatim>\<open>ENXIO\<close>.
\<close>

fun dead_exception :: "host \<Rightarrow> world \<Rightarrow> vnop_args \<Rightarrow> int option" where
  "dead_exception h w (Vnop_close vp fflag) = Some 0"
| "dead_exception h w (Vnop_fsync vp) = Some 0"
| "dead_exception h w (Vnop_inactive vp) = Some 0"
| "dead_exception h w (Vnop_reclaim vp) = Some 0"
| "dead_exception h w (Vnop_mnomap vp) = Some 0"
| "dead_exception h w (Vnop_access vp action) = (if v_isvroot vp then Some 0 else None)"
| "dead_exception h w (Vnop_getattr vp vap own) = (if v_isvroot vp then Some 0 else None)"
| "dead_exception h w (Vnop_read vp uio ioflag) = (if v_type vp = VCHR then Some 0 else None)"
| "dead_exception h w (Vnop_pagein vp f_offset a_size flags) = Some ENOTSUP"
| "dead_exception h w (Vnop_pageout vp f_offset a_size flags) = Some ENOTSUP"
| "dead_exception h w Vnop_select = Some 1"
| "dead_exception h w (Vnop_exchange fvp tvp options) =
     (if \<not> FUSE4X_ENABLE_EXCHANGE h then Some ENOTSUP
      else if v_mount fvp \<noteq> v_mount tvp then Some EXDEV
      else if \<not> fuse_implemented (session w) FUSE_EXCHANGE \<or> FSESS_NO_VNCACHE (session w)
      then Some ENOTSUP
      else if v_id fvp = v_id tvp \<or> v_type fvp \<noteq> VREG \<or> v_type tvp \<noteq> VREG then Some EINVAL
      else None)"
| "dead_exception h w Vnop_allocate = Some (nop_allocate h)"
| "dead_exception h w Vnop_revoke = Some (nop_revoke h)"
| "dead_exception h w Vnop_default = Some (vn_default_error h)"
| "dead_exception h w a = None"

text \<open>The requests among the effects of a trace.\<close>

definition requests :: "effect list \<Rightarrow> fuse_request list" where
  "requests es = concat (map (\<lambda>e. case e of Request q \<Rightarrow> [q] | _ \<Rightarrow> []) es)"

text \<open>A sequence of calls through the table, each in the world the one before left.\<close>

fun fuse_vnode_operations_run ::
  "host \<Rightarrow> daemon \<Rightarrow> vnop_args list \<Rightarrow> world \<Rightarrow> world option" where
  "fuse_vnode_operations_run h d [] w = Some w"
| "fuse_vnode_operations_run h d (a # as) w =
     (case fuse_vnode_operation_entries h d a w of
        None \<Rightarrow> None
      | Some (r, w1) \<Rightarrow> fuse_vnode_operations_run h d as w1)"



section \<open>Example inputs\<close>

definition ex_session :: fuse_data where
  "ex_session = \<lparr>dead = False, inited = True, capability = UNIV, blocksize = 4096, iosize = 4096,
     userkernel_bufsize = 16777216, daemoncred_uid = 501, daemoncred_gid = 20,
     FSESS_NO_APPLEXATTR = False, FSESS_AUTO_XATTR = False, FSESS_JAIL_SYMLINKS = False,
     FSESS_NO_VNCACHE = False, FSESS_NO_SYNCONCLOSE = False, FSESS_NO_SYNCWRITES = False,
     FSESS_NO_READAHEAD = False\<rparr>"

definition ex_vnode :: vnode where
  "ex_vnode = \<lparr>v_id = 2, v_mount = 1, v_type = VREG, v_isvroot = False, v_data = 2\<rparr>"

definition ex_dvnode :: vnode where
  "ex_dvnode = \<lparr>v_id = 1, v_mount = 1, v_type = VDIR, v_isvroot = True, v_data = 1\<rparr>"

definition ex_fufh :: fuse_filehandle where
  "ex_fufh = \<lparr>fh_id = 0, open_count = 0, open_flags = 0, fuse_open_flags = 0\<rparr>"

definition ex_attr :: vnode_attr where
  "ex_attr = \<lparr>va_type = VREG, va_uid = 501, va_gid = 20, va_mode = 420, va_nlink = 1,
     va_data_size = 0, va_rdev = 0\<rparr>"

definition ex_node :: fuse_vnode_data where
  "ex_node = \<lparr>nodeid = 7, parent_nodeid = 1, parentvp = ex_dvnode, nlookup = 1, filesize = 0,
     attr_valid = 0, attr_cache = ex_attr, fufh = (\<lambda>t. ex_fufh), FN_DIRECT_IO = False,
     C_TOUCH_CHGTIME = False, C_XTIMES_VALID = False\<rparr>"

definition ex_world :: world where
  "ex_world = \<lparr>session = ex_session, fsnodes = (\<lambda>a. ex_node), trace = []\<rparr>"

definition ex_fuse_attr :: fuse_attr where
  "ex_fuse_attr = \<lparr>attr_mode = 33188, attr_size = 0, attr_uid = 501, attr_gid = 20, attr_nlink = 1\<rparr>"

definition ex_reply :: fuse_reply where
  "ex_reply = \<lparr>r_error = 0, r_answer_errno = 0, r_nodeid = 7, r_attr = ex_fuse_attr,
     r_attr_valid = 1, r_fh = 42, r_open_flags = 0, r_size = 0, r_data = []\<rparr>"

definition ex_host :: host where
  "ex_host = \<lparr>blanket_deny = (\<lambda>vp. False), skip_apple_double = (\<lambda>n. False), issuser = False,
     match_cred = True, nanouptime = 100, vfs_isrdonly = False, vfs_isforce = False,
     vfs_issynchronous = False, vfs_authopaque = False, have_context = True,
     vnode_authorize = (\<lambda>vp dvp r wr. 0), vnode_hasdirtyblks = (\<lambda>vp. False),
     vnode_isinuse = (\<lambda>vp. False), vnode_get = (\<lambda>vp. 0), uiomove_error = (\<lambda>off. 0),
     cluster_read = (\<lambda>vp u fs fl. (0, u)), cluster_write = (\<lambda>vp u a b c fl. (0, u)),
     cluster_pagein = (\<lambda>vp off n fs. 0), cluster_pageout = (\<lambda>vp off n fs. 0),
     vncache_lookup = (\<lambda>vp n. (0, vp)), vget = (\<lambda>r. (0, ex_vnode)),
     vnode_getname = (\<lambda>vp. Some ''f''), f_mntonname = [], uio_getiov = (\<lambda>i. 0),
     make_vp_canfail = (\<lambda>n. 0), strategy_buf = (\<lambda>vp. 0),
     nop_allocate = 0, nop_revoke = 0, vn_default_error = ENOTSUP,
     FUSE4X_ENABLE_EXCHANGE = False\<rparr>"

text \<open>A direct-I/O file with a read-only handle 42, and two daemons for it.\<close>

definition ex_dio_world :: world where
  "ex_dio_world = ex_world\<lparr>fsnodes := (\<lambda>a. ex_node\<lparr>FN_DIRECT_IO := True,
      fufh := (\<lambda>t. ex_fufh)(FUFH_RDONLY := ex_fufh\<lparr>fh_id := 42, open_count := 1\<rparr>)\<rparr>)\<rparr>"

definition ex_daemon_full :: daemon where
  "ex_daemon_full hist q =
     (case indata q of
        Read_in fh off sz \<Rightarrow> ex_reply\<lparr>r_data := replicate (unat sz) 0\<rparr>
      | _ \<Rightarrow> ex_reply)"




text \<open>A daemon that answers every request with four bytes of payload.\<close>

definition ex_daemon_ioctl :: daemon where
  "ex_daemon_ioctl hist q = ex_reply\<lparr>r_data := [9, 9, 9, 9]\<rparr>"

text \<open>Component names of 255 and of 256 bytes, looked up as the last component.\<close>

definition ex_cnp :: "nat \<Rightarrow> componentname" where
  "ex_cnp n = \<lparr>cn_nameiop = LOOKUP, cn_flags = ISLASTCN, cn_nameptr = replicate n CHR ''a''\<rparr>"

text \<open>
  A daemon that does not implement \<^verbatim>\<open>CREATE\<close>, and a host on which no vnode can be made
  for a new entry.
\<close>

definition ex_daemon_nocreate :: daemon where
  "ex_daemon_nocreate hist q =
     (if opcode q = FUSE_CREATE then ex_reply\<lparr>r_error := ENOSYS\<rparr> else ex_reply)"

definition ex_host_novnode :: host where
  "ex_host_novnode = ex_host\<lparr>vget := (\<lambda>r. (EIO, ex_vnode))\<rparr>"

text \<open>
  A session that is not initialized yet, a host on which the caller is refused by the
  blanket denial, a session with attributes of the root cached until after the host's clock
  (which reads 100), and a daemon that has gone away.
\<close>

definition ex_uninit_world :: world where
  "ex_uninit_world = ex_world\<lparr>session := ex_session\<lparr>inited := False\<rparr>\<rparr>"

definition ex_host_denied :: host where
  "ex_host_denied = ex_host\<lparr>blanket_deny := (\<lambda>vp. True)\<rparr>"

definition ex_cached_world :: world where
  "ex_cached_world =
     ex_world\<lparr>fsnodes := (\<lambda>a. ex_node\<lparr>attr_valid := 200,
        attr_cache := ex_attr\<lparr>va_type := VDIR, va_uid := 0, va_mode := 493\<rparr>\<rparr>)\<rparr>"

definition ex_daemon_notconn :: daemon where
  "ex_daemon_notconn hist q = ex_reply\<lparr>r_error := ENOTCONN\<rparr>"


text \<open>A session that is dead.\<close>

definition ex_dead_world :: world where
  "ex_dead_world = ex_world\<lparr>session := ex_session\<lparr>dead := True\<rparr>\<rparr>"

section \<open>Properties\<close>

subsection \<open>The dispatcher and the host's \<^verbatim>\<open>uiomove\<close>\<close>

lemma uiomove_ok:
  assumes "uiomove h buf n u = (0, u1)" and "0 \<le> uio_resid u"
  shows "uio_offset u1 + uio_resid u1 = uio_offset u + uio_resid u"
    and "uio_offset u \<le> uio_offset u1"
    and "0 \<le> uio_resid u1"
    and "uio_resid u1 = uio_resid u - int (min n (nat (uio_resid u)))"
    and "uio_mem u1 = uio_mem u @ take (min n (nat (uio_resid u))) buf"
  using assms by (auto simp: uiomove_def Let_def split: if_splits)

lemma uiomove_err:
  assumes "uiomove h buf n u = (err, u1)" and "err \<noteq> 0"
  shows "u1 = u"
  using assms by (auto simp: uiomove_def Let_def split: if_splits)

lemma wait_answer_simps [simp]:
  "session (snd (fuse_dispatcher_wait_answer d q w)) = session w"
  "fsnodes (snd (fuse_dispatcher_wait_answer d q w)) = fsnodes w"
  "trace (snd (fuse_dispatcher_wait_answer d q w)) = trace w @ [Request q]"
  "fst (fuse_dispatcher_wait_answer d q w) = d (trace w) q"
  by (simp_all add: fuse_dispatcher_wait_answer_def emit_def)

lemma ticket_drop_simps [simp]:
  "session (fuse_ticket_drop w) = session w"
  "fsnodes (fuse_ticket_drop w) = fsnodes w"
  "trace (fuse_ticket_drop w) = trace w @ [Ticket_drop]"
  by (simp_all add: fuse_ticket_drop_def emit_def)

lemma VTOFUD_cong: "fsnodes w1 = fsnodes w \<Longrightarrow> VTOFUD w1 vp = VTOFUD w vp"
  by (simp add: VTOFUD_def)


subsection \<open>Direct-I/O read\<close>




















subsection \<open>\<^verbatim>\<open>fuse_vnop_rmdir\<close>\<close>

text \<open>
  C10. On a live file system, for a caller that the authorization hook lets through, removing
  a directory whose node data is the parent directory's node data returns \<^verbatim>\<open>EINVAL\<close> and
  leaves the world as it was: the name cache is not purged and no request is sent.
\<close>

theorem fuse_vnop_rmdir_same_node:
  assumes "\<not> fuse_isdeadfs w vp" and "\<not> blanket_deny h vp" and "v_data vp = v_data dvp"
  shows "fuse_vnop_rmdir h d dvp vp cnp w = (EINVAL, w)"
  using assms by (simp add: fuse_vnop_rmdir_def)

theorem fuse_vnop_rmdir_same_node_witness:
  "\<not> fuse_isdeadfs ex_world ex_dvnode \<and> \<not> blanket_deny ex_host ex_dvnode \<and>
   v_data ex_dvnode = v_data ex_dvnode \<and>
   fuse_vnop_rmdir ex_host ex_daemon_full ex_dvnode ex_dvnode
     \<lparr>cn_nameiop = DELETE, cn_flags = ISLASTCN, cn_nameptr = ''.''\<rparr> ex_world = (EINVAL, ex_world)"
proof -
  have h: "\<not> fuse_isdeadfs ex_world ex_dvnode" "\<not> blanket_deny ex_host ex_dvnode"
    "v_data ex_dvnode = v_data ex_dvnode"
    by (simp_all add: fuse_isdeadfs_def ex_world_def ex_session_def ex_host_def)
  from fuse_vnop_rmdir_same_node [OF h] h show ?thesis by simp
qed


subsection \<open>\<^verbatim>\<open>fuse_vnop_ioctl\<close>\<close>

lemma ex_ioctl:
  "fuse_vnop_ioctl ex_host ex_daemon_ioctl ex_vnode 537133057 [1, 2, 3, 4, 5, 6] FREAD ex_dio_world =
     Some (0, [9, 9, 9, 9, 5, 6],
           ex_dio_world\<lparr>trace := [Request \<lparr>opcode = FUSE_IOCTL, q_nodeid = 7,
                                     indata = Ioctl_in 42 537133057 4 4 [1, 2, 3, 4]\<rparr>, Ticket_drop]\<rparr>)"
  by (simp add: fuse_vnop_ioctl_def IOCPARM_LEN_def memcpy_def fuse_isdeadfs_def
        fuse_implemented_def fuse_filehandle_xlate_from_fflags_def FUFH_IS_VALID_def VTOFUD_def VTOI_def
        fuse_dispatcher_wait_answer_def fuse_dispatcher_make_vp_def fuse_dispatcher_make_def
        fuse_ticket_drop_def emit_def Let_def ex_host_def ex_daemon_ioctl_def ex_vnode_def
        ex_dio_world_def ex_world_def ex_session_def ex_node_def ex_fufh_def ex_reply_def)

lemma ioc_or_nonzero: "a_command OR IOC_IN \<noteq> 0" "a_command OR IOC_OUT \<noteq> 0"
  by (simp_all add: or_eq_0_iff)

lemma unat_IOCPARM_LEN: "unat (word_of_nat (IOCPARM_LEN c) :: 32 word) = IOCPARM_LEN c"
proof -
  have "drop_bit 16 c AND IOCPARM_MASK \<le> IOCPARM_MASK" by (rule word_and_le1)
  then have "IOCPARM_LEN c \<le> 8191" by (simp add: IOCPARM_LEN_def word_le_nat_alt)
  then show ?thesis by (simp add: unat_of_nat)
qed

text \<open>
  C7. Both direction tests of \<^verbatim>\<open>fuse_vnop_ioctl\<close> are true for every command. So a call
  that gets as far as the request (live session, caller let through, \<^verbatim>\<open>IOCTL\<close> capability
  present, valid slot for the open mode) always sends \<^verbatim>\<open>IOCPARM_LEN(command)\<close> bytes of the
  caller's buffer with \<^verbatim>\<open>in_size\<close> and \<^verbatim>\<open>out_size\<close> both set to that length, and on success
  always copies that many bytes of the answer back into the caller's buffer.
\<close>

theorem fuse_vnop_ioctl_direction_tests:
  "a_command OR IOC_IN \<noteq> 0 \<and> a_command OR IOC_OUT \<noteq> 0 \<and>
   (\<not> fuse_isdeadfs w vp \<and> \<not> blanket_deny h vp \<and> fuse_implemented (session w) FUSE_IOCTL \<and>
    fuse_filehandle_xlate_from_fflags a_fflag = Some fufh_type \<and>
    FUFH_IS_VALID (fufh (VTOFUD w vp) fufh_type) \<longrightarrow>
      (\<exists>in_size out_size q fdi.
         unat in_size = IOCPARM_LEN a_command \<and> unat out_size = IOCPARM_LEN a_command \<and>
         q = fuse_dispatcher_make_vp w FUSE_IOCTL vp
               (Ioctl_in (fh_id (fufh (VTOFUD w vp) fufh_type)) (ucast a_command) in_size out_size
                  (take (IOCPARM_LEN a_command) a_data)) \<and>
         fdi = d (trace w) q \<and>
         fuse_vnop_ioctl h d vp a_command a_data a_fflag w =
           Some (if r_error fdi = 0
                 then (0, memcpy a_data (r_data fdi) (IOCPARM_LEN a_command),
                       fuse_ticket_drop (emit (Request q) w))
                 else if r_error fdi = ENOSYS
                 then (0, a_data, fuse_clear_implemented FUSE_IOCTL (emit (Request q) w))
                 else (r_error fdi, a_data, emit (Request q) w))))"
proof (intro conjI impI)
  show "a_command OR IOC_IN \<noteq> 0" "a_command OR IOC_OUT \<noteq> 0" by (rule ioc_or_nonzero)+
next
  assume a: "\<not> fuse_isdeadfs w vp \<and> \<not> blanket_deny h vp \<and> fuse_implemented (session w) FUSE_IOCTL \<and>
    fuse_filehandle_xlate_from_fflags a_fflag = Some fufh_type \<and>
    FUFH_IS_VALID (fufh (VTOFUD w vp) fufh_type)"
  let ?n = "IOCPARM_LEN a_command"
  let ?sz = "word_of_nat ?n :: 32 word"
  let ?q = "fuse_dispatcher_make_vp w FUSE_IOCTL vp
               (Ioctl_in (fh_id (fufh (VTOFUD w vp) fufh_type)) (ucast a_command) ?sz ?sz
                  (take ?n a_data))"
  have "fuse_vnop_ioctl h d vp a_command a_data a_fflag w =
           Some (if r_error (d (trace w) ?q) = 0
                 then (0, memcpy a_data (r_data (d (trace w) ?q)) ?n,
                       fuse_ticket_drop (emit (Request ?q) w))
                 else if r_error (d (trace w) ?q) = ENOSYS
                 then (0, a_data, fuse_clear_implemented FUSE_IOCTL (emit (Request ?q) w))
                 else (r_error (d (trace w) ?q), a_data, emit (Request ?q) w))"
    using a by (simp add: fuse_vnop_ioctl_def ioc_or_nonzero fuse_dispatcher_wait_answer_def Let_def)
  then show "\<exists>in_size out_size q fdi.
         unat in_size = IOCPARM_LEN a_command \<and> unat out_size = IOCPARM_LEN a_command \<and>
         q = fuse_dispatcher_make_vp w FUSE_IOCTL vp
               (Ioctl_in (fh_id (fufh (VTOFUD w vp) fufh_type)) (ucast a_command) in_size out_size
                  (take (IOCPARM_LEN a_command) a_data)) \<and>
         fdi = d (trace w) q \<and>
         fuse_vnop_ioctl h d vp a_command a_data a_fflag w =
           Some (if r_error fdi = 0
                 then (0, memcpy a_data (r_data fdi) (IOCPARM_LEN a_command),
                       fuse_ticket_drop (emit (Request q) w))
                 else if r_error fdi = ENOSYS
                 then (0, a_data, fuse_clear_implemented FUSE_IOCTL (emit (Request q) w))
                 else (r_error fdi, a_data, emit (Request q) w))"
    using unat_IOCPARM_LEN [of a_command] by blast
qed

text \<open>
  A command without direction bits (\<^verbatim>\<open>IOC_VOID\<close>) and a length field of 4: four bytes of the
  caller's buffer go out and four bytes of the answer come back.
\<close>

theorem fuse_vnop_ioctl_direction_tests_witness:
  "\<not> fuse_isdeadfs ex_dio_world ex_vnode \<and> \<not> blanket_deny ex_host ex_vnode \<and>
   fuse_implemented (session ex_dio_world) FUSE_IOCTL \<and>
   fuse_filehandle_xlate_from_fflags FREAD = Some FUFH_RDONLY \<and>
   FUFH_IS_VALID (fufh (VTOFUD ex_dio_world ex_vnode) FUFH_RDONLY) \<and>
   (537133057 :: 64 word) AND (IOC_IN OR IOC_OUT) = 0 \<and>
   (537133057 :: 64 word) OR IOC_IN \<noteq> 0 \<and> (537133057 :: 64 word) OR IOC_OUT \<noteq> 0 \<and>
   fuse_vnop_ioctl ex_host ex_daemon_ioctl ex_vnode 537133057 [1, 2, 3, 4, 5, 6] FREAD ex_dio_world =
     Some (0, [9, 9, 9, 9, 5, 6],
           ex_dio_world\<lparr>trace := [Request \<lparr>opcode = FUSE_IOCTL, q_nodeid = 7,
                                     indata = Ioctl_in 42 537133057 4 4 [1, 2, 3, 4]\<rparr>, Ticket_drop]\<rparr>)"
proof -
  have h: "\<not> fuse_isdeadfs ex_dio_world ex_vnode" "\<not> blanket_deny ex_host ex_vnode"
    "fuse_implemented (session ex_dio_world) FUSE_IOCTL"
    "fuse_filehandle_xlate_from_fflags FREAD = Some FUFH_RDONLY"
    "FUFH_IS_VALID (fufh (VTOFUD ex_dio_world ex_vnode) FUFH_RDONLY)"
    by (simp_all add: fuse_isdeadfs_def fuse_implemented_def fuse_filehandle_xlate_from_fflags_def
          FUFH_IS_VALID_def VTOFUD_def ex_dio_world_def ex_world_def ex_session_def ex_host_def
          ex_node_def ex_fufh_def)
  have v: "(537133057 :: 64 word) AND (IOC_IN OR IOC_OUT) = 0" by simp
  from fuse_vnop_ioctl_direction_tests
         [where a_command = 537133057 and w = ex_dio_world and vp = ex_vnode and h = ex_host
            and a_fflag = FREAD and fufh_type = FUFH_RDONLY and d = ex_daemon_ioctl
            and a_data = "[1, 2, 3, 4, 5, 6]"]
  have "(537133057 :: 64 word) OR IOC_IN \<noteq> 0" "(537133057 :: 64 word) OR IOC_OUT \<noteq> 0"
    by blast+
  with h v ex_ioctl show ?thesis by blast
qed


subsection \<open>\<^verbatim>\<open>fuse_vnop_mmap\<close>\<close>

lemma and_sub_mask:
  fixes x :: "32 word"
  assumes "x AND m = 0" and "m AND k = k"
  shows "x AND k = 0"
proof -
  have "x AND k = x AND (m AND k)" using assms(2) by simp
  also have "\<dots> = (x AND m) AND k" by (simp only: and.assoc)
  finally show ?thesis using assms(1) by simp
qed

lemma mmap_general:
  assumes "\<not> fuse_isdeadfs w vp" and "\<not> fuse_isdirectio w vp" and "\<not> blanket_deny h vp"
  shows "fuse_vnop_mmap h d vp fflags w =
           (if fflags AND (PROT_READ OR PROT_WRITE OR PROT_EXEC) \<noteq> 0 then Some (0, w) else None)"
proof (cases "fflags AND (PROT_READ OR PROT_WRITE OR PROT_EXEC) \<noteq> 0")
  case True
  with assms show ?thesis by (simp add: fuse_vnop_mmap_def)
next
  case False
  then have z: "fflags AND 7 = 0" by simp
  have "fflags AND 2 = 0" by (rule and_sub_mask [OF z]) simp
  moreover have "fflags AND 5 = 0" by (rule and_sub_mask [OF z]) simp
  ultimately have "fuse_filehandle_xlate_from_mmap fflags = None"
    by (simp add: fuse_filehandle_xlate_from_mmap_def)
  with assms False show ?thesis by (simp add: fuse_vnop_mmap_def)
qed

text \<open>
  C6. What \<^verbatim>\<open>fuse_vnop_mmap\<close> does with \<^verbatim>\<open>PROT_READ\<close> on a live file that is not direct-I/O
  and whose slots are all invalid: it returns 0 and leaves the world as it was, so no
  handle is acquired and no request is sent. (By \<open>mmap_general\<close> this is so for every
  protection that has a bit set, and with no bit set the translation of the protection
  panics.)
\<close>

theorem fuse_vnop_mmap_prot_read:
  "\<not> FUFH_IS_VALID (fufh (VTOFUD ex_world ex_vnode) FUFH_RDONLY) \<and>
   fuse_filehandle_xlate_from_mmap PROT_READ = Some FUFH_RDONLY \<and>
   fuse_vnop_mmap ex_host ex_daemon_full ex_vnode PROT_READ ex_world = Some (0, ex_world)"
  by (simp add: fuse_vnop_mmap_def fuse_isdeadfs_def fuse_isdirectio_def VTOFUD_def
        FUFH_IS_VALID_def fuse_filehandle_xlate_from_mmap_def
        ex_host_def ex_world_def ex_session_def ex_node_def ex_fufh_def)


subsection \<open>File-handle slots across open and close\<close>

lemma emit_simps [simp]:
  "session (emit e w) = session w" "fsnodes (emit e w) = fsnodes w"
  "trace (emit e w) = trace w @ [e]"
  by (simp_all add: emit_def)

lemma VTOFUD_emit [simp]: "VTOFUD (emit e w) vp = VTOFUD w vp"
  by (simp add: VTOFUD_def)

lemma set_fsnode_simps [simp]:
  "session (set_fsnode vp n w) = session w" "trace (set_fsnode vp n w) = trace w"
  "VTOFUD (set_fsnode vp n w) vp = n"
  by (simp_all add: set_fsnode_def VTOFUD_def)

lemma set_fufh_simps [simp]:
  "session (set_fufh vp t f w) = session w" "trace (set_fufh vp t f w) = trace w"
  "VTOFUD (set_fufh vp t f w) vp = (VTOFUD w vp)\<lparr>fufh := (fufh (VTOFUD w vp))(t := f)\<rparr>"
  by (simp_all add: set_fufh_def)

lemma VTOFUD_wait [simp]: "VTOFUD (snd (fuse_dispatcher_wait_answer d q w)) vp = VTOFUD w vp"
  by (simp add: VTOFUD_def)

lemma VTOFUD_drop [simp]: "VTOFUD (fuse_ticket_drop w) vp = VTOFUD w vp"
  by (simp add: VTOFUD_def)

lemma clear_implemented_simps [simp]:
  "fsnodes (fuse_clear_implemented op w) = fsnodes w"
  "trace (fuse_clear_implemented op w) = trace w"
  "dead (session (fuse_clear_implemented op w)) = dead (session w)"
  "capability (session (fuse_clear_implemented op w)) = capability (session w) - {op}"
  "VTOFUD (fuse_clear_implemented op w) vp = VTOFUD w vp"
  by (simp_all add: fuse_clear_implemented_def VTOFUD_def)

lemma clearnosyncwrites_simps [simp]:
  "fsnodes (fuse_clearnosyncwrites_mp w) = fsnodes w"
  "trace (fuse_clearnosyncwrites_mp w) = trace w"
  "dead (session (fuse_clearnosyncwrites_mp w)) = dead (session w)"
  "capability (session (fuse_clearnosyncwrites_mp w)) = capability (session w)"
  "VTOFUD (fuse_clearnosyncwrites_mp w) vp = VTOFUD w vp"
  by (simp_all add: fuse_clearnosyncwrites_mp_def VTOFUD_def)

lemma invalidate_attr_simps [simp]:
  "session (fuse_invalidate_attr vp w) = session w" "trace (fuse_invalidate_attr vp w) = trace w"
  "fufh (VTOFUD (fuse_invalidate_attr vp w) vp) = fufh (VTOFUD w vp)"
  by (simp_all add: fuse_invalidate_attr_def)

lemma cache_attrs_simps [simp]:
  "session (cache_attrs h vp fdi w) = session w" "trace (cache_attrs h vp fdi w) = trace w"
  "fufh (VTOFUD (cache_attrs h vp fdi w) vp) = fufh (VTOFUD w vp)"
  by (simp_all add: cache_attrs_def)

lemma count_requests_simps [simp]:
  "count_requests S [] = 0"
  "count_requests S (xs @ ys) = count_requests S xs + count_requests S ys"
  "count_requests S (Request q # xs) = (if opcode q \<in> S then 1 else 0) + count_requests S xs"
  "count_requests S (Ticket_drop # xs) = count_requests S xs"
  "count_requests S (Ubc_msync n # xs) = count_requests S xs"
  "count_requests S (Ubc_setsize n k # xs) = count_requests S xs"
  "count_requests S (Vnode_setnocache n # xs) = count_requests S xs"
  "count_requests S (Vnode_setnoreadahead n # xs) = count_requests S xs"
  "count_requests S (Cluster_push n # xs) = count_requests S xs"
  "count_requests S (Cache_purge n # xs) = count_requests S xs"
  by (simp_all add: count_requests_def)

lemma make_vp_opcode [simp]:
  "opcode (fuse_dispatcher_make_vp w op vp ind) = op"
  by (simp add: fuse_dispatcher_make_vp_def fuse_dispatcher_make_def)

lemma open_ok_facts:
  assumes "fuse_vnop_open_ok h d vp t w = (r, w')"
  shows "r = 0" and "dead (session w') = dead (session w)"
    and "open_count (fufh (VTOFUD w' vp) t) = open_count (fufh (VTOFUD w vp) t)"
    and "FUSE_GETATTR \<notin> S \<Longrightarrow> count_requests S (trace w') = count_requests S (trace w)"
  using assms
  by (auto simp: fuse_vnop_open_ok_def Let_def fuse_dispatcher_wait_answer_def
        split: if_splits prod.splits)


lemma sint_inc:
  fixes c :: "32 word"
  assumes "sint c < 2147483647"
  shows "sint (c + 1) = sint c + 1"
proof -
  have "- 2147483648 \<le> sint c" using sint_ge [of c] by simp
  with assms show ?thesis
    by (simp add: sint_word_ariths signed_take_bit_int_eq_self)
qed

lemma sint_dec:
  fixes c :: "32 word"
  assumes "- 2147483648 < sint c"
  shows "sint (c - 1) = sint c - 1"
proof -
  have "sint c < 2147483648" using sint_lt [of c] by simp
  with assms show ?thesis
    by (simp add: sint_word_ariths signed_take_bit_int_eq_self)
qed

lemma open_step_valid:
  assumes live: "\<not> fuse_isdeadfs w vp" and "v_type vp \<noteq> VFIFO" and "\<not> blanket_deny h vp"
    and cls: "fufh_class vp mode = Some c"
    and valid: "0 < sint (open_count (fufh (VTOFUD w vp) c))"
    and room: "sint (open_count (fufh (VTOFUD w vp) c)) < 2147483647"
  shows "\<exists>w'. fuse_vnop_open h d vp mode w = Some (0, w') \<and> \<not> fuse_isdeadfs w' vp \<and>
           sint (open_count (fufh (VTOFUD w' vp) c)) = sint (open_count (fufh (VTOFUD w vp) c)) + 1 \<and>
           (\<forall>S. FUSE_GETATTR \<notin> S \<longrightarrow> count_requests S (trace w') = count_requests S (trace w))"
proof -
  let ?w1 = "set_fufh vp c (FUFH_USE_INC (fufh (VTOFUD w vp) c)) w"
  obtain r w' where ok: "fuse_vnop_open_ok h d vp c ?w1 = (r, w')"
    by (cases "fuse_vnop_open_ok h d vp c ?w1")
  have "fuse_vnop_open h d vp mode w = Some (r, w')"
    using assms ok by (simp add: fuse_vnop_open_def fufh_class_def FUFH_IS_VALID_def split: if_splits)
  moreover have "sint (open_count (fufh (VTOFUD ?w1 vp) c)) = sint (open_count (fufh (VTOFUD w vp) c)) + 1"
    using room by (simp add: FUFH_USE_INC_def sint_inc)
  ultimately show ?thesis
    using open_ok_facts [OF ok] live by (auto simp: fuse_isdeadfs_def)
qed

lemma open_step_invalid:
  assumes live: "\<not> fuse_isdeadfs w vp" and "v_type vp \<noteq> VFIFO" and "\<not> blanket_deny h vp"
    and cls: "fufh_class vp mode = Some c"
    and invalid: "\<not> FUFH_IS_VALID (fufh (VTOFUD w vp) c)"
    and accept: "\<forall>hist q. opcode q \<in> {FUSE_OPEN, FUSE_OPENDIR} \<longrightarrow> r_error (d hist q) = 0"
  shows "\<exists>w'. fuse_vnop_open h d vp mode w = Some (0, w') \<and> \<not> fuse_isdeadfs w' vp \<and>
           sint (open_count (fufh (VTOFUD w' vp) c)) = 1 \<and>
           (\<forall>S. FUSE_GETATTR \<notin> S \<longrightarrow> count_requests S (trace w') =
                 count_requests S (trace w) +
                 (if (if v_type vp = VDIR then FUSE_OPENDIR else FUSE_OPEN) \<in> S then 1 else 0))"
proof -
  let ?op = "if v_type vp = VDIR then FUSE_OPENDIR else FUSE_OPEN"
  let ?q = "fuse_dispatcher_make_vp w ?op vp (Open_in (fuse_filehandle_xlate_to_oflags c))"
  let ?fdi = "d (trace w) ?q"
  let ?w1 = "fuse_ticket_drop (set_fufh vp c
               \<lparr>fh_id = r_fh ?fdi, open_count = 1, open_flags = fuse_filehandle_xlate_to_oflags c,
                fuse_open_flags = r_open_flags ?fdi\<rparr> (emit (Request ?q) w))"
  have acc: "r_error ?fdi = 0" using accept by simp
  have get: "fuse_filehandle_get d vp c mode w = (0, ?w1)"
    using invalid acc by (simp add: fuse_filehandle_get_def fuse_dispatcher_wait_answer_def Let_def)
  obtain r w' where ok: "fuse_vnop_open_ok h d vp c ?w1 = (r, w')"
    by (cases "fuse_vnop_open_ok h d vp c ?w1")
  have "fuse_vnop_open h d vp mode w = Some (r, w')"
    using assms(1-5) get ok by (simp add: fuse_vnop_open_def fufh_class_def split: if_splits)
  moreover have "sint (open_count (fufh (VTOFUD ?w1 vp) c)) = 1" by simp
  moreover have "count_requests S (trace ?w1) = count_requests S (trace w) + (if ?op \<in> S then 1 else 0)" for S
    by simp
  ultimately show ?thesis
    using open_ok_facts [OF ok] live by (auto simp: fuse_isdeadfs_def)
qed

lemma close_flush_facts:
  assumes "fuse_vnop_close_flush h d vp t w = (err, w')"
  shows "dead (session w') = dead (session w)" and "VTOFUD w' vp = VTOFUD w vp"
    and "FUSE_FLUSH \<notin> S \<Longrightarrow> count_requests S (trace w') = count_requests S (trace w)"
  using assms
  by (auto simp: fuse_vnop_close_flush_def Let_def fuse_dispatcher_wait_answer_def
        split: if_splits prod.splits)

lemma put_facts:
  assumes "fuse_filehandle_put d vp t w = (err, w')"
  shows "dead (session w') = dead (session w)"
    and "open_count (fufh (VTOFUD w' vp) t) = 0"
    and "count_requests S (trace w') = count_requests S (trace w) +
           (if (if v_type vp = VDIR then FUSE_RELEASEDIR else FUSE_RELEASE) \<in> S then 1 else 0)"
  using assms
  by (auto simp: fuse_filehandle_put_def Let_def fuse_dispatcher_wait_answer_def FUFH_USE_RESET_def
        split: if_splits prod.splits)

lemma close_step:
  assumes live: "\<not> fuse_isdeadfs w vp" and nd: "fflag \<noteq> IO_NDELAY"
    and cls: "fufh_class vp fflag = Some c"
    and valid: "0 < sint (open_count (fufh (VTOFUD w vp) c))"
  shows "\<exists>err w'. fuse_vnop_close h d vp fflag w = Some (err, w') \<and> \<not> fuse_isdeadfs w' vp \<and>
           sint (open_count (fufh (VTOFUD w' vp) c)) = sint (open_count (fufh (VTOFUD w vp) c)) - 1 \<and>
           (\<forall>S. FUSE_FLUSH \<notin> S \<longrightarrow> count_requests S (trace w') =
                 count_requests S (trace w) +
                 (if sint (open_count (fufh (VTOFUD w vp) c)) = 1 \<and>
                     (if v_type vp = VDIR then FUSE_RELEASEDIR else FUSE_RELEASE) \<in> S then 1 else 0))"
proof -
  obtain err w1 where fl: "(if v_type vp = VDIR then (0, w) else fuse_vnop_close_flush h d vp c w) = (err, w1)"
    by (cases "if v_type vp = VDIR then (0, w) else fuse_vnop_close_flush h d vp c w")
  have f1: "dead (session w1) = dead (session w)" "VTOFUD w1 vp = VTOFUD w vp"
    "\<And>S. FUSE_FLUSH \<notin> S \<Longrightarrow> count_requests S (trace w1) = count_requests S (trace w)"
    using fl close_flush_facts [of h d vp c w err w1] by (auto split: if_splits)
  let ?n = "sint (open_count (fufh (VTOFUD w vp) c))"
  let ?w2 = "set_fufh vp c (FUFH_USE_DEC (fufh (VTOFUD w1 vp) c)) w1"
  have n2: "sint (open_count (fufh (VTOFUD ?w2 vp) c)) = ?n - 1"
    using valid f1(2) by (simp add: FUFH_USE_DEC_def sint_dec)
  obtain e3 w3 where put: "fuse_filehandle_put d vp c ?w2 = (e3, w3)"
    by (cases "fuse_filehandle_put d vp c ?w2")
  let ?w' = "if \<not> FUFH_IS_VALID (fufh (VTOFUD ?w2 vp) c) then w3 else ?w2"
  have cl: "fuse_vnop_close h d vp fflag w = Some (err, ?w')"
    using live nd cls valid fl put
    by (simp add: fuse_vnop_close_def fufh_class_def FUFH_IS_VALID_def Let_def split: if_splits)
  show ?thesis
  proof (cases "?n = 1")
    case True
    then have inv: "\<not> FUFH_IS_VALID (fufh (VTOFUD ?w2 vp) c)"
      using n2 by (simp add: FUFH_IS_VALID_def)
    with cl have "fuse_vnop_close h d vp fflag w = Some (err, w3)" by simp
    moreover have "sint (open_count (fufh (VTOFUD w3 vp) c)) = ?n - 1"
      using put_facts(2) [OF put] True by simp
    moreover have "\<not> fuse_isdeadfs w3 vp"
      using put_facts(1) [OF put] f1(1) live by (simp add: fuse_isdeadfs_def)
    moreover have "FUSE_FLUSH \<notin> S \<Longrightarrow> count_requests S (trace w3) = count_requests S (trace w) +
                 (if (if v_type vp = VDIR then FUSE_RELEASEDIR else FUSE_RELEASE) \<in> S then 1 else 0)" for S
      using put_facts(3) [OF put, of S] f1(3) [of S] by simp
    ultimately show ?thesis using True by auto
  next
    case False
    with valid have "1 < ?n" by simp
    then have v: "FUFH_IS_VALID (fufh (VTOFUD ?w2 vp) c)"
      using n2 by (simp add: FUFH_IS_VALID_def)
    with cl have "fuse_vnop_close h d vp fflag w = Some (err, ?w2)" by simp
    moreover have "\<not> fuse_isdeadfs ?w2 vp" using f1(1) live by (simp add: fuse_isdeadfs_def)
    moreover have "FUSE_FLUSH \<notin> S \<Longrightarrow> count_requests S (trace ?w2) = count_requests S (trace w)" for S
      using f1(3) [of S] by simp
    ultimately show ?thesis using False n2 by auto
  qed
qed


lemma opens_from_valid:
  assumes "\<not> fuse_isdeadfs w vp" and "v_type vp \<noteq> VFIFO" and "\<not> blanket_deny h vp"
    and "\<forall>m\<in>set modes. fufh_class vp m = Some c"
    and "0 < sint (open_count (fufh (VTOFUD w vp) c))"
    and "sint (open_count (fufh (VTOFUD w vp) c)) + int (length modes) \<le> 2147483647"
  shows "\<exists>w'. opens h d vp modes w = Some w' \<and> \<not> fuse_isdeadfs w' vp \<and>
           sint (open_count (fufh (VTOFUD w' vp) c)) =
             sint (open_count (fufh (VTOFUD w vp) c)) + int (length modes) \<and>
           (\<forall>S. FUSE_GETATTR \<notin> S \<longrightarrow> count_requests S (trace w') = count_requests S (trace w))"
  using assms
proof (induction modes arbitrary: w)
  case Nil
  then show ?case by simp
next
  case (Cons m modes)
  from Cons.prems have "fufh_class vp m = Some c"
    and "sint (open_count (fufh (VTOFUD w vp) c)) < 2147483647" by auto
  from open_step_valid [OF Cons.prems(1-3) this(1) Cons.prems(5) this(2), of d]
  obtain w1 where o: "fuse_vnop_open h d vp m w = Some (0, w1)" and l: "\<not> fuse_isdeadfs w1 vp"
    and n: "sint (open_count (fufh (VTOFUD w1 vp) c)) = sint (open_count (fufh (VTOFUD w vp) c)) + 1"
    and c1: "\<forall>S. FUSE_GETATTR \<notin> S \<longrightarrow> count_requests S (trace w1) = count_requests S (trace w)"
    by blast
  have "\<exists>w'. opens h d vp modes w1 = Some w' \<and> \<not> fuse_isdeadfs w' vp \<and>
           sint (open_count (fufh (VTOFUD w' vp) c)) =
             sint (open_count (fufh (VTOFUD w1 vp) c)) + int (length modes) \<and>
           (\<forall>S. FUSE_GETATTR \<notin> S \<longrightarrow> count_requests S (trace w') = count_requests S (trace w1))"
    using Cons.prems n l by (intro Cons.IH) auto
  then show ?case using o n c1 by auto
qed

lemma closes_steps:
  assumes "\<not> fuse_isdeadfs w vp"
    and "\<forall>f\<in>set fflags. fufh_class vp f = Some c \<and> f \<noteq> IO_NDELAY"
    and "int (length fflags) \<le> sint (open_count (fufh (VTOFUD w vp) c))"
  shows "\<exists>w'. closes h d vp fflags w = Some w' \<and> \<not> fuse_isdeadfs w' vp \<and>
           sint (open_count (fufh (VTOFUD w' vp) c)) =
             sint (open_count (fufh (VTOFUD w vp) c)) - int (length fflags) \<and>
           (\<forall>S. FUSE_FLUSH \<notin> S \<longrightarrow> count_requests S (trace w') =
                 count_requests S (trace w) +
                 (if fflags \<noteq> [] \<and> int (length fflags) = sint (open_count (fufh (VTOFUD w vp) c)) \<and>
                     (if v_type vp = VDIR then FUSE_RELEASEDIR else FUSE_RELEASE) \<in> S then 1 else 0))"
  using assms
proof (induction fflags arbitrary: w)
  case Nil
  then show ?case by simp
next
  case (Cons f fflags)
  let ?n = "sint (open_count (fufh (VTOFUD w vp) c))"
  from Cons.prems have f: "fufh_class vp f = Some c" "f \<noteq> IO_NDELAY" and pos: "0 < ?n" by auto
  from close_step [OF Cons.prems(1) f(2) f(1) pos, of h d]
  obtain err w1 where o: "fuse_vnop_close h d vp f w = Some (err, w1)" and l: "\<not> fuse_isdeadfs w1 vp"
    and n: "sint (open_count (fufh (VTOFUD w1 vp) c)) = ?n - 1"
    and c1: "\<forall>S. FUSE_FLUSH \<notin> S \<longrightarrow> count_requests S (trace w1) =
                 count_requests S (trace w) +
                 (if ?n = 1 \<and> (if v_type vp = VDIR then FUSE_RELEASEDIR else FUSE_RELEASE) \<in> S then 1 else 0)"
    by blast
  have "\<exists>w'. closes h d vp fflags w1 = Some w' \<and> \<not> fuse_isdeadfs w' vp \<and>
           sint (open_count (fufh (VTOFUD w' vp) c)) =
             sint (open_count (fufh (VTOFUD w1 vp) c)) - int (length fflags) \<and>
           (\<forall>S. FUSE_FLUSH \<notin> S \<longrightarrow> count_requests S (trace w') =
                 count_requests S (trace w1) +
                 (if fflags \<noteq> [] \<and> int (length fflags) = sint (open_count (fufh (VTOFUD w1 vp) c)) \<and>
                     (if v_type vp = VDIR then FUSE_RELEASEDIR else FUSE_RELEASE) \<in> S then 1 else 0))"
    using Cons.prems n l by (intro Cons.IH) auto
  then obtain w' where r: "closes h d vp fflags w1 = Some w'" "\<not> fuse_isdeadfs w' vp"
    "sint (open_count (fufh (VTOFUD w' vp) c)) = sint (open_count (fufh (VTOFUD w1 vp) c)) - int (length fflags)"
    and c2: "\<forall>S. FUSE_FLUSH \<notin> S \<longrightarrow> count_requests S (trace w') =
                 count_requests S (trace w1) +
                 (if fflags \<noteq> [] \<and> int (length fflags) = sint (open_count (fufh (VTOFUD w1 vp) c)) \<and>
                     (if v_type vp = VDIR then FUSE_RELEASEDIR else FUSE_RELEASE) \<in> S then 1 else 0)"
    by blast
  have "closes h d vp (f # fflags) w = Some w'" using o r(1) by simp
  moreover have "sint (open_count (fufh (VTOFUD w' vp) c)) = ?n - int (length (f # fflags))"
    using r(3) n by simp
  moreover have "count_requests S (trace w') =
                 count_requests S (trace w) +
                 (if f # fflags \<noteq> [] \<and> int (length (f # fflags)) = ?n \<and>
                     (if v_type vp = VDIR then FUSE_RELEASEDIR else FUSE_RELEASE) \<in> S then 1 else 0)"
    if "FUSE_FLUSH \<notin> S" for S
  proof -
    have "?n = 1 \<Longrightarrow> fflags = []" using Cons.prems(3) by simp
    then show ?thesis
      using c1 [rule_format, OF that] c2 [rule_format, OF that] n by (auto split: if_splits)
  qed
  ultimately show ?case using r(2) by blast
qed


lemma opens_from_invalid:
  assumes live: "\<not> fuse_isdeadfs w vp" and nf: "v_type vp \<noteq> VFIFO" and nd: "\<not> blanket_deny h vp"
    and cls: "\<forall>m\<in>set modes. fufh_class vp m = Some c"
    and invalid: "\<not> FUFH_IS_VALID (fufh (VTOFUD w vp) c)"
    and accept: "\<forall>hist q. opcode q \<in> {FUSE_OPEN, FUSE_OPENDIR} \<longrightarrow> r_error (d hist q) = 0"
    and ne: "modes \<noteq> []" and len: "length modes < 2147483648"
  shows "\<exists>w'. opens h d vp modes w = Some w' \<and> \<not> fuse_isdeadfs w' vp \<and>
           sint (open_count (fufh (VTOFUD w' vp) c)) = int (length modes) \<and>
           (\<forall>S. FUSE_GETATTR \<notin> S \<longrightarrow> count_requests S (trace w') =
                 count_requests S (trace w) +
                 (if (if v_type vp = VDIR then FUSE_OPENDIR else FUSE_OPEN) \<in> S then 1 else 0))"
proof -
  from ne obtain m ms where modes: "modes = m # ms" by (cases modes) auto
  with cls have m: "fufh_class vp m = Some c" and ms: "\<forall>m\<in>set ms. fufh_class vp m = Some c" by auto
  from open_step_invalid [OF live nf nd m invalid accept]
  obtain w1 where o: "fuse_vnop_open h d vp m w = Some (0, w1)" and l: "\<not> fuse_isdeadfs w1 vp"
    and n: "sint (open_count (fufh (VTOFUD w1 vp) c)) = 1"
    and c1: "\<forall>S. FUSE_GETATTR \<notin> S \<longrightarrow> count_requests S (trace w1) =
                 count_requests S (trace w) +
                 (if (if v_type vp = VDIR then FUSE_OPENDIR else FUSE_OPEN) \<in> S then 1 else 0)"
    by blast
  have "\<exists>w'. opens h d vp ms w1 = Some w' \<and> \<not> fuse_isdeadfs w' vp \<and>
           sint (open_count (fufh (VTOFUD w' vp) c)) =
             sint (open_count (fufh (VTOFUD w1 vp) c)) + int (length ms) \<and>
           (\<forall>S. FUSE_GETATTR \<notin> S \<longrightarrow> count_requests S (trace w') = count_requests S (trace w1))"
    using l nf nd ms n len modes by (intro opens_from_valid) auto
  then show ?thesis using o n c1 modes by auto
qed

lemma sint_zero_word: "sint (x :: 32 word) = 0 \<Longrightarrow> x = 0"
  by (metis signed_eq_0_iff)

text \<open>
  C5. On a live vnode that is not a fifo, for a caller that the authorization hook lets
  through and a daemon that accepts opens: \<open>k\<close> opens whose flags select the class \<open>c\<close>
  (\<open>1 \<le> k < 2\<^sup>3\<^sup>1\<close>, what the 32-bit count can hold), starting from an invalid slot, followed by
  \<open>k\<close> closes of that class, send exactly one \<^verbatim>\<open>OPEN\<close> (\<^verbatim>\<open>OPENDIR\<close> for a directory) and exactly
  one \<^verbatim>\<open>RELEASE\<close> (\<^verbatim>\<open>RELEASEDIR\<close>) and leave the slot invalid with count 0. After the first \<open>j\<close>
  opens the count is \<open>j\<close> and the one \<^verbatim>\<open>OPEN\<close> has been sent; after the first \<open>j < k\<close> closes
  the count is \<open>k - j\<close> and no \<^verbatim>\<open>RELEASE\<close> has been sent yet.
\<close>

theorem open_close_balance:
  assumes live: "\<not> fuse_isdeadfs w vp" and nf: "v_type vp \<noteq> VFIFO" and nd: "\<not> blanket_deny h vp"
    and modes: "\<forall>m\<in>set modes. fufh_class vp m = Some c"
    and fflags: "\<forall>f\<in>set fflags. fufh_class vp f = Some c \<and> f \<noteq> IO_NDELAY"
    and len: "length modes = k" "length fflags = k" and k: "1 \<le> k" "k < 2147483648"
    and invalid: "\<not> FUFH_IS_VALID (fufh (VTOFUD w vp) c)"
    and accept: "\<forall>hist q. opcode q \<in> {FUSE_OPEN, FUSE_OPENDIR} \<longrightarrow> r_error (d hist q) = 0"
  shows "\<exists>w1 w2. opens h d vp modes w = Some w1 \<and> closes h d vp fflags w1 = Some w2 \<and>
      sint (open_count (fufh (VTOFUD w1 vp) c)) = int k \<and>
      open_count (fufh (VTOFUD w2 vp) c) = 0 \<and> \<not> FUFH_IS_VALID (fufh (VTOFUD w2 vp) c) \<and>
      count_requests {FUSE_OPEN, FUSE_OPENDIR} (trace w2) =
        count_requests {FUSE_OPEN, FUSE_OPENDIR} (trace w) + 1 \<and>
      count_requests {FUSE_RELEASE, FUSE_RELEASEDIR} (trace w2) =
        count_requests {FUSE_RELEASE, FUSE_RELEASEDIR} (trace w) + 1 \<and>
      (v_type vp \<noteq> VDIR \<longrightarrow>
         count_requests {FUSE_OPEN} (trace w2) = count_requests {FUSE_OPEN} (trace w) + 1 \<and>
         count_requests {FUSE_RELEASE} (trace w2) = count_requests {FUSE_RELEASE} (trace w) + 1) \<and>
      (\<forall>j. 1 \<le> j \<and> j \<le> k \<longrightarrow>
         (\<exists>wj. opens h d vp (take j modes) w = Some wj \<and>
            sint (open_count (fufh (VTOFUD wj vp) c)) = int j \<and>
            count_requests {FUSE_OPEN, FUSE_OPENDIR} (trace wj) =
              count_requests {FUSE_OPEN, FUSE_OPENDIR} (trace w) + 1 \<and>
            count_requests {FUSE_RELEASE, FUSE_RELEASEDIR} (trace wj) =
              count_requests {FUSE_RELEASE, FUSE_RELEASEDIR} (trace w))) \<and>
      (\<forall>j<k. \<exists>wj. closes h d vp (take j fflags) w1 = Some wj \<and>
            sint (open_count (fufh (VTOFUD wj vp) c)) = int k - int j \<and>
            count_requests {FUSE_RELEASE, FUSE_RELEASEDIR} (trace wj) =
              count_requests {FUSE_RELEASE, FUSE_RELEASEDIR} (trace w))"
proof -
  let ?op = "if v_type vp = VDIR then FUSE_OPENDIR else FUSE_OPEN"
  let ?rel = "if v_type vp = VDIR then FUSE_RELEASEDIR else FUSE_RELEASE"
  have pre: "\<exists>wj. opens h d vp (take j modes) w = Some wj \<and> \<not> fuse_isdeadfs wj vp \<and>
           sint (open_count (fufh (VTOFUD wj vp) c)) = int j \<and>
           (\<forall>S. FUSE_GETATTR \<notin> S \<longrightarrow> count_requests S (trace wj) =
                 count_requests S (trace w) + (if ?op \<in> S then 1 else 0))"
    if j: "1 \<le> j" "j \<le> k" for j
  proof -
    have "\<forall>m\<in>set (take j modes). fufh_class vp m = Some c"
      using modes by (meson in_set_takeD)
    moreover have "take j modes \<noteq> []" "length (take j modes) < 2147483648" "length (take j modes) = j"
      using j len k by auto
    ultimately show ?thesis
      using opens_from_invalid [OF live nf nd _ invalid accept, of "take j modes"] by auto
  qed
  from pre [of k] k len obtain w1 where
    o: "opens h d vp modes w = Some w1" and l1: "\<not> fuse_isdeadfs w1 vp"
    and n1: "sint (open_count (fufh (VTOFUD w1 vp) c)) = int k"
    and c1: "\<forall>S. FUSE_GETATTR \<notin> S \<longrightarrow> count_requests S (trace w1) =
                 count_requests S (trace w) + (if ?op \<in> S then 1 else 0)"
    by auto
  have post: "\<exists>wj. closes h d vp (take j fflags) w1 = Some wj \<and>
           sint (open_count (fufh (VTOFUD wj vp) c)) = int k - int j \<and>
           (\<forall>S. FUSE_FLUSH \<notin> S \<longrightarrow> count_requests S (trace wj) =
                 count_requests S (trace w1) + (if j = k \<and> ?rel \<in> S then 1 else 0))"
    if j: "j \<le> k" for j
  proof -
    have a: "\<forall>f\<in>set (take j fflags). fufh_class vp f = Some c \<and> f \<noteq> IO_NDELAY"
      using fflags by (meson in_set_takeD)
    have b: "length (take j fflags) = j" using j len by simp
    have "int (length (take j fflags)) \<le> sint (open_count (fufh (VTOFUD w1 vp) c))"
      using b n1 j by simp
    from closes_steps [OF l1 a this, of h d] obtain wj where
      r: "closes h d vp (take j fflags) w1 = Some wj"
      "sint (open_count (fufh (VTOFUD wj vp) c)) =
         sint (open_count (fufh (VTOFUD w1 vp) c)) - int (length (take j fflags))"
      and cc: "\<forall>S. FUSE_FLUSH \<notin> S \<longrightarrow> count_requests S (trace wj) =
                 count_requests S (trace w1) +
                 (if take j fflags \<noteq> [] \<and>
                     int (length (take j fflags)) = sint (open_count (fufh (VTOFUD w1 vp) c)) \<and>
                     ?rel \<in> S then 1 else 0)"
      by blast
    have eq: "take j fflags \<noteq> [] \<and>
        int (length (take j fflags)) = sint (open_count (fufh (VTOFUD w1 vp) c)) \<longleftrightarrow> j = k"
      using b n1 k by (cases "take j fflags") auto
    have "count_requests S (trace wj) =
                 count_requests S (trace w1) + (if j = k \<and> ?rel \<in> S then 1 else 0)"
      if "FUSE_FLUSH \<notin> S" for S
    proof -
      have "(take j fflags \<noteq> [] \<and>
             int (length (take j fflags)) = sint (open_count (fufh (VTOFUD w1 vp) c)) \<and> ?rel \<in> S)
            \<longleftrightarrow> (j = k \<and> ?rel \<in> S)"
        using eq by blast
      with cc [rule_format, OF that] show ?thesis by (simp only:)
    qed
    with r b n1 show ?thesis by auto
  qed
  from post [of k] len obtain w2 where
    cl: "closes h d vp fflags w1 = Some w2"
    and n2: "sint (open_count (fufh (VTOFUD w2 vp) c)) = 0"
    and c2: "\<forall>S. FUSE_FLUSH \<notin> S \<longrightarrow> count_requests S (trace w2) =
                 count_requests S (trace w1) + (if ?rel \<in> S then 1 else 0)"
    by auto
  have z: "open_count (fufh (VTOFUD w2 vp) c) = 0" using n2 by (rule sint_zero_word)
  have inv2: "\<not> FUFH_IS_VALID (fufh (VTOFUD w2 vp) c)" using n2 by (simp add: FUFH_IS_VALID_def)
  have cnt: "count_requests S (trace w2) =
       count_requests S (trace w) + (if ?op \<in> S then 1 else 0) + (if ?rel \<in> S then 1 else 0)"
    if "FUSE_GETATTR \<notin> S" "FUSE_FLUSH \<notin> S" for S
    using c1 c2 that by simp
  have A: "count_requests {FUSE_OPEN, FUSE_OPENDIR} (trace w2) =
        count_requests {FUSE_OPEN, FUSE_OPENDIR} (trace w) + 1"
    by (subst cnt) auto
  have B: "count_requests {FUSE_RELEASE, FUSE_RELEASEDIR} (trace w2) =
        count_requests {FUSE_RELEASE, FUSE_RELEASEDIR} (trace w) + 1"
    by (subst cnt) auto
  have C: "count_requests {FUSE_OPEN} (trace w2) = count_requests {FUSE_OPEN} (trace w) + 1"
    "count_requests {FUSE_RELEASE} (trace w2) = count_requests {FUSE_RELEASE} (trace w) + 1"
    if "v_type vp \<noteq> VDIR"
    using that by (simp_all add: cnt)
  have D: "\<exists>wj. opens h d vp (take j modes) w = Some wj \<and>
            sint (open_count (fufh (VTOFUD wj vp) c)) = int j \<and>
            count_requests {FUSE_OPEN, FUSE_OPENDIR} (trace wj) =
              count_requests {FUSE_OPEN, FUSE_OPENDIR} (trace w) + 1 \<and>
            count_requests {FUSE_RELEASE, FUSE_RELEASEDIR} (trace wj) =
              count_requests {FUSE_RELEASE, FUSE_RELEASEDIR} (trace w)"
    if "1 \<le> j \<and> j \<le> k" for j
  proof -
    from pre [of j] that obtain wj where
      "opens h d vp (take j modes) w = Some wj" "sint (open_count (fufh (VTOFUD wj vp) c)) = int j"
      and c: "\<forall>S. FUSE_GETATTR \<notin> S \<longrightarrow> count_requests S (trace wj) =
                 count_requests S (trace w) + (if ?op \<in> S then 1 else 0)"
      by auto
    moreover have "count_requests {FUSE_OPEN, FUSE_OPENDIR} (trace wj) =
              count_requests {FUSE_OPEN, FUSE_OPENDIR} (trace w) + 1"
      using c [rule_format, of "{FUSE_OPEN, FUSE_OPENDIR}"] by simp
    moreover have "count_requests {FUSE_RELEASE, FUSE_RELEASEDIR} (trace wj) =
              count_requests {FUSE_RELEASE, FUSE_RELEASEDIR} (trace w)"
      using c [rule_format, of "{FUSE_RELEASE, FUSE_RELEASEDIR}"] by simp
    ultimately show ?thesis by blast
  qed
  have E: "\<exists>wj. closes h d vp (take j fflags) w1 = Some wj \<and>
            sint (open_count (fufh (VTOFUD wj vp) c)) = int k - int j \<and>
            count_requests {FUSE_RELEASE, FUSE_RELEASEDIR} (trace wj) =
              count_requests {FUSE_RELEASE, FUSE_RELEASEDIR} (trace w)"
    if "j < k" for j
  proof -
    from post [of j] that obtain wj where
      "closes h d vp (take j fflags) w1 = Some wj"
      "sint (open_count (fufh (VTOFUD wj vp) c)) = int k - int j"
      and c: "\<forall>S. FUSE_FLUSH \<notin> S \<longrightarrow> count_requests S (trace wj) = count_requests S (trace w1)"
      by auto
    moreover have "count_requests {FUSE_RELEASE, FUSE_RELEASEDIR} (trace wj) =
              count_requests {FUSE_RELEASE, FUSE_RELEASEDIR} (trace w)"
      using c [rule_format, of "{FUSE_RELEASE, FUSE_RELEASEDIR}"]
        c1 [rule_format, of "{FUSE_RELEASE, FUSE_RELEASEDIR}"] by simp
    ultimately show ?thesis by blast
  qed
  from o cl n1 z inv2 A B C D E show ?thesis by blast
qed


lemma ex_open_close:
  "map_option trace
     (Option.bind (opens ex_host ex_daemon_full ex_vnode [3, 3] ex_world)
        (closes ex_host ex_daemon_full ex_vnode [3, 3])) =
   Some [Request \<lparr>opcode = FUSE_OPEN, q_nodeid = 7, indata = Open_in O_RDWR\<rparr>, Ticket_drop,
         Request \<lparr>opcode = FUSE_FLUSH, q_nodeid = 7, indata = Flush_in 42\<rparr>, Ticket_drop,
         Request \<lparr>opcode = FUSE_FLUSH, q_nodeid = 7, indata = Flush_in 42\<rparr>, Ticket_drop,
         Request \<lparr>opcode = FUSE_RELEASE, q_nodeid = 7, indata = Release_in 42 O_RDWR\<rparr>, Ticket_drop]"
  by (simp add: fuse_vnop_open_def fuse_vnop_open_ok_def fuse_vnop_close_def fuse_vnop_close_flush_def
        fuse_filehandle_get_def fuse_filehandle_put_def fuse_filehandle_xlate_from_fflags_def
        fuse_isdeadfs_def fuse_isdirectio_def fuse_implemented_def
        FUFH_IS_VALID_def FUFH_USE_INC_def FUFH_USE_DEC_def FUFH_USE_RESET_def
        VTOFUD_def VTOI_def set_fufh_def set_fsnode_def
        fuse_dispatcher_wait_answer_def fuse_dispatcher_make_vp_def fuse_dispatcher_make_def
        fuse_ticket_drop_def emit_def Let_def ex_host_def ex_daemon_full_def ex_vnode_def
        ex_world_def ex_session_def ex_node_def ex_fufh_def ex_reply_def)

theorem open_close_balance_witness:
  "\<not> fuse_isdeadfs ex_world ex_vnode \<and> v_type ex_vnode \<noteq> VFIFO \<and> \<not> blanket_deny ex_host ex_vnode \<and>
   fufh_class ex_vnode 3 = Some FUFH_RDWR \<and> (3 :: 32 word) \<noteq> IO_NDELAY \<and>
   \<not> FUFH_IS_VALID (fufh (VTOFUD ex_world ex_vnode) FUFH_RDWR) \<and>
   (\<exists>w1 w2. opens ex_host ex_daemon_full ex_vnode [3, 3] ex_world = Some w1 \<and>
      closes ex_host ex_daemon_full ex_vnode [3, 3] w1 = Some w2 \<and>
      open_count (fufh (VTOFUD w2 ex_vnode) FUFH_RDWR) = 0 \<and>
      count_requests {FUSE_OPEN} (trace w2) = 1 \<and> count_requests {FUSE_RELEASE} (trace w2) = 1 \<and>
      trace w2 =
        [Request \<lparr>opcode = FUSE_OPEN, q_nodeid = 7, indata = Open_in O_RDWR\<rparr>, Ticket_drop,
         Request \<lparr>opcode = FUSE_FLUSH, q_nodeid = 7, indata = Flush_in 42\<rparr>, Ticket_drop,
         Request \<lparr>opcode = FUSE_FLUSH, q_nodeid = 7, indata = Flush_in 42\<rparr>, Ticket_drop,
         Request \<lparr>opcode = FUSE_RELEASE, q_nodeid = 7, indata = Release_in 42 O_RDWR\<rparr>, Ticket_drop])"
proof -
  have h: "\<not> fuse_isdeadfs ex_world ex_vnode" "v_type ex_vnode \<noteq> VFIFO" "\<not> blanket_deny ex_host ex_vnode"
    by (simp_all add: fuse_isdeadfs_def ex_world_def ex_session_def ex_vnode_def ex_host_def)
  have c: "fufh_class ex_vnode 3 = Some FUFH_RDWR" "(3 :: 32 word) \<noteq> IO_NDELAY"
    by (simp_all add: fufh_class_def fuse_filehandle_xlate_from_fflags_def ex_vnode_def)
  have i: "\<not> FUFH_IS_VALID (fufh (VTOFUD ex_world ex_vnode) FUFH_RDWR)"
    by (simp add: FUFH_IS_VALID_def VTOFUD_def ex_world_def ex_node_def ex_fufh_def)
  have a: "\<forall>hist q. opcode q \<in> {FUSE_OPEN, FUSE_OPENDIR} \<longrightarrow> r_error (ex_daemon_full hist q) = 0"
    by (simp add: ex_daemon_full_def ex_reply_def split: fuse_indata.split)
  have t0: "trace ex_world = []" by (simp add: ex_world_def)
  from open_close_balance [OF h, of "[3, 3]" FUFH_RDWR "[3, 3]" 2 ex_daemon_full] c i a
  obtain w1 w2 where r: "opens ex_host ex_daemon_full ex_vnode [3, 3] ex_world = Some w1"
    "closes ex_host ex_daemon_full ex_vnode [3, 3] w1 = Some w2"
    "open_count (fufh (VTOFUD w2 ex_vnode) FUFH_RDWR) = 0"
    "count_requests {FUSE_OPEN} (trace w2) = count_requests {FUSE_OPEN} (trace ex_world) + 1"
    "count_requests {FUSE_RELEASE} (trace w2) = count_requests {FUSE_RELEASE} (trace ex_world) + 1"
    by (auto simp: ex_vnode_def)
  from r(1,2) ex_open_close have "trace w2 =
        [Request \<lparr>opcode = FUSE_OPEN, q_nodeid = 7, indata = Open_in O_RDWR\<rparr>, Ticket_drop,
         Request \<lparr>opcode = FUSE_FLUSH, q_nodeid = 7, indata = Flush_in 42\<rparr>, Ticket_drop,
         Request \<lparr>opcode = FUSE_FLUSH, q_nodeid = 7, indata = Flush_in 42\<rparr>, Ticket_drop,
         Request \<lparr>opcode = FUSE_RELEASE, q_nodeid = 7, indata = Release_in 42 O_RDWR\<rparr>, Ticket_drop]"
    by simp
  with r t0 h c i show ?thesis by (intro conjI exI [of _ w1] exI [of _ w2]) simp_all
qed


subsection \<open>\<^verbatim>\<open>fuse_vnop_lookup\<close>\<close>


lemma lookup_out_trace:
  "\<exists>es. trace (snd (snd (fuse_vnop_lookup_out dvp cnp op nid err vpp w))) = trace w @ es"
  by (auto simp: fuse_vnop_lookup_out_def fuse_internal_forget_send_def fuse_insert_message_def
        split: option.splits)

lemma lookup_cache_trace:
  assumes "fuse_vnop_lookup_cache h dvp cnp op nid fdi xvp vp w = Some y"
  shows "\<exists>es. trace (snd (snd y)) = trace w @ es"
  using assms lookup_out_trace [of dvp cnp op nid 0 "Some xvp"]
  by (auto simp: fuse_vnop_lookup_cache_def Let_def split: if_splits)
     (metis cache_attrs_simps(2) set_fsnode_simps(2))+

lemma lookup_found_trace:
  assumes "fuse_vnop_lookup_found h dvp cnp op nid isdot isdotdot fdi w = Some y"
  shows "\<exists>es. trace (snd (snd y)) = trace w @ es"
  using assms lookup_out_trace [of dvp cnp op nid _ _ w] lookup_cache_trace [of h dvp cnp op nid fdi _ _ w y]
  by (auto simp: fuse_vnop_lookup_found_def Let_def split: if_splits)

lemma triple_ex [simp]: "\<exists>a b c. x = (a, b, c)"
  by (cases x) auto

lemma lookup_found_returns:
  assumes "\<not> isdot" and "\<not> isdotdot"
  shows "fuse_vnop_lookup_found h dvp cnp op nid isdot isdotdot fdi w \<noteq> None"
  using assms by (auto simp: fuse_vnop_lookup_found_def fuse_vnop_lookup_cache_def Let_def)

lemma lookup_calldaemon_request:
  assumes "fuse_vnop_lookup_calldaemon h d dvp cnp op nid isdot isdotdot w = Some y"
  shows "\<exists>es. trace (snd (snd y)) =
           trace w @ Request (fuse_dispatcher_make op nid
                               (if op = FUSE_LOOKUP then Name_in (cn_nameptr cnp) else Getattr_in)) # es"
proof -
  let ?q = "fuse_dispatcher_make op nid (if op = FUSE_LOOKUP then Name_in (cn_nameptr cnp) else Getattr_in)"
  let ?w1 = "emit (Request ?q) w"
  have "(\<exists>r vpp. y = (r, vpp, ?w1)) \<or> (\<exists>r vpp. y = (r, vpp, fuse_vncache_enter dvp (cn_nameptr cnp) ?w1)) \<or>
        (\<exists>n. fuse_vnop_lookup_found h dvp cnp op n isdot isdotdot (d (trace w) ?q) ?w1 = Some y)"
    using assms
    by (auto simp: fuse_vnop_lookup_calldaemon_def fuse_dispatcher_wait_answer_def Let_def
          split: if_splits)
  then show ?thesis
    using lookup_found_trace [of h dvp cnp op _ isdot isdotdot "d (trace w) ?q" ?w1 y]
    by (auto simp: fuse_vncache_enter_def)
qed

lemma lookup_calldaemon_returns:
  assumes "\<not> isdot" and "\<not> isdotdot"
  shows "fuse_vnop_lookup_calldaemon h d dvp cnp op nid isdot isdotdot w \<noteq> None"
  using assms lookup_found_returns [of isdot isdotdot]
  by (auto simp: fuse_vnop_lookup_calldaemon_def Let_def split: prod.splits)


text \<open>
  C9. In a lookup that reaches the test of the name's length (the file system is alive, the
  name is not a skipped AppleDouble name, the directory is a directory, and the lookup is not
  a modifying one of the last component on a read-only mount): a name of more than 255 bytes
  makes the lookup return \<^verbatim>\<open>ENAMETOOLONG\<close> with no vnode and the world as it was, so no request
  has been sent; a name of at most 255 bytes, 255 included, passes the test, the lookup then
  being the resolution that follows it, which for a name other than \<^verbatim>\<open>.\<close> and \<^verbatim>\<open>..\<close> that the name
  cache does not hold returns after sending \<^verbatim>\<open>FUSE_LOOKUP\<close> with that name to the daemon.
\<close>

theorem fuse_vnop_lookup_name_length:
  assumes live: "\<not> fuse_isdeadfs w dvp"
      and nodouble: "\<not> skip_apple_double h (cn_nameptr cnp)"
      and isdir: "v_type dvp = VDIR"
      and writable: "cn_flags cnp AND ISLASTCN = 0 \<or> \<not> vfs_isrdonly h \<or> cn_nameiop cnp = LOOKUP"
  shows "(FUSE_MAXNAMLEN < cn_namelen cnp \<longrightarrow>
            fuse_vnop_lookup h d dvp cnp w = Some (ENAMETOOLONG, None, w)) \<and>
         (cn_namelen cnp \<le> FUSE_MAXNAMLEN \<longrightarrow>
            fuse_vnop_lookup h d dvp cnp w = fuse_vnop_lookup_resolve h d dvp cnp w \<and>
            (cn_flags cnp AND ISDOTDOT = 0 \<and> cn_nameptr cnp \<noteq> ''.'' \<and>
             (FSESS_NO_VNCACHE (session w) \<or> fst (vncache_lookup h dvp (cn_nameptr cnp)) = 0) \<longrightarrow>
               (\<exists>err vpp w' es. fuse_vnop_lookup h d dvp cnp w = Some (err, vpp, w') \<and>
                  trace w' = trace w @ Request (fuse_dispatcher_make FUSE_LOOKUP (VTOI w dvp)
                                                  (Name_in (cn_nameptr cnp))) # es)))"
proof (intro conjI impI)
  assume "FUSE_MAXNAMLEN < cn_namelen cnp"
  then show "fuse_vnop_lookup h d dvp cnp w = Some (ENAMETOOLONG, None, w)"
    using assms by (auto simp: fuse_vnop_lookup_def)
next
  assume len: "cn_namelen cnp \<le> FUSE_MAXNAMLEN"
  show eq: "fuse_vnop_lookup h d dvp cnp w = fuse_vnop_lookup_resolve h d dvp cnp w"
    using assms len by (auto simp: fuse_vnop_lookup_def)
  assume miss: "cn_flags cnp AND ISDOTDOT = 0 \<and> cn_nameptr cnp \<noteq> ''.'' \<and>
    (FSESS_NO_VNCACHE (session w) \<or> fst (vncache_lookup h dvp (cn_nameptr cnp)) = 0)"
  let ?c = "fuse_vnop_lookup_calldaemon h d dvp cnp FUSE_LOOKUP (VTOI w dvp) False False w"
  have res: "fuse_vnop_lookup_resolve h d dvp cnp w = ?c"
    using miss by (auto simp: fuse_vnop_lookup_resolve_def split: prod.splits)
  obtain err vpp w' where y: "?c = Some (err, vpp, w')"
    using lookup_calldaemon_returns [of False False h d dvp cnp FUSE_LOOKUP "VTOI w dvp" w]
    by (cases ?c) auto
  obtain es where tr: "trace w' = trace w @ Request (fuse_dispatcher_make FUSE_LOOKUP (VTOI w dvp)
                                                  (Name_in (cn_nameptr cnp))) # es"
    using lookup_calldaemon_request [OF y] by auto
  show "\<exists>err vpp w' es. fuse_vnop_lookup h d dvp cnp w = Some (err, vpp, w') \<and>
                  trace w' = trace w @ Request (fuse_dispatcher_make FUSE_LOOKUP (VTOI w dvp)
                                                  (Name_in (cn_nameptr cnp))) # es"
    using eq res y tr by auto
qed


theorem fuse_vnop_lookup_name_length_witness:
  "\<not> fuse_isdeadfs ex_world ex_dvnode \<and> v_type ex_dvnode = VDIR \<and>
   cn_namelen (ex_cnp 256) = 256 \<and>
   fuse_vnop_lookup ex_host ex_daemon_full ex_dvnode (ex_cnp 256) ex_world
     = Some (ENAMETOOLONG, None, ex_world) \<and>
   cn_namelen (ex_cnp 255) = 255 \<and>
   fuse_vnop_lookup ex_host ex_daemon_full ex_dvnode (ex_cnp 255) ex_world
     = fuse_vnop_lookup_resolve ex_host ex_daemon_full ex_dvnode (ex_cnp 255) ex_world \<and>
   (\<exists>err vpp w' es.
      fuse_vnop_lookup ex_host ex_daemon_full ex_dvnode (ex_cnp 255) ex_world = Some (err, vpp, w') \<and>
      trace w' = Request \<lparr>opcode = FUSE_LOOKUP, q_nodeid = 7, indata = Name_in (replicate 255 CHR ''a'')\<rparr> # es)"
proof -
  have pre: "\<not> fuse_isdeadfs ex_world ex_dvnode" "\<not> skip_apple_double ex_host (cn_nameptr (ex_cnp n))"
    "v_type ex_dvnode = VDIR"
    "cn_flags (ex_cnp n) AND ISLASTCN = 0 \<or> \<not> vfs_isrdonly ex_host \<or> cn_nameiop (ex_cnp n) = LOOKUP" for n
    by (simp_all add: fuse_isdeadfs_def ex_world_def ex_session_def ex_dvnode_def ex_host_def
          ex_cnp_def VTOFUD_def ex_node_def)
  have len: "cn_namelen (ex_cnp n) = n" for n
    by (simp add: cn_namelen_def ex_cnp_def)
  have miss: "cn_flags (ex_cnp 255) AND ISDOTDOT = 0 \<and> cn_nameptr (ex_cnp 255) \<noteq> ''.'' \<and>
     (FSESS_NO_VNCACHE (session ex_world) \<or>
      fst (vncache_lookup ex_host ex_dvnode (cn_nameptr (ex_cnp 255))) = 0)"
  proof -
    have "length (replicate 255 CHR ''a'') \<noteq> length ''.''"
      by simp
    then have "replicate 255 CHR ''a'' \<noteq> ''.''"
      by metis
    then show ?thesis
      by (simp add: ex_cnp_def ex_host_def)
  qed
  have tr: "trace ex_world = []" "VTOI ex_world ex_dvnode = 7" "cn_nameptr (ex_cnp 255) = replicate 255 CHR ''a''"
    by (simp_all add: ex_world_def VTOI_def VTOFUD_def ex_node_def ex_cnp_def ex_dvnode_def)
  note long = fuse_vnop_lookup_name_length [OF pre(1) pre(2) [of 256] pre(3) pre(4) [of 256],
                 where d = ex_daemon_full]
  note short = fuse_vnop_lookup_name_length [OF pre(1) pre(2) [of 255] pre(3) pre(4) [of 255],
                 where d = ex_daemon_full]
  have gt: "FUSE_MAXNAMLEN < cn_namelen (ex_cnp 256)" and le: "cn_namelen (ex_cnp 255) \<le> FUSE_MAXNAMLEN"
    by (simp_all add: len)
  have a: "fuse_vnop_lookup ex_host ex_daemon_full ex_dvnode (ex_cnp 256) ex_world
             = Some (ENAMETOOLONG, None, ex_world)"
    using long gt by blast
  have b: "fuse_vnop_lookup ex_host ex_daemon_full ex_dvnode (ex_cnp 255) ex_world
             = fuse_vnop_lookup_resolve ex_host ex_daemon_full ex_dvnode (ex_cnp 255) ex_world"
    using short le by blast
  have "\<exists>err vpp w' es.
      fuse_vnop_lookup ex_host ex_daemon_full ex_dvnode (ex_cnp 255) ex_world = Some (err, vpp, w') \<and>
      trace w' = trace ex_world @ Request (fuse_dispatcher_make FUSE_LOOKUP (VTOI ex_world ex_dvnode)
                                             (Name_in (cn_nameptr (ex_cnp 255)))) # es"
    using short le miss by blast
  then have c: "\<exists>err vpp w' es.
      fuse_vnop_lookup ex_host ex_daemon_full ex_dvnode (ex_cnp 255) ex_world = Some (err, vpp, w') \<and>
      trace w' = Request \<lparr>opcode = FUSE_LOOKUP, q_nodeid = 7, indata = Name_in (replicate 255 CHR ''a'')\<rparr> # es"
    by (simp only: tr append_Nil fuse_dispatcher_make_def)
  show ?thesis
    using pre(1) pre(3) len [of 256] len [of 255] a b c by blast
qed


subsection \<open>\<^verbatim>\<open>fuse_vnop_create\<close>\<close>


lemma create_bringup_facts:
  assumes res: "fuse_vnop_create_bringup h dvp mode old feo w = (err, vpp, w')"
  shows "session w' = session w"
    and "fuse_internal_checkentry feo VREG \<noteq> 0 \<Longrightarrow>
           err = fuse_internal_checkentry feo VREG \<and> vpp = None \<and>
           trace w' = trace w @ [Ticket_drop]"
    and "fuse_internal_checkentry feo VREG = 0 \<Longrightarrow> fst (vget h feo) \<noteq> 0 \<Longrightarrow>
           err = fst (vget h feo) \<and> vpp = None \<and>
           trace w' = trace w @
             [Request (if old then fuse_dispatcher_make FUSE_FORGET (r_nodeid feo) (Forget_in 1)
                       else fuse_dispatcher_make FUSE_RELEASE (r_nodeid feo)
                              (Release_in (r_fh feo) (OFLAGS mode)))]"
    and "fuse_internal_checkentry feo VREG = 0 \<Longrightarrow> fst (vget h feo) = 0 \<Longrightarrow>
           err = 0 \<and> vpp = Some (snd (vget h feo)) \<and>
           trace w' = trace w @ [Cache_purge_negatives (v_id dvp), Ticket_drop] \<and>
           (\<not> old \<longrightarrow> fh_id (fufh (VTOFUD w' (snd (vget h feo))) FUFH_RDWR) = r_fh feo \<and>
                     open_count (fufh (VTOFUD w' (snd (vget h feo))) FUFH_RDWR) = 1)"
  using res
  by (auto simp: fuse_vnop_create_bringup_def Let_def
        fuse_ticket_drop_def fuse_internal_forget_send_def fuse_insert_message_def
        cache_purge_negatives_def
        split: if_splits prod.splits)


lemma create_good_old_eq:
  "fuse_vnop_create_good_old h d dvp cnp mode pnid w =
     (let qm = fuse_dispatcher_make FUSE_MKNOD pnid (Mknod_in mode 0 (cn_nameptr cnp));
          feo = d (trace w) qm
      in if r_error feo \<noteq> 0 then (r_error feo, None, emit (Request qm) w)
         else fuse_vnop_create_bringup h dvp mode True feo (emit (Request qm) w))"
  by (simp add: fuse_vnop_create_good_old_def fuse_internal_newentry_makerequest_def
        fuse_dispatcher_wait_answer_def Let_def)

text \<open>
  C2. A create of a regular file that passes the common preamble (live file system, caller
  not denied, name not a skipped AppleDouble name). Let \<open>qc\<close> be the \<^verbatim>\<open>FUSE_CREATE\<close> request and
  \<open>qm\<close> the \<^verbatim>\<open>FUSE_MKNOD\<close> request for the name in the parent, \<open>old\<close> say that the \<^verbatim>\<open>MKNOD\<close> path
  is taken (the capability bit of \<^verbatim>\<open>CREATE\<close> is clear, or the daemon answers \<^verbatim>\<open>CREATE\<close> with
  \<^verbatim>\<open>ENOSYS\<close>), \<open>reqs\<close> the requests waited for and \<open>feo\<close> the answer to the last of them. Then:
  with the capability bit set \<^verbatim>\<open>FUSE_CREATE\<close> is the first thing sent; on \<^verbatim>\<open>ENOSYS\<close> the bit is
  cleared and \<^verbatim>\<open>FUSE_MKNOD\<close> is sent next, and in every other case the capabilities stay as
  they were; an error of the daemon is returned as it is; an entry that fails the check for
  a regular file (\<^verbatim>\<open>fuse_internal_checkentry\<close>) gives that check's error after the ticket is
  dropped; when the vnode cannot be made, the error
  is returned after a \<^verbatim>\<open>FUSE_RELEASE\<close> of the new handle on the \<^verbatim>\<open>CREATE\<close> path and a
  \<^verbatim>\<open>FUSE_FORGET\<close> of the new node on the \<^verbatim>\<open>MKNOD\<close> path; on success the negative name-cache
  entries of the parent are purged, the ticket is dropped, and on the \<^verbatim>\<open>CREATE\<close> path the
  \<^verbatim>\<open>RDWR\<close> slot of the new vnode holds the daemon's handle with a count of 1.
\<close>

theorem fuse_vnop_create_regular:
  assumes live: "\<not> fuse_isdeadfs w dvp"
      and allowed: "\<not> blanket_deny h dvp"
      and nodouble: "\<not> skip_apple_double h (cn_nameptr cnp)"
      and reg: "va_type vap = VREG"
      and mode: "mode = MAKEIMODE VREG (va_mode vap)"
      and qc: "qc = fuse_dispatcher_make FUSE_CREATE (nodeid (VTOFUD w dvp))
                      (Create_in mode (O_CREAT OR O_RDWR) (cn_nameptr cnp))"
      and qm: "qm = fuse_dispatcher_make FUSE_MKNOD (nodeid (VTOFUD w dvp))
                      (Mknod_in mode 0 (cn_nameptr cnp))"
      and cap: "cap \<longleftrightarrow> fuse_implemented (session w) FUSE_CREATE"
      and old: "old \<longleftrightarrow> \<not> cap \<or> r_error (d (trace w) qc) = ENOSYS"
      and reqs: "reqs = (if cap then [Request qc] else []) @ (if old then [Request qm] else [])"
      and feo: "feo = (if old then d (trace w @ (if cap then [Request qc] else [])) qm
                       else d (trace w) qc)"
      and res: "fuse_vnop_create h d dvp cnp vap w = (err, vpp, w')"
  shows "(\<exists>es. trace w' = trace w @ reqs @ es) \<and>
         capability (session w') =
           (if cap \<and> old then capability (session w) - {FUSE_CREATE} else capability (session w)) \<and>
         (r_error feo \<noteq> 0 \<longrightarrow>
            err = r_error feo \<and> vpp = None \<and> trace w' = trace w @ reqs) \<and>
         (r_error feo = 0 \<and> fuse_internal_checkentry feo VREG \<noteq> 0 \<longrightarrow>
            err = fuse_internal_checkentry feo VREG \<and> vpp = None \<and>
            trace w' = trace w @ reqs @ [Ticket_drop]) \<and>
         (r_error feo = 0 \<and> fuse_internal_checkentry feo VREG = 0 \<and> fst (vget h feo) \<noteq> 0 \<longrightarrow>
            err = fst (vget h feo) \<and> vpp = None \<and>
            trace w' = trace w @ reqs @
              [Request (if old then fuse_dispatcher_make FUSE_FORGET (r_nodeid feo) (Forget_in 1)
                        else fuse_dispatcher_make FUSE_RELEASE (r_nodeid feo)
                               (Release_in (r_fh feo) (OFLAGS mode)))]) \<and>
         (r_error feo = 0 \<and> fuse_internal_checkentry feo VREG = 0 \<and> fst (vget h feo) = 0 \<longrightarrow>
            err = 0 \<and> vpp = Some (snd (vget h feo)) \<and>
            trace w' = trace w @ reqs @ [Cache_purge_negatives (v_id dvp), Ticket_drop] \<and>
            (\<not> old \<longrightarrow> fh_id (fufh (VTOFUD w' (snd (vget h feo))) FUFH_RDWR) = r_fh feo \<and>
                      open_count (fufh (VTOFUD w' (snd (vget h feo))) FUFH_RDWR) = 1))"
proof -
  let ?w0 = "if cap then (if old then fuse_clear_implemented FUSE_CREATE (emit (Request qc) w)
                          else emit (Request qc) w) else w"
  let ?w1 = "if old then emit (Request qm) ?w0 else ?w0"
  have tr1: "trace ?w1 = trace w @ reqs"
    by (simp add: reqs)
  have cap1: "capability (session ?w1) =
           (if cap \<and> old then capability (session w) - {FUSE_CREATE} else capability (session w))"
    by simp
  have feo0: "old \<Longrightarrow> feo = d (trace ?w0) qm"
    by (simp add: feo)
  have unfolded: "fuse_vnop_create h d dvp cnp vap w =
      (if r_error feo \<noteq> 0 then (r_error feo, None, ?w1)
       else fuse_vnop_create_bringup h dvp mode old feo ?w1)"
    using live allowed nodouble reg
    by (auto simp: fuse_vnop_create_def create_good_old_eq Let_def fuse_dispatcher_wait_answer_def
          mode qc qm cap old feo)
  show ?thesis
  proof (cases "r_error feo = 0")
    case False
    then have "err = r_error feo" "vpp = None" "w' = ?w1"
      using unfolded res by auto
    then show ?thesis
      using False tr1 cap1 by simp
  next
    case True
    then have b: "fuse_vnop_create_bringup h dvp mode old feo ?w1 = (err, vpp, w')"
      using unfolded res by simp
    note f = create_bringup_facts [OF b]
    have "capability (session w') =
           (if cap \<and> old then capability (session w) - {FUSE_CREATE} else capability (session w))"
      using f(1) cap1 by simp
    moreover have "\<exists>es. trace w' = trace w @ reqs @ es"
      using f(2-4) tr1 by (cases "fuse_internal_checkentry feo VREG = 0"; cases "fst (vget h feo) = 0") auto
    ultimately show ?thesis
      using True f(2-4) tr1 by simp
  qed
qed


theorem fuse_vnop_create_regular_witness:
  "\<not> fuse_isdeadfs ex_world ex_dvnode \<and> va_type ex_attr = VREG \<and>
   fuse_implemented (session ex_world) FUSE_CREATE \<and>
   fst (fuse_vnop_create ex_host ex_daemon_nocreate ex_dvnode (ex_cnp 1) ex_attr ex_world) = 0 \<and>
   fst (snd (fuse_vnop_create ex_host ex_daemon_nocreate ex_dvnode (ex_cnp 1) ex_attr ex_world))
     = Some ex_vnode \<and>
   capability (session (snd (snd
       (fuse_vnop_create ex_host ex_daemon_nocreate ex_dvnode (ex_cnp 1) ex_attr ex_world))))
     = UNIV - {FUSE_CREATE} \<and>
   trace (snd (snd (fuse_vnop_create ex_host ex_daemon_nocreate ex_dvnode (ex_cnp 1) ex_attr ex_world)))
     = [Request \<lparr>opcode = FUSE_CREATE, q_nodeid = 7, indata = Create_in 33188 514 ''a''\<rparr>,
        Request \<lparr>opcode = FUSE_MKNOD, q_nodeid = 7, indata = Mknod_in 33188 0 ''a''\<rparr>,
        Cache_purge_negatives 1, Ticket_drop] \<and>
   fst (fuse_vnop_create ex_host_novnode ex_daemon_full ex_dvnode (ex_cnp 1) ex_attr ex_world) = EIO \<and>
   trace (snd (snd (fuse_vnop_create ex_host_novnode ex_daemon_full ex_dvnode (ex_cnp 1) ex_attr ex_world)))
     = [Request \<lparr>opcode = FUSE_CREATE, q_nodeid = 7, indata = Create_in 33188 514 ''a''\<rparr>,
        Request \<lparr>opcode = FUSE_RELEASE, q_nodeid = 7, indata = Release_in 42 33187\<rparr>]"
proof -
  have pre: "\<not> fuse_isdeadfs ex_world ex_dvnode" "\<not> blanket_deny ex_host ex_dvnode"
    "\<not> skip_apple_double ex_host (cn_nameptr (ex_cnp 1))" "va_type ex_attr = VREG"
    "\<not> blanket_deny ex_host_novnode ex_dvnode"
    "\<not> skip_apple_double ex_host_novnode (cn_nameptr (ex_cnp 1))"
    "fuse_implemented (session ex_world) FUSE_CREATE"
    by (simp_all add: fuse_isdeadfs_def ex_world_def ex_session_def ex_dvnode_def ex_host_def
          ex_host_novnode_def ex_cnp_def VTOFUD_def ex_node_def ex_attr_def fuse_implemented_def)
  have vals: "MAKEIMODE VREG (va_mode ex_attr) = 33188" "nodeid (VTOFUD ex_world ex_dvnode) = 7"
    "cn_nameptr (ex_cnp 1) = ''a''" "trace ex_world = []" "capability (session ex_world) = UNIV"
    "v_id ex_dvnode = 1" "OFLAGS 33188 = 33187" "(O_CREAT OR O_RDWR :: 32 word) = 514"
    by (simp_all add: MAKEIMODE_def ex_attr_def VTOFUD_def ex_world_def ex_node_def ex_cnp_def
          ex_session_def ex_dvnode_def OFLAGS_def)
  have replies: "r_error (ex_daemon_nocreate hist (fuse_dispatcher_make FUSE_CREATE n i)) = ENOSYS"
    "ex_daemon_nocreate hist (fuse_dispatcher_make FUSE_MKNOD n i) = ex_reply"
    "ex_daemon_full hist (fuse_dispatcher_make FUSE_CREATE n (Create_in m f s)) = ex_reply"
    "r_error ex_reply = 0" "fuse_internal_checkentry ex_reply VREG = 0"
    "r_nodeid ex_reply = 7" "r_fh ex_reply = 42"
    "vget ex_host r = (0, ex_vnode)" "vget ex_host_novnode r = (EIO, ex_vnode)" for hist n i m f s r
    by (simp_all add: ex_daemon_nocreate_def ex_daemon_full_def fuse_dispatcher_make_def
          ex_reply_def ex_fuse_attr_def IFTOVT_def ex_host_def ex_host_novnode_def
          fuse_internal_checkentry_def)
  obtain err vpp w' where
    r1: "fuse_vnop_create ex_host ex_daemon_nocreate ex_dvnode (ex_cnp 1) ex_attr ex_world = (err, vpp, w')"
    using prod_cases3 by blast
  obtain err2 vpp2 w2 where
    r2: "fuse_vnop_create ex_host_novnode ex_daemon_full ex_dvnode (ex_cnp 1) ex_attr ex_world = (err2, vpp2, w2)"
    using prod_cases3 by blast
  have a: "err = 0 \<and> vpp = Some ex_vnode \<and> capability (session w') = UNIV - {FUSE_CREATE} \<and>
     trace w' = [Request \<lparr>opcode = FUSE_CREATE, q_nodeid = 7, indata = Create_in 33188 514 ''a''\<rparr>,
        Request \<lparr>opcode = FUSE_MKNOD, q_nodeid = 7, indata = Mknod_in 33188 0 ''a''\<rparr>,
        Cache_purge_negatives 1, Ticket_drop]"
    using fuse_vnop_create_regular [OF pre(1) pre(2) pre(3) pre(4) refl refl refl refl refl refl refl r1]
    by (simp add: vals replies pre) (simp add: fuse_dispatcher_make_def ex_cnp_def)
  have b: "err2 = EIO \<and>
     trace w2 = [Request \<lparr>opcode = FUSE_CREATE, q_nodeid = 7, indata = Create_in 33188 514 ''a''\<rparr>,
        Request \<lparr>opcode = FUSE_RELEASE, q_nodeid = 7, indata = Release_in 42 33187\<rparr>]"
    using fuse_vnop_create_regular [OF pre(1) pre(5) pre(6) pre(4) refl refl refl refl refl refl refl r2]
    by (simp add: vals replies pre) (simp add: fuse_dispatcher_make_def ex_cnp_def)
  show ?thesis
    unfolding r1 r2 fst_conv snd_conv using a b pre(1) pre(4) pre(7) by blast
qed


subsection \<open>\<^verbatim>\<open>fuse_vnop_getattr\<close>\<close>


text \<open>
  C8, as the claim states it, fails: on the root vnode of a live session that is not
  initialized, a caller who is not the superuser and whom the blanket denial refuses gets
  \<^verbatim>\<open>ENOENT\<close> and no attributes, since that test comes before the test of the session.
\<close>

theorem fuse_vnop_getattr_root_uninit_denied:
  "v_isvroot ex_dvnode \<and> \<not> inited (session ex_uninit_world) \<and>
   \<not> fuse_isdeadfs ex_uninit_world ex_dvnode \<and>
   \<not> issuser ex_host_denied \<and> blanket_deny ex_host_denied ex_dvnode \<and>
   fuse_vnop_getattr ex_host_denied ex_daemon_full ex_dvnode ex_attr False ex_uninit_world
     = (ENOENT, ex_attr, ex_uninit_world)"
  by (simp add: fuse_vnop_getattr_def fuse_isdeadfs_def ex_uninit_world_def ex_world_def
        ex_session_def ex_dvnode_def ex_host_denied_def ex_host_def)

lemma getattr_fake_facts:
  "fst (fuse_vnop_getattr_fake vp own w) = 0"
  "va_type (fst (snd (fuse_vnop_getattr_fake vp own w))) = v_type vp"
  "va_uid (fst (snd (fuse_vnop_getattr_fake vp own w))) = daemoncred_uid (session w)"
  "va_gid (fst (snd (fuse_vnop_getattr_fake vp own w))) = daemoncred_gid (session w)"
  "va_mode (fst (snd (fuse_vnop_getattr_fake vp own w))) = S_IRWXU"
  "session (snd (snd (fuse_vnop_getattr_fake vp own w))) = session w"
  "trace (snd (snd (fuse_vnop_getattr_fake vp own w))) = trace w"
  by (simp_all add: fuse_vnop_getattr_fake_def Let_def)

text \<open>
  C8, amended. On a live file system a caller whom the blanket denial refuses (the superuser
  is not tested on the root vnode) gets \<^verbatim>\<open>ENOENT\<close> with nothing changed; a caller who is not
  refused, while the cached attributes are still valid, gets 0 with the attributes that
  \<^verbatim>\<open>fuse_internal_attr_loadvap\<close> loads from the node (the buffer as it is when it is the
  node's own) and nothing changed, whether the session is initialized or not. A getattr
  passes to the daemon when the file system is alive, the caller is not refused and the
  cached attributes have expired. On the root vnode, when the session is dead, or when the
  getattr passes and the session is not initialized or the daemon's answer to \<^verbatim>\<open>FUSE_GETATTR\<close>
  is \<^verbatim>\<open>ENOTCONN\<close>, the operation returns 0 with the type of the vnode, the uid and gid of the
  daemon's credentials and the mode \<^verbatim>\<open>S_IRWXU\<close>, the session as it was, sending nothing but
  that \<^verbatim>\<open>FUSE_GETATTR\<close> (and not even that when the session is dead or not initialized). On
  another vnode a dead session gives \<^verbatim>\<open>ENXIO\<close> with nothing changed, and a getattr that passes
  on a session not initialized gives \<^verbatim>\<open>ENOTCONN\<close> and kills the session. On any vnode, when the
  getattr passes on an initialized session, every other error of the daemon is returned as
  it is, the caller's buffer untouched.
\<close>

theorem fuse_vnop_getattr_root_fabricated:
  assumes q: "q = fuse_dispatcher_make_vp w FUSE_GETATTR vp Getattr_in"
      and passes: "passes \<longleftrightarrow> \<not> fuse_isdeadfs w vp \<and>
                     (v_isvroot vp \<and> issuser h \<or> \<not> blanket_deny h vp) \<and>
                     attr_valid (VTOFUD w vp) < nanouptime h"
      and res: "fuse_vnop_getattr h d vp vap own w = (err, a, w')"
  shows "(v_isvroot vp \<and>
            (fuse_isdeadfs w vp \<or>
             passes \<and> (\<not> inited (session w) \<or> r_error (d (trace w) q) = ENOTCONN)) \<longrightarrow>
            err = 0 \<and> va_type a = v_type vp \<and> va_uid a = daemoncred_uid (session w) \<and>
            va_gid a = daemoncred_gid (session w) \<and> va_mode a = S_IRWXU \<and>
            session w' = session w \<and>
            trace w' = trace w @
              (if \<not> fuse_isdeadfs w vp \<and> inited (session w) then [Request q] else [])) \<and>
         (\<not> v_isvroot vp \<and> fuse_isdeadfs w vp \<longrightarrow> err = ENXIO \<and> a = vap \<and> w' = w) \<and>
         (\<not> v_isvroot vp \<and> passes \<and> \<not> inited (session w) \<longrightarrow>
            err = ENOTCONN \<and> a = vap \<and> w' = fuse_data_kill w) \<and>
         (passes \<and> inited (session w) \<and> r_error (d (trace w) q) \<noteq> 0 \<and>
          \<not> (v_isvroot vp \<and> r_error (d (trace w) q) = ENOTCONN) \<longrightarrow>
            err = r_error (d (trace w) q) \<and> a = vap \<and>
            (\<exists>es. trace w' = trace w @ Request q # es)) \<and>
         (\<not> fuse_isdeadfs w vp \<and> (\<not> v_isvroot vp \<or> \<not> issuser h) \<and> blanket_deny h vp \<longrightarrow>
            err = ENOENT \<and> a = vap \<and> w' = w) \<and>
         (\<not> fuse_isdeadfs w vp \<and> (v_isvroot vp \<and> issuser h \<or> \<not> blanket_deny h vp) \<and>
          nanouptime h \<le> attr_valid (VTOFUD w vp) \<longrightarrow>
            err = 0 \<and> a = (if own then vap else fuse_internal_attr_loadvap w vp) \<and> w' = w)"
proof -
  note fake = getattr_fake_facts [of vp own]
  have c1: "fuse_isdeadfs w vp \<Longrightarrow> v_isvroot vp \<Longrightarrow>
              (err, a, w') = fuse_vnop_getattr_fake vp own w"
    using res by (simp add: fuse_vnop_getattr_def)
  have c2: "passes \<Longrightarrow> \<not> inited (session w) \<Longrightarrow> v_isvroot vp \<Longrightarrow>
              (err, a, w') = fuse_vnop_getattr_fake vp own w"
    using res by (auto simp: fuse_vnop_getattr_def passes)
  have c3: "passes \<Longrightarrow> inited (session w) \<Longrightarrow> r_error (d (trace w) q) = ENOTCONN \<Longrightarrow>
              v_isvroot vp \<Longrightarrow>
              (err, a, w') = fuse_vnop_getattr_fake vp own (emit (Request q) w)"
    using res by (auto simp: fuse_vnop_getattr_def passes q fuse_dispatcher_wait_answer_def)
  have root: "v_isvroot vp \<and>
            (fuse_isdeadfs w vp \<or>
             passes \<and> (\<not> inited (session w) \<or> r_error (d (trace w) q) = ENOTCONN)) \<longrightarrow>
            err = 0 \<and> va_type a = v_type vp \<and> va_uid a = daemoncred_uid (session w) \<and>
            va_gid a = daemoncred_gid (session w) \<and> va_mode a = S_IRWXU \<and>
            session w' = session w \<and>
            trace w' = trace w @
              (if \<not> fuse_isdeadfs w vp \<and> inited (session w) then [Request q] else [])"
  proof (intro impI, elim conjE)
    assume r: "v_isvroot vp"
      and c: "fuse_isdeadfs w vp \<or>
             passes \<and> (\<not> inited (session w) \<or> r_error (d (trace w) q) = ENOTCONN)"
    consider "fuse_isdeadfs w vp" | "passes" "\<not> inited (session w)"
      | "passes" "inited (session w)" "r_error (d (trace w) q) = ENOTCONN"
      using c by blast
    then show "err = 0 \<and> va_type a = v_type vp \<and> va_uid a = daemoncred_uid (session w) \<and>
            va_gid a = daemoncred_gid (session w) \<and> va_mode a = S_IRWXU \<and>
            session w' = session w \<and>
            trace w' = trace w @
              (if \<not> fuse_isdeadfs w vp \<and> inited (session w) then [Request q] else [])"
    proof cases
      case 1
      from c1 [OF 1 r] have "err = fst (fuse_vnop_getattr_fake vp own w)"
        "a = fst (snd (fuse_vnop_getattr_fake vp own w))"
        "w' = snd (snd (fuse_vnop_getattr_fake vp own w))"
        by (metis fst_conv, metis fst_conv snd_conv, metis snd_conv)
      then show ?thesis
        using 1 by (simp add: getattr_fake_facts)
    next
      case 2
      have "\<not> fuse_isdeadfs w vp" using 2(1) passes by simp
      moreover from c2 [OF 2 r] have "err = fst (fuse_vnop_getattr_fake vp own w)"
        "a = fst (snd (fuse_vnop_getattr_fake vp own w))"
        "w' = snd (snd (fuse_vnop_getattr_fake vp own w))"
        by (metis fst_conv, metis fst_conv snd_conv, metis snd_conv)
      ultimately show ?thesis
        using 2 by (simp add: getattr_fake_facts)
    next
      case 3
      have "\<not> fuse_isdeadfs w vp" using 3(1) passes by simp
      moreover from c3 [OF 3 r]
      have "err = fst (fuse_vnop_getattr_fake vp own (emit (Request q) w))"
        "a = fst (snd (fuse_vnop_getattr_fake vp own (emit (Request q) w)))"
        "w' = snd (snd (fuse_vnop_getattr_fake vp own (emit (Request q) w)))"
        by (metis fst_conv, metis fst_conv snd_conv, metis snd_conv)
      ultimately show ?thesis
        using 3 by (simp add: getattr_fake_facts)
    qed
  qed
  have n1: "\<not> v_isvroot vp \<and> fuse_isdeadfs w vp \<longrightarrow> err = ENXIO \<and> a = vap \<and> w' = w"
    using res by (auto simp: fuse_vnop_getattr_def)
  have n2: "\<not> v_isvroot vp \<and> passes \<and> \<not> inited (session w) \<longrightarrow>
            err = ENOTCONN \<and> a = vap \<and> w' = fuse_data_kill w"
    using res by (auto simp: fuse_vnop_getattr_def passes)
  have n3: "passes \<and> inited (session w) \<and> r_error (d (trace w) q) \<noteq> 0 \<and>
          \<not> (v_isvroot vp \<and> r_error (d (trace w) q) = ENOTCONN) \<longrightarrow>
            err = r_error (d (trace w) q) \<and> a = vap \<and>
            (\<exists>es. trace w' = trace w @ Request q # es)"
    using res
    by (auto simp: fuse_vnop_getattr_def passes q fuse_dispatcher_wait_answer_def
          fuse_vncache_purge_def split: if_splits)
  have n4: "\<not> fuse_isdeadfs w vp \<and> (\<not> v_isvroot vp \<or> \<not> issuser h) \<and> blanket_deny h vp \<longrightarrow>
            err = ENOENT \<and> a = vap \<and> w' = w"
    using res by (auto simp: fuse_vnop_getattr_def)
  have n5: "\<not> fuse_isdeadfs w vp \<and> (v_isvroot vp \<and> issuser h \<or> \<not> blanket_deny h vp) \<and>
          nanouptime h \<le> attr_valid (VTOFUD w vp) \<longrightarrow>
            err = 0 \<and> a = (if own then vap else fuse_internal_attr_loadvap w vp) \<and> w' = w"
    using res by (auto simp: fuse_vnop_getattr_def)
  show ?thesis
    using root n1 n2 n3 n4 n5 by blast
qed


theorem fuse_vnop_getattr_root_fabricated_witness:
  "v_isvroot ex_dvnode \<and> \<not> fuse_isdeadfs ex_uninit_world ex_dvnode \<and>
   \<not> inited (session ex_uninit_world) \<and>
   attr_valid (VTOFUD ex_uninit_world ex_dvnode) < nanouptime ex_host \<and>
   fst (fuse_vnop_getattr ex_host ex_daemon_full ex_dvnode ex_attr False ex_uninit_world) = 0 \<and>
   va_type (fst (snd (fuse_vnop_getattr ex_host ex_daemon_full ex_dvnode ex_attr False
                        ex_uninit_world))) = VDIR \<and>
   va_uid (fst (snd (fuse_vnop_getattr ex_host ex_daemon_full ex_dvnode ex_attr False
                       ex_uninit_world))) = 501 \<and>
   va_mode (fst (snd (fuse_vnop_getattr ex_host ex_daemon_full ex_dvnode ex_attr False
                        ex_uninit_world))) = S_IRWXU \<and>
   trace (snd (snd (fuse_vnop_getattr ex_host ex_daemon_full ex_dvnode ex_attr False
                      ex_uninit_world))) = [] \<and>
   fst (fuse_vnop_getattr ex_host ex_daemon_notconn ex_dvnode ex_attr False ex_world) = 0 \<and>
   va_mode (fst (snd (fuse_vnop_getattr ex_host ex_daemon_notconn ex_dvnode ex_attr False
                        ex_world))) = S_IRWXU \<and>
   trace (snd (snd (fuse_vnop_getattr ex_host ex_daemon_notconn ex_dvnode ex_attr False ex_world)))
     = [Request \<lparr>opcode = FUSE_GETATTR, q_nodeid = 7, indata = Getattr_in\<rparr>] \<and>
   \<not> v_isvroot ex_vnode \<and>
   fst (fuse_vnop_getattr ex_host ex_daemon_notconn ex_vnode ex_attr False ex_world) = ENOTCONN \<and>
   blanket_deny ex_host_denied ex_dvnode \<and> \<not> issuser ex_host_denied \<and>
   fuse_vnop_getattr ex_host_denied ex_daemon_full ex_dvnode ex_attr False ex_world
     = (ENOENT, ex_attr, ex_world) \<and>
   nanouptime ex_host \<le> attr_valid (VTOFUD ex_cached_world ex_dvnode) \<and>
   fuse_vnop_getattr ex_host ex_daemon_full ex_dvnode ex_attr False ex_cached_world
     = (0, \<lparr>va_type = VDIR, va_uid = 0, va_gid = 20, va_mode = 493, va_nlink = 1,
             va_data_size = 0, va_rdev = 0\<rparr>, ex_cached_world)"
proof -
  have pre: "v_isvroot ex_dvnode" "\<not> v_isvroot ex_vnode"
    "\<not> fuse_isdeadfs ex_uninit_world vp" "\<not> fuse_isdeadfs ex_world vp"
    "\<not> inited (session ex_uninit_world)" "inited (session ex_world)"
    "attr_valid (VTOFUD ex_uninit_world vp) < nanouptime ex_host"
    "attr_valid (VTOFUD ex_world vp) < nanouptime ex_host"
    "\<not> blanket_deny ex_host vp" for vp
    by (simp_all add: fuse_isdeadfs_def ex_uninit_world_def ex_world_def ex_session_def
          ex_dvnode_def ex_vnode_def ex_host_def VTOFUD_def ex_node_def)
  have vals: "v_type ex_dvnode = VDIR" "daemoncred_uid (session ex_uninit_world) = 501"
    "trace ex_uninit_world = []" "trace ex_world = []"
    "fuse_dispatcher_make_vp ex_world FUSE_GETATTR vp Getattr_in
       = \<lparr>opcode = FUSE_GETATTR, q_nodeid = 7, indata = Getattr_in\<rparr>"
    "r_error (ex_daemon_notconn hist q) = ENOTCONN" for vp hist q
    by (simp_all add: ex_dvnode_def ex_uninit_world_def ex_world_def ex_session_def
          fuse_dispatcher_make_vp_def fuse_dispatcher_make_def VTOI_def VTOFUD_def ex_node_def
          ex_daemon_notconn_def ex_reply_def)
  obtain e1 a1 w1 where
    r1: "fuse_vnop_getattr ex_host ex_daemon_full ex_dvnode ex_attr False ex_uninit_world = (e1, a1, w1)"
    using prod_cases3 by blast
  obtain e2 a2 w2 where
    r2: "fuse_vnop_getattr ex_host ex_daemon_notconn ex_dvnode ex_attr False ex_world = (e2, a2, w2)"
    using prod_cases3 by blast
  obtain e3 a3 w3 where
    r3: "fuse_vnop_getattr ex_host ex_daemon_notconn ex_vnode ex_attr False ex_world = (e3, a3, w3)"
    using prod_cases3 by blast
  have a: "e1 = 0 \<and> va_type a1 = VDIR \<and> va_uid a1 = 501 \<and> va_mode a1 = S_IRWXU \<and> trace w1 = []"
    using fuse_vnop_getattr_root_fabricated [OF refl refl r1]
    by (simp add: pre vals)
  have b: "e2 = 0 \<and> va_mode a2 = S_IRWXU \<and>
           trace w2 = [Request \<lparr>opcode = FUSE_GETATTR, q_nodeid = 7, indata = Getattr_in\<rparr>]"
    using fuse_vnop_getattr_root_fabricated [OF refl refl r2]
    by (simp add: pre vals)
  have c: "e3 = ENOTCONN"
    using fuse_vnop_getattr_root_fabricated [OF refl refl r3]
    by (simp add: pre vals)
  have pre2: "blanket_deny ex_host_denied ex_dvnode" "\<not> issuser ex_host_denied"
    "nanouptime ex_host \<le> attr_valid (VTOFUD ex_cached_world ex_dvnode)"
    "\<not> fuse_isdeadfs ex_cached_world ex_dvnode"
    "fuse_internal_attr_loadvap ex_cached_world ex_dvnode =
       \<lparr>va_type = VDIR, va_uid = 0, va_gid = 20, va_mode = 493, va_nlink = 1,
        va_data_size = 0, va_rdev = 0\<rparr>"
    by (simp_all add: ex_host_denied_def ex_host_def ex_cached_world_def ex_world_def
          ex_session_def ex_node_def ex_attr_def VTOFUD_def fuse_isdeadfs_def
          fuse_internal_attr_loadvap_def)
  obtain e4 a4 w4 where
    r4: "fuse_vnop_getattr ex_host_denied ex_daemon_full ex_dvnode ex_attr False ex_world = (e4, a4, w4)"
    using prod_cases3 by blast
  obtain e5 a5 w5 where
    r5: "fuse_vnop_getattr ex_host ex_daemon_full ex_dvnode ex_attr False ex_cached_world = (e5, a5, w5)"
    using prod_cases3 by blast
  have dd: "e4 = ENOENT \<and> a4 = ex_attr \<and> w4 = ex_world"
    using fuse_vnop_getattr_root_fabricated [OF refl refl r4, THEN conjunct2, THEN conjunct2,
        THEN conjunct2, THEN conjunct2, THEN conjunct1]
    by (simp add: pre pre2)
  have ee: "e5 = 0 \<and> a5 = \<lparr>va_type = VDIR, va_uid = 0, va_gid = 20, va_mode = 493, va_nlink = 1,
             va_data_size = 0, va_rdev = 0\<rparr> \<and> w5 = ex_cached_world"
    using fuse_vnop_getattr_root_fabricated [OF refl refl r5, THEN conjunct2, THEN conjunct2,
        THEN conjunct2, THEN conjunct2, THEN conjunct2]
    by (simp add: pre pre2)
  show ?thesis
    unfolding r1 r2 r3 r4 r5 fst_conv snd_conv
    using a b c dd ee pre(1) pre(2) pre(3) pre(5) pre(7) pre2(1) pre2(2) pre2(3) by blast
qed


subsection \<open>Operations on a dead session\<close>


text \<open>
  C4, as the claim states it, fails: on a dead session \<^verbatim>\<open>mnomap\<close> returns 0, \<^verbatim>\<open>pagein\<close>
  returns \<^verbatim>\<open>ENOTSUP\<close> and \<^verbatim>\<open>select\<close> returns 1, and none of them is among the exceptions of the
  claim.
\<close>

theorem dead_session_other_results:
  "dead (session ex_dead_world) \<and>
   fuse_vnode_operation_entries ex_host ex_daemon_full (Vnop_mnomap ex_vnode) ex_dead_world
     = Some (0, ex_dead_world) \<and>
   fuse_vnode_operation_entries ex_host ex_daemon_full (Vnop_pagein ex_vnode 0 4096 0) ex_dead_world
     = Some (ENOTSUP, emit (Upl_abort 2) ex_dead_world) \<and>
   fuse_vnode_operation_entries ex_host ex_daemon_full Vnop_select ex_dead_world
     = Some (1, ex_dead_world)"
  by (simp add: ex_dead_world_def ex_world_def ex_session_def ex_vnode_def fuse_vnop_mnomap_def
        fuse_vnop_pagein_def fuse_vnop_select_def fuse_isdeadfs_def)

lemma requests_simps [simp]:
  "requests [] = []" "requests (xs @ ys) = requests xs @ requests ys"
  "requests (Request q # xs) = q # requests xs"
  "requests (Upl_abort n # xs) = requests xs"
  "requests (Buf_error e # xs) = requests xs"
  "requests (Vncache_purge n # xs) = requests xs"
  "requests (Node_destroy n # xs) = requests xs"
  by (simp_all add: requests_def)

lemma getattr_fake_trace:
  "fst (fuse_vnop_getattr_fake vp own w) = 0"
  "trace (snd (snd (fuse_vnop_getattr_fake vp own w))) = trace w"
  by (simp_all add: fuse_vnop_getattr_fake_def Let_def)

text \<open>
  C4, amended. On a dead session every entry of the table returns. The entries for
  \<^verbatim>\<open>allocate\<close>, \<^verbatim>\<open>revoke\<close> and the default are the host's \<^verbatim>\<open>nop_allocate\<close>, \<^verbatim>\<open>nop_revoke\<close> and
  \<^verbatim>\<open>vn_default_error\<close> and return what these return. \<^verbatim>\<open>close\<close>, \<^verbatim>\<open>fsync\<close>, \<^verbatim>\<open>inactive\<close>, \<^verbatim>\<open>reclaim\<close>
  and \<^verbatim>\<open>mnomap\<close> return 0; \<^verbatim>\<open>access\<close> and \<^verbatim>\<open>getattr\<close> return 0 on the root vnode; \<^verbatim>\<open>read\<close>
  returns 0 on a character device; \<^verbatim>\<open>pagein\<close> and \<^verbatim>\<open>pageout\<close> return \<^verbatim>\<open>ENOTSUP\<close>, and their only
  effect is the abort of the page list when \<^verbatim>\<open>UPL_NOCOMMIT\<close> is not set; \<^verbatim>\<open>select\<close> returns 1;
  \<^verbatim>\<open>exchange\<close> returns \<^verbatim>\<open>ENOTSUP\<close> in a build without \<^verbatim>\<open>FUSE4X_ENABLE_EXCHANGE\<close>, and in a build
  with it \<^verbatim>\<open>EXDEV\<close> for vnodes of two mounts, else \<^verbatim>\<open>ENOTSUP\<close> when the \<^verbatim>\<open>EXCHANGE\<close> bit of the
  capability map is clear or the name cache is off, else \<^verbatim>\<open>EINVAL\<close> when the two vnodes are
  one or are not both regular files. Every other call returns \<^verbatim>\<open>ENXIO\<close>. No entry hands a
  request to the daemon, \<^verbatim>\<open>inactive\<close> as long as no slot of its vnode is valid.
\<close>

theorem dead_session_results:
  assumes "dead (session w)"
  shows "\<exists>w'. fuse_vnode_operation_entries h d a w
                 = Some (case dead_exception h w a of Some r \<Rightarrow> r | None \<Rightarrow> ENXIO, w') \<and>
               ((\<forall>vp. a = Vnop_inactive vp \<longrightarrow> (\<forall>t. \<not> FUFH_IS_VALID (fufh (VTOFUD w vp) t))) \<longrightarrow>
                  requests (trace w') = requests (trace w)) \<and>
               (\<forall>vp f_offset a_size flags.
                  a = Vnop_pagein vp f_offset a_size flags \<or>
                  a = Vnop_pageout vp f_offset a_size flags \<longrightarrow>
                  w' = (if flags AND UPL_NOCOMMIT = 0 then emit (Upl_abort (v_id vp)) w else w))"
proof (cases a)
  case (Vnop_getattr vp vap own)
  then show ?thesis
    using assms getattr_fake_trace [of vp own w]
    by (cases "fuse_vnop_getattr_fake vp own w")
       (auto simp: fuse_vnop_getattr_def fuse_isdeadfs_def ret2_def)
next
  case (Vnop_exchange fvp tvp options)
  then show ?thesis
    using assms by (auto simp: fuse_vnop_exchange_def fuse_isdeadfs_def)
next
  case (Vnop_inactive vp)
  then show ?thesis
    by (simp add: fuse_vnop_inactive_def fufh_reset_put_def)
qed (use assms in \<open>simp_all add: fuse_isdeadfs_def ret2_def ret3_def Let_def
      fuse_vnop_access_def fuse_vnop_blktooff_def fuse_vnop_blockmap_def fuse_vnop_close_def
      fuse_vnop_create_def fuse_vnop_fsync_def fuse_vnop_getxattr_def
      fuse_vnop_ioctl_def fuse_vnop_link_def fuse_vnop_listxattr_def fuse_vnop_lookup_def
      fuse_vnop_mkdir_def fuse_vnop_mknod_def fuse_vnop_mmap_def fuse_vnop_mnomap_def
      fuse_vnop_offtoblk_def fuse_vnop_open_def fuse_vnop_pagein_def fuse_vnop_pageout_def
      fuse_vnop_pathconf_def fuse_vnop_read_def fuse_vnop_readdir_def fuse_vnop_readlink_def
      fuse_vnop_reclaim_def fuse_vnop_remove_def fuse_vnop_removexattr_def fuse_vnop_rename_def
      fuse_vnop_rmdir_def fuse_vnop_select_def fuse_vnop_setattr_def fuse_vnop_setxattr_def
      fuse_vnop_strategy_def fuse_vnop_symlink_def fuse_vnop_write_def fuse_vncache_purge_def
      split: option.splits\<close>)

theorem dead_session_results_witness:
  "dead (session ex_dead_world) \<and>
   (\<exists>w'. fuse_vnode_operation_entries ex_host ex_daemon_full
            (Vnop_write ex_vnode \<lparr>uio_resid = 10, uio_offset = 0, uio_mem = []\<rparr> 0) ex_dead_world
          = Some (ENXIO, w') \<and> requests (trace w') = []) \<and>
   (\<exists>w'. fuse_vnode_operation_entries ex_host ex_daemon_full (Vnop_fsync ex_vnode) ex_dead_world
          = Some (0, w') \<and> requests (trace w') = []) \<and>
   fuse_vnode_operation_entries ex_host ex_daemon_full (Vnop_pageout ex_vnode 0 4096 0)
            ex_dead_world
          = Some (ENOTSUP, emit (Upl_abort 2) ex_dead_world) \<and>
   (\<exists>w'. fuse_vnode_operation_entries ex_host ex_daemon_full (Vnop_getattr ex_dvnode ex_attr False)
            ex_dead_world
          = Some (0, w') \<and> requests (trace w') = []) \<and>
   (\<exists>w'. fuse_vnode_operation_entries ex_host ex_daemon_full (Vnop_getattr ex_vnode ex_attr False)
            ex_dead_world
          = Some (ENXIO, w') \<and> requests (trace w') = []) \<and>
   (\<exists>w'. fuse_vnode_operation_entries ex_host ex_daemon_full (Vnop_exchange ex_vnode ex_vnode 0)
            ex_dead_world
          = Some (ENOTSUP, w') \<and> requests (trace w') = []) \<and>
   (\<exists>w'. fuse_vnode_operation_entries ex_host ex_daemon_full Vnop_default ex_dead_world
          = Some (ENOTSUP, w') \<and> requests (trace w') = []) \<and>
   \<not> FUFH_IS_VALID (fufh (VTOFUD ex_dead_world ex_vnode) FUFH_RDONLY) \<and>
   \<not> FUFH_IS_VALID (fufh (VTOFUD ex_dead_world ex_vnode) FUFH_WRONLY) \<and>
   \<not> FUFH_IS_VALID (fufh (VTOFUD ex_dead_world ex_vnode) FUFH_RDWR) \<and>
   (\<exists>w'. fuse_vnode_operation_entries ex_host ex_daemon_full (Vnop_inactive ex_vnode) ex_dead_world
          = Some (0, w') \<and> requests (trace w') = [])"
proof -
  have dead: "dead (session ex_dead_world)" and tr: "trace ex_dead_world = []"
    by (simp_all add: ex_dead_world_def ex_world_def ex_session_def)
  have root: "v_isvroot ex_dvnode" "\<not> v_isvroot ex_vnode" "v_id ex_vnode = 2"
    by (simp_all add: ex_dvnode_def ex_vnode_def)
  have hst: "\<not> FUSE4X_ENABLE_EXCHANGE ex_host" "vn_default_error ex_host = ENOTSUP"
    by (simp_all add: ex_host_def)
  have inv: "\<not> FUFH_IS_VALID (fufh (VTOFUD ex_dead_world ex_vnode) t)" for t
    by (simp add: FUFH_IS_VALID_def VTOFUD_def ex_dead_world_def ex_world_def ex_node_def
          ex_fufh_def)
  show ?thesis
    using dead_session_results [OF dead, of ex_host ex_daemon_full
            "Vnop_write ex_vnode \<lparr>uio_resid = 10, uio_offset = 0, uio_mem = []\<rparr> 0"]
          dead_session_results [OF dead, of ex_host ex_daemon_full "Vnop_fsync ex_vnode"]
          dead_session_results [OF dead, of ex_host ex_daemon_full "Vnop_pageout ex_vnode 0 4096 0"]
          dead_session_results [OF dead, of ex_host ex_daemon_full "Vnop_getattr ex_dvnode ex_attr False"]
          dead_session_results [OF dead, of ex_host ex_daemon_full "Vnop_getattr ex_vnode ex_attr False"]
          dead_session_results [OF dead, of ex_host ex_daemon_full "Vnop_exchange ex_vnode ex_vnode 0"]
          dead_session_results [OF dead, of ex_host ex_daemon_full "Vnop_default"]
          dead_session_results [OF dead, of ex_host ex_daemon_full "Vnop_inactive ex_vnode"]
    by (simp add: dead tr root hst inv)
qed


end
